theory Spec2Isabelle
  imports Main "HOL-Library.Word"
begin

section \<open>The admin request engine of rdkafka_admin.c\<close>

text \<open>
  A shallow embedding of \<^verbatim>\<open>src/rdkafka_admin.c\<close>: the option setters, the enum
  name lookups, the accessors of config entries and resources, the broker
  pre-flight of AlterConfigs and DescribeConfigs, the five response parsers and
  the worker state machine.

  Conventions. A C string is a \<^typ>\<open>string\<close> holding the bytes before the terminating
  NUL, a protocol string the bytes its length counts; a pointer that may be NULL
  is an \<^typ>\<open>'a option\<close>. \<^verbatim>\<open>int\<close>, \<^verbatim>\<open>int32_t\<close> and the enums are \<^typ>\<open>int\<close> where the
  code only compares them, and \<^typ>\<open>32 word\<close> where a cast between signed and
  unsigned decides the result. The parsers of CreateTopics, DeleteTopics,
  CreatePartitions and AlterConfigs read every field of a response element
  before they decide on it: their reply buffer is the sequence of the elements
  read, and a read past its end is a failed read. DescribeConfigs can leave an
  element in the middle: its reply buffer is given with the read primitives.
\<close>

subsection \<open>Error codes and enumerations\<close>

text \<open>
  Modelled from the spec: the enumerators of \<^verbatim>\<open>rd_kafka_resp_err_t\<close> are declared in
  rdkafka.h, which is not under src/. The spec names them NoError,
  DestroyRequested, TimedOut, BadMessage, InvalidArg, Conflict and the broker's
  "request timed out"; the proofs use only that they are distinct and that
  NoError is 0.
\<close>

definition RD_KAFKA_RESP_ERR_NO_ERROR :: int where
  "RD_KAFKA_RESP_ERR_NO_ERROR = 0"

definition RD_KAFKA_RESP_ERR__BAD_MSG :: int where
  "RD_KAFKA_RESP_ERR__BAD_MSG = - 199"

definition RD_KAFKA_RESP_ERR__DESTROY :: int where
  "RD_KAFKA_RESP_ERR__DESTROY = - 197"

definition RD_KAFKA_RESP_ERR__INVALID_ARG :: int where
  "RD_KAFKA_RESP_ERR__INVALID_ARG = - 186"

definition RD_KAFKA_RESP_ERR__TIMED_OUT :: int where
  "RD_KAFKA_RESP_ERR__TIMED_OUT = - 185"

definition RD_KAFKA_RESP_ERR__CONFLICT :: int where
  "RD_KAFKA_RESP_ERR__CONFLICT = - 173"

definition RD_KAFKA_RESP_ERR_REQUEST_TIMED_OUT :: int where
  "RD_KAFKA_RESP_ERR_REQUEST_TIMED_OUT = 7"

named_theorems err_defs

declare RD_KAFKA_RESP_ERR_NO_ERROR_def [err_defs]
declare RD_KAFKA_RESP_ERR__BAD_MSG_def [err_defs]
declare RD_KAFKA_RESP_ERR__DESTROY_def [err_defs]
declare RD_KAFKA_RESP_ERR__INVALID_ARG_def [err_defs]
declare RD_KAFKA_RESP_ERR__TIMED_OUT_def [err_defs]
declare RD_KAFKA_RESP_ERR__CONFLICT_def [err_defs]
declare RD_KAFKA_RESP_ERR_REQUEST_TIMED_OUT_def [err_defs]

text \<open>
  Modelled from the spec: \<^verbatim>\<open>rd_kafka_ConfigSource_t\<close> and \<^verbatim>\<open>rd_kafka_ResourceType_t\<close>
  are declared in rdkafka.h, which is not under src/. Their enumerators are the
  entries of the two name tables of rdkafka_admin.c, in order, followed by the
  count.
\<close>

definition RD_KAFKA_CONFIG_SOURCE_UNKNOWN_CONFIG :: int where
  "RD_KAFKA_CONFIG_SOURCE_UNKNOWN_CONFIG = 0"

definition RD_KAFKA_CONFIG_SOURCE_DEFAULT_CONFIG :: int where
  "RD_KAFKA_CONFIG_SOURCE_DEFAULT_CONFIG = 5"

definition RD_KAFKA_CONFIG_SOURCE__CNT :: int where
  "RD_KAFKA_CONFIG_SOURCE__CNT = 6"

definition RD_KAFKA_RESOURCE_TOPIC :: int where
  "RD_KAFKA_RESOURCE_TOPIC = 2"

definition RD_KAFKA_RESOURCE_BROKER :: int where
  "RD_KAFKA_RESOURCE_BROKER = 4"

definition RD_KAFKA_RESOURCE__CNT :: int where
  "RD_KAFKA_RESOURCE__CNT = 5"

definition INT32_MAX :: int where
  "INT32_MAX = 2147483647"

text \<open>\<^verbatim>\<open>long\<close> is 64 bits wide (LP64).\<close>

definition LONG_MAX :: int where
  "LONG_MAX = 9223372036854775807"

definition LONG_MIN :: int where
  "LONG_MIN = - 9223372036854775808"

subsection \<open>C library and rd_list helpers\<close>

text \<open>Reading \<^verbatim>\<open>a[i]\<close>: \<open>None\<close> when the index is outside the array.\<close>

definition c_array_read :: "'a list \<Rightarrow> int \<Rightarrow> 'a option" where
  "c_array_read xs i = (if 0 \<le> i \<and> i < int (length xs) then Some (xs ! nat i) else None)"

text \<open>The cast \<^verbatim>\<open>(unsigned int)x\<close> of a 32-bit value, and \<^verbatim>\<open>(int32_t)x\<close> of a long.\<close>

definition to_unsigned_int :: "32 word \<Rightarrow> int" where
  "to_unsigned_int x = uint x"

definition to_int32 :: "int \<Rightarrow> int" where
  "to_int32 x = sint (word_of_int x :: 32 word)"

text \<open>
  The C string at an address ends before the first NUL of the bytes there:
  \<^verbatim>\<open>strlen\<close> and \<^verbatim>\<open>strcmp\<close> read no further. Of \<^verbatim>\<open>strcmp\<close> only the sign of the result is
  specified.
\<close>

definition c_str :: "string \<Rightarrow> string" where
  "c_str s = takeWhile (\<lambda>c. c \<noteq> CHR 0x00) s"

definition strlen :: "string \<Rightarrow> nat" where
  "strlen s = length (c_str s)"

fun compare_chars :: "string \<Rightarrow> string \<Rightarrow> int" where
  "compare_chars [] [] = 0"
| "compare_chars [] (y # ys) = - 1"
| "compare_chars (x # xs) [] = 1"
| "compare_chars (x # xs) (y # ys) =
     (if x = y then compare_chars xs ys
      else if (of_char x :: nat) < of_char y then - 1 else 1)"

definition strcmp :: "string \<Rightarrow> string \<Rightarrow> int" where
  "strcmp a b = compare_chars (c_str a) (c_str b)"

text \<open>\<^verbatim>\<open>rd_strcasecmp\<close> is used for equality only: the ASCII letters fold to lower case.\<close>

definition c_tolower :: "char \<Rightarrow> char" where
  "c_tolower c =
     (let n = (of_char c :: nat) in if 65 \<le> n \<and> n \<le> 90 then char_of (n + 32) else c)"

definition rd_strcasecmp :: "string \<Rightarrow> string \<Rightarrow> int" where
  "rd_strcasecmp a b = strcmp (map c_tolower a) (map c_tolower b)"

text \<open>
  \<^verbatim>\<open>strtol(nptr, &endptr, 10)\<close> of the C library: white space is skipped, an optional
  sign is read, then the decimal digits; the value is clamped to the range of
  \<^verbatim>\<open>long\<close>. The second component is \<^verbatim>\<open>endptr - nptr\<close>, which is 0 when no digit was
  read.
\<close>

definition c_isspace :: "char \<Rightarrow> bool" where
  "c_isspace c = (let n = (of_char c :: nat) in n = 32 \<or> (9 \<le> n \<and> n \<le> 13))"

definition c_isdigit :: "char \<Rightarrow> bool" where
  "c_isdigit c = (let n = (of_char c :: nat) in 48 \<le> n \<and> n \<le> 57)"

definition digits_value :: "string \<Rightarrow> int" where
  "digits_value ds = foldl (\<lambda>acc c. acc * 10 + (int (of_char c) - 48)) 0 ds"

definition strtol :: "string \<Rightarrow> int \<times> nat" where
  "strtol nptr =
     (let ws = takeWhile c_isspace nptr;
          s1 = dropWhile c_isspace nptr;
          neg = (s1 \<noteq> [] \<and> hd s1 = CHR ''-'');
          sg = (if s1 \<noteq> [] \<and> (hd s1 = CHR ''-'' \<or> hd s1 = CHR ''+'') then 1 else 0);
          ds = takeWhile c_isdigit (drop sg s1)
      in if ds = [] then (0, 0)
         else (max LONG_MIN (min LONG_MAX (if neg then - digits_value ds else digits_value ds)),
               length ws + sg + length ds))"

text \<open>
  Modelled from the spec: the list helpers of rdlist.c, which is not under src/.
  The request's args are a list without NULL entries. A result list holds the
  per-element results "at the same positions as the corresponding inputs in
  Args": \<^verbatim>\<open>rd_list_set\<close> stores at an index, the positions below it that were
  never set are NULL (\<open>None\<close>), and the count is one more than the highest
  position set. \<^verbatim>\<open>rd_list_init\<close> reserves room and leaves the list empty;
  \<^verbatim>\<open>rd_list_index\<close> is the position of the first element the comparator finds
  equal to the key, or -1; \<^verbatim>\<open>rd_list_elem\<close> is NULL past the count.
\<close>

definition rd_list_cnt :: "'a list \<Rightarrow> int" where
  "rd_list_cnt rl = int (length rl)"

definition rd_list_init :: "int \<Rightarrow> 'a option list" where
  "rd_list_init initial_size = []"

fun rd_list_index_from :: "int \<Rightarrow> 'a list \<Rightarrow> 'b \<Rightarrow> ('b \<Rightarrow> 'a \<Rightarrow> int) \<Rightarrow> int" where
  "rd_list_index_from i [] match cmp = - 1"
| "rd_list_index_from i (elem # rl) match cmp =
     (if cmp match elem = 0 then i else rd_list_index_from (i + 1) rl match cmp)"

definition rd_list_index :: "'a list \<Rightarrow> 'b \<Rightarrow> ('b \<Rightarrow> 'a \<Rightarrow> int) \<Rightarrow> int" where
  "rd_list_index rl match cmp = rd_list_index_from 0 rl match cmp"

definition rd_list_elem :: "'a option list \<Rightarrow> int \<Rightarrow> 'a option" where
  "rd_list_elem rl idx = (if 0 \<le> idx \<and> idx < rd_list_cnt rl then rl ! nat idx else None)"

definition rd_list_set :: "'a option list \<Rightarrow> int \<Rightarrow> 'a \<Rightarrow> 'a option list" where
  "rd_list_set rl idx ptr =
     (if idx \<ge> rd_list_cnt rl
      then rl @ replicate (nat idx - length rl) None @ [Some ptr]
      else rl[nat idx := Some ptr])"

subsection \<open>Enum names\<close>

definition ConfigSource_names :: "string list" where
  "ConfigSource_names =
     [''UNKNOWN_CONFIG'', ''DYNAMIC_TOPIC_CONFIG'', ''DYNAMIC_BROKER_CONFIG'',
      ''DYNAMIC_DEFAULT_BROKER_CONFIG'', ''STATIC_BROKER_CONFIG'', ''DEFAULT_CONFIG'']"

definition rd_kafka_ConfigSource_name :: "32 word \<Rightarrow> string option" where
  "rd_kafka_ConfigSource_name confsource =
     (if to_unsigned_int confsource \<ge> RD_KAFKA_CONFIG_SOURCE__CNT
      then Some ''UNSUPPORTED''
      else c_array_read ConfigSource_names (sint confsource))"

definition ResourceType_names :: "string list" where
  "ResourceType_names = [''UNKNOWN'', ''ANY'', ''TOPIC'', ''GROUP'', ''BROKER'']"

definition rd_kafka_ResourceType_name :: "32 word \<Rightarrow> string option" where
  "rd_kafka_ResourceType_name restype =
     (if to_unsigned_int restype \<ge> RD_KAFKA_RESOURCE__CNT
      then Some ''UNSUPPORTED''
      else c_array_read ResourceType_names (sint restype))"

subsection \<open>Admin options\<close>

text \<open>
  Modelled from the spec: \<^verbatim>\<open>rd_kafka_confval_t\<close> and its functions live in
  rdkafka_confval.c, which is not under src/. An option has a range and a
  default (the Range and Default columns of the spec's option table);
  \<^verbatim>\<open>rd_kafka_confval_init_int\<close> takes a minimum, a maximum and the default, and the
  value starts at the default. The table gives \<open>broker\<close> the range
  "0 ... INT32_MAX, or -1" and the default -1, where the source initialises it
  with 0, \<^verbatim>\<open>INT32_MAX\<close> and -1; for the other options the default lies between the
  minimum and the maximum. So the values an option admits are those from its
  minimum to its maximum and its default. Setting an option that does not apply
  to the API fails with InvalidArg, and so does a value the option does not
  admit ("bad option range"); otherwise the value is stored.
  \<^verbatim>\<open>rd_kafka_confval_set_type\<close> is called with \<^verbatim>\<open>RD_KAFKA_CONFVAL_INT\<close> and the address of
  an \<^verbatim>\<open>int\<close>, which is the argument here.
\<close>

record rd_kafka_confval_t =
  cv_name :: string
  cv_is_enabled :: bool
  cv_vmin :: int
  cv_vmax :: int
  cv_vdef :: int
  cv_v :: int
  cv_is_set :: bool

definition rd_kafka_confval_init_int :: "string \<Rightarrow> int \<Rightarrow> int \<Rightarrow> int \<Rightarrow> rd_kafka_confval_t" where
  "rd_kafka_confval_init_int nm vmin vmax vdef =
     \<lparr>cv_name = nm, cv_is_enabled = True, cv_vmin = vmin, cv_vmax = vmax,
      cv_vdef = vdef, cv_v = vdef, cv_is_set = False\<rparr>"

definition rd_kafka_confval_disable :: "string \<Rightarrow> rd_kafka_confval_t" where
  "rd_kafka_confval_disable nm =
     \<lparr>cv_name = nm, cv_is_enabled = False, cv_vmin = 0, cv_vmax = 0,
      cv_vdef = 0, cv_v = 0, cv_is_set = False\<rparr>"

definition rd_kafka_confval_set_type :: "rd_kafka_confval_t \<Rightarrow> int \<Rightarrow> int + rd_kafka_confval_t" where
  "rd_kafka_confval_set_type confval v =
     (if \<not> cv_is_enabled confval then Inl RD_KAFKA_RESP_ERR__INVALID_ARG
      else if (v < cv_vmin confval \<or> v > cv_vmax confval) \<and> v \<noteq> cv_vdef confval
      then Inl RD_KAFKA_RESP_ERR__INVALID_ARG
      else Inr (confval\<lparr>cv_v := v, cv_is_set := True\<rparr>))"

definition rd_kafka_confval_get_int :: "rd_kafka_confval_t \<Rightarrow> int" where
  "rd_kafka_confval_get_int confval = cv_v confval"

record rd_kafka_AdminOptions_t =
  for_api :: "string option"
  request_timeout :: rd_kafka_confval_t
  operation_timeout :: rd_kafka_confval_t
  validate_only :: rd_kafka_confval_t
  incremental :: rd_kafka_confval_t
  broker :: rd_kafka_confval_t

text \<open>
  The client handle \<open>rk\<close>, as far as this file reads it: whether the client is
  terminating, the configured default request timeout, the clock behind
  \<^verbatim>\<open>rd_timeout_init\<close> and \<^verbatim>\<open>rd_timeout_remains_us\<close> (rdtime.h, not under src/: both
  are taken as given), and what the two broker lookups answer. A broker
  reference is its node id.
\<close>

record rd_kafka_t =
  rk_terminating :: bool
  rk_admin_request_timeout_ms :: int
  rk_timeout_init :: "int \<Rightarrow> int"
  rk_timeout_remains_us :: "int \<Rightarrow> int"
  rk_broker_get_async :: "int \<Rightarrow> int option"
  rk_broker_controller_async :: "int option"

definition api_is :: "string option \<Rightarrow> string \<Rightarrow> bool" where
  "api_is api nm = (case api of None \<Rightarrow> False | Some a \<Rightarrow> rd_strcasecmp a nm = 0)"

definition rd_kafka_AdminOptions_init :: "rd_kafka_t \<Rightarrow> string option \<Rightarrow> rd_kafka_AdminOptions_t" where
  "rd_kafka_AdminOptions_init rk api =
     \<lparr>for_api = api,
      request_timeout =
        rd_kafka_confval_init_int ''request_timeout'' 0 (3600 * 1000)
          (rk_admin_request_timeout_ms rk),
      operation_timeout =
        (if api = None \<or> api_is api ''CreateTopics'' \<or> api_is api ''DeleteTopics''
            \<or> api_is api ''CreatePartitions''
         then rd_kafka_confval_init_int ''operation_timeout'' (- 1) (3600 * 1000) 0
         else rd_kafka_confval_disable ''operation_timeout''),
      validate_only =
        (if api = None \<or> api_is api ''CreateTopics'' \<or> api_is api ''CreatePartitions''
            \<or> api_is api ''AlterConfigs''
         then rd_kafka_confval_init_int ''validate_only'' 0 1 0
         else rd_kafka_confval_disable ''validate_only''),
      incremental =
        (if api = None \<or> api_is api ''AlterConfigs''
         then rd_kafka_confval_init_int ''incremental'' 0 1 0
         else rd_kafka_confval_disable ''incremental''),
      broker = rd_kafka_confval_init_int ''broker'' 0 INT32_MAX (- 1)\<rparr>"

definition valid_apis :: "string list" where
  "valid_apis =
     [''CreateTopics'', ''DeleteTopics'', ''CreatePartitions'', ''AlterConfigs'',
      ''DescribeConfigs'']"

definition rd_kafka_AdminOptions_new :: "rd_kafka_t \<Rightarrow> string option \<Rightarrow> rd_kafka_AdminOptions_t option" where
  "rd_kafka_AdminOptions_new rk api =
     (if api \<noteq> None \<and> \<not> (\<exists>v \<in> set valid_apis. api_is api v) then None
      else Some (rd_kafka_AdminOptions_init rk api))"

definition rd_kafka_AdminOptions_set_broker :: "rd_kafka_AdminOptions_t \<Rightarrow> 32 word \<Rightarrow> int + rd_kafka_AdminOptions_t" where
  "rd_kafka_AdminOptions_set_broker options broker_id =
     (let ibroker_id = sint broker_id in
      case rd_kafka_confval_set_type (broker options) ibroker_id of
        Inl err \<Rightarrow> Inl err
      | Inr cv \<Rightarrow> Inr (options\<lparr>broker := cv\<rparr>))"

subsection \<open>Config entries and config resources\<close>

record ConfigEntry_a =
  source :: int
  is_readonly :: bool
  is_default :: bool
  is_sensitive :: bool
  is_synonym :: bool

datatype rd_kafka_ConfigEntry_t =
  ConfigEntry (kv_name: string) (kv_value: "string option") (ce_a: ConfigEntry_a)
    (synonyms: "rd_kafka_ConfigEntry_t list")

text \<open>\<^verbatim>\<open>rd_calloc\<close> zeroes the attributes.\<close>

definition ConfigEntry_a_zero :: ConfigEntry_a where
  "ConfigEntry_a_zero =
     \<lparr>source = 0, is_readonly = False, is_default = False, is_sensitive = False,
      is_synonym = False\<rparr>"

text \<open>
  Modelled from the spec: \<^verbatim>\<open>rd_strtup_new0\<close> (rdstring.c, not under src/) makes the
  name and value pair of an entry, "a config-entry has name, value": it copies
  the bytes it is given the length of and terminates them, so that the name and
  the value are the C strings at these copies.
\<close>

definition rd_strtup_new0 :: "string \<Rightarrow> string option \<Rightarrow> string \<times> string option" where
  "rd_strtup_new0 nm val = (c_str nm, map_option c_str val)"

definition rd_kafka_ConfigEntry_new0 :: "string option \<Rightarrow> string option \<Rightarrow> rd_kafka_ConfigEntry_t option" where
  "rd_kafka_ConfigEntry_new0 nm val =
     (case nm of
        None \<Rightarrow> None
      | Some n \<Rightarrow>
          Some (ConfigEntry (fst (rd_strtup_new0 n val)) (snd (rd_strtup_new0 n val))
                  (ConfigEntry_a_zero\<lparr>source := RD_KAFKA_CONFIG_SOURCE_UNKNOWN_CONFIG\<rparr>) []))"

definition rd_kafka_ConfigEntry_source :: "rd_kafka_ConfigEntry_t \<Rightarrow> int" where
  "rd_kafka_ConfigEntry_source entry = source (ce_a entry)"

definition rd_kafka_ConfigEntry_is_default :: "rd_kafka_ConfigEntry_t \<Rightarrow> bool" where
  "rd_kafka_ConfigEntry_is_default entry = is_default (ce_a entry)"

text \<open>
  The two array accessors return the element array and write the count through
  \<open>cntp\<close>: the pair is (returned pointer, \<open>*cntp\<close>).
\<close>

definition rd_kafka_ConfigEntry_synonyms :: "rd_kafka_ConfigEntry_t \<Rightarrow> rd_kafka_ConfigEntry_t list option \<times> int" where
  "rd_kafka_ConfigEntry_synonyms entry =
     (let cnt = rd_list_cnt (synonyms entry) in
      if cnt = 0 then (None, cnt) else (Some (synonyms entry), cnt))"

datatype errstr_t = Err2str int | Errmsg string

record rd_kafka_ConfigResource_t =
  restype :: int
  res_name :: string
  config :: "rd_kafka_ConfigEntry_t list"
  res_err :: int
  res_errstr :: "errstr_t option"

text \<open>The name is copied with its terminator, \<open>namesz + 1\<close> bytes.\<close>

definition rd_kafka_ConfigResource_new :: "int \<Rightarrow> string option \<Rightarrow> rd_kafka_ConfigResource_t option" where
  "rd_kafka_ConfigResource_new rtype resname =
     (let namesz = (case resname of None \<Rightarrow> 0 | Some s \<Rightarrow> strlen s) in
      if namesz = 0 \<or> rtype < 0 then None
      else Some \<lparr>restype = rtype, res_name = c_str (the resname), config = [], res_err = 0,
                 res_errstr = None\<rparr>)"

definition rd_kafka_ConfigResource_cmp :: "rd_kafka_ConfigResource_t \<Rightarrow> rd_kafka_ConfigResource_t \<Rightarrow> int" where
  "rd_kafka_ConfigResource_cmp a b =
     (if restype a \<noteq> restype b then restype a - restype b
      else strcmp (res_name a) (res_name b))"

definition rd_kafka_ConfigResource_configs :: "rd_kafka_ConfigResource_t \<Rightarrow> rd_kafka_ConfigEntry_t list option \<times> int" where
  "rd_kafka_ConfigResource_configs cfg =
     (let cnt = rd_list_cnt (config cfg) in
      if cnt = 0 then (None, cnt) else (Some (config cfg), cnt))"

text \<open>
  The scan for a BROKER resource. \<open>Inl\<close> is the error code returned, \<open>Inr\<close> the
  value written through \<open>broker_idp\<close>.
\<close>

fun get_single_broker_id_loop :: "rd_kafka_ConfigResource_t list \<Rightarrow> int \<Rightarrow> int + int" where
  "get_single_broker_id_loop [] broker_id = Inr broker_id"
| "get_single_broker_id_loop (cfg # configs) broker_id =
     (if restype cfg \<noteq> RD_KAFKA_RESOURCE_BROKER
      then get_single_broker_id_loop configs broker_id
      else if broker_id \<noteq> - 1 then Inl RD_KAFKA_RESP_ERR__CONFLICT
      else
        (let r = to_int32 (fst (strtol (res_name cfg)));
             endptr = snd (strtol (res_name cfg))
         in if r = LONG_MIN \<or> r = LONG_MAX \<or> endptr = 0 \<or> r < 0
            then Inl RD_KAFKA_RESP_ERR__INVALID_ARG
            else get_single_broker_id_loop configs r))"

definition rd_kafka_ConfigResource_get_single_broker_id :: "rd_kafka_ConfigResource_t list \<Rightarrow> int + int" where
  "rd_kafka_ConfigResource_get_single_broker_id configs =
     get_single_broker_id_loop configs (- 1)"

subsection \<open>Request arguments, replies and results\<close>

record rd_kafka_NewTopic_t =
  nt_topic :: string
  num_partitions :: int
  replication_factor :: int
  nt_replicas :: "int list list"
  nt_config :: "rd_kafka_ConfigEntry_t list"

record rd_kafka_DeleteTopic_t =
  dt_topic :: string

record rd_kafka_NewPartitions_t =
  np_topic :: string
  total_cnt :: int
  np_replicas :: "int list list"

definition rd_kafka_NewTopic_cmp :: "rd_kafka_NewTopic_t \<Rightarrow> rd_kafka_NewTopic_t \<Rightarrow> int" where
  "rd_kafka_NewTopic_cmp a b = strcmp (nt_topic a) (nt_topic b)"

definition rd_kafka_DeleteTopic_cmp :: "rd_kafka_DeleteTopic_t \<Rightarrow> rd_kafka_DeleteTopic_t \<Rightarrow> int" where
  "rd_kafka_DeleteTopic_cmp a b = strcmp (dt_topic a) (dt_topic b)"

definition rd_kafka_NewPartitions_cmp :: "rd_kafka_NewPartitions_t \<Rightarrow> rd_kafka_NewPartitions_t \<Rightarrow> int" where
  "rd_kafka_NewPartitions_cmp a b = strcmp (np_topic a) (np_topic b)"

text \<open>
  The parsers search the args with a skeleton \<open>skel\<close> of which only the key is
  assigned and read; its other fields are filled with zeroes here.
\<close>

definition NewTopic_skel :: "string \<Rightarrow> rd_kafka_NewTopic_t" where
  "NewTopic_skel t =
     \<lparr>nt_topic = t, num_partitions = 0, replication_factor = 0, nt_replicas = [],
      nt_config = []\<rparr>"

definition DeleteTopic_skel :: "string \<Rightarrow> rd_kafka_DeleteTopic_t" where
  "DeleteTopic_skel t = \<lparr>dt_topic = t\<rparr>"

definition NewPartitions_skel :: "string \<Rightarrow> rd_kafka_NewPartitions_t" where
  "NewPartitions_skel t = \<lparr>np_topic = t, total_cnt = 0, np_replicas = []\<rparr>"

definition ConfigResource_skel :: "int \<Rightarrow> string \<Rightarrow> rd_kafka_ConfigResource_t" where
  "ConfigResource_skel rtype nm =
     \<lparr>restype = rtype, res_name = nm, config = [], res_err = 0, res_errstr = None\<rparr>"

text \<open>
  Modelled from the spec: the protocol string \<^verbatim>\<open>rd_kafkap_str_t\<close> and its macros
  (rdkafka_proto.h) and \<^verbatim>\<open>rd_kafka_topic_result_new\<close> (rdkafka_aux.c) are not under
  src/. A protocol string is the bytes its length counts, which may hold a NUL,
  or the null string (\<open>None\<close>), of length 0. \<^verbatim>\<open>RD_KAFKAP_STR_DUPA\<close> and
  \<^verbatim>\<open>rd_kafka_topic_result_new\<close> copy the bytes and terminate them, none for the null
  string: the "topic name" of a topic result, like every copy, is the C string
  at the copy.
\<close>

definition RD_KAFKAP_STR_LEN :: "string option \<Rightarrow> nat" where
  "RD_KAFKAP_STR_LEN kstr = (case kstr of None \<Rightarrow> 0 | Some s \<Rightarrow> length s)"

definition RD_KAFKAP_STR_DUPA :: "string option \<Rightarrow> string" where
  "RD_KAFKAP_STR_DUPA kstr = (case kstr of None \<Rightarrow> [] | Some s \<Rightarrow> c_str s)"

record rd_kafka_topic_result_t =
  tr_topic :: string
  tr_err :: int
  tr_errstr :: "errstr_t option"

definition rd_kafka_topic_result_new :: "string option \<Rightarrow> int \<Rightarrow> errstr_t option \<Rightarrow> rd_kafka_topic_result_t" where
  "rd_kafka_topic_result_new ktopic e es =
     \<lparr>tr_topic = RD_KAFKAP_STR_DUPA ktopic, tr_err = e, tr_errstr = es\<rparr>"

text \<open>The fields one response element carries on the wire, in reading order.\<close>

record wire_topic =
  w_ktopic :: "string option"
  w_error_code :: int
  w_error_msg :: "string option"

record wire_alter_resource =
  ar_error_code :: int
  ar_error_msg :: "string option"
  ar_res_type :: int
  ar_res_name :: "string option"

text \<open>
  The reply buffer: the negotiated ApiVersion, the element count the response
  declares and the elements that can be read from it. The throttle time, which
  the parsers hand to the client's throttle accounting, does not reach the
  result and is left out.
\<close>

record 'e rd_kafka_buf_t =
  ApiVersion :: int
  buf_cnt :: int
  buf_elems :: "'e list"

text \<open>
  Modelled from the spec: the read macros \<^verbatim>\<open>rd_kafka_buf_read_i8\<close>, \<^verbatim>\<open>_i16\<close>, \<^verbatim>\<open>_i32\<close>,
  \<^verbatim>\<open>_bool\<close> and \<^verbatim>\<open>_str\<close> are defined in rdkafka_buf.h, which is not under src/; the
  spec counts the decoder of the wire protocol among the external collaborators,
  "assumed available as request-builder and response-reader primitives". They
  are parameters. The reply buffer of DescribeConfigs carries, with the
  negotiated ApiVersion and the offset at which the parser starts to read, one
  function for each macro: from the offset it reads at to the value read and the
  offset behind it, or to nothing when the read fails.
\<close>

record rd_kafka_rbuf_t =
  rkbuf_ApiVersion :: int
  rkbuf_offset :: nat
  buf_read_i8 :: "nat \<Rightarrow> (int \<times> nat) option"
  buf_read_i16 :: "nat \<Rightarrow> (int \<times> nat) option"
  buf_read_i32 :: "nat \<Rightarrow> (int \<times> nat) option"
  buf_read_bool :: "nat \<Rightarrow> (bool \<times> nat) option"
  buf_read_str :: "nat \<Rightarrow> (string option \<times> nat) option"

datatype rd_kafka_admin_state =
  RD_KAFKA_ADMIN_STATE_INIT
| RD_KAFKA_ADMIN_STATE_WAIT_BROKER
| RD_KAFKA_ADMIN_STATE_WAIT_CONTROLLER
| RD_KAFKA_ADMIN_STATE_CONSTRUCT_REQUEST
| RD_KAFKA_ADMIN_STATE_WAIT_RESPONSE

text \<open>
  The request op \<open>rko\<close>: \<open>rko_eonce\<close> says whether the notifier is attached,
  \<open>rko_tmr_started\<close> whether the timeout timer is armed and has not fired.
\<close>

record ('a, 'b) admin_request =
  rko_err :: int
  rko_state :: rd_kafka_admin_state
  rko_abs_timeout :: int
  rko_broker_id :: int
  rko_options :: rd_kafka_AdminOptions_t
  rko_args :: "'a list"
  rko_eonce :: bool
  rko_tmr_started :: bool
  rko_reply_buf :: "'b option"

subsection \<open>Response parsers\<close>

datatype parse_reason =
  Too_many_elements
| Buf_underflow
| Not_in_request
| Multiple_times
| Too_many_synonyms
| Invalid_synonym

text \<open>
  A parser that delivers no result list ends in one of three ways: it returns
  an error code (\<open>Parse_fail\<close>, the code with the reason it gave), after the label
  \<open>err_parse\<close> or, once in AlterConfigs, directly; it writes through the NULL
  entry that \<^verbatim>\<open>rd_kafka_ConfigEntry_new0\<close> returns for a null config name; or, in
  DescribeConfigs, it destroys at \<open>err_parse\<close> a config resource that it destroyed
  before the jump.
\<close>

datatype parse_abort =
  Parse_fail int parse_reason
| Null_entry_deref
| Config_destroyed_twice parse_reason

text \<open>
  Modelled from the spec: \<^verbatim>\<open>rd_kafka_buf_parse_fail\<close> is a macro of rdkafka_buf.h,
  which is not under src/. By the spec a parser, "on protocol decode failure,
  frees any partial result and returns a short human-readable reason"; in the
  source that is the code at the label \<open>err_parse\<close> of each parser, and the label
  is reached in no other way than through the macros. The macro is the jump to
  \<open>err_parse\<close> with the reason it is given for the log. It is given the reply
  buffer and the message, and is taken to change no variable of the function it
  is used in: what a parser returns behind \<open>err_parse\<close> is decided by the source
  alone. A read that fails jumps in the same way.
\<close>

definition rd_kafka_buf_parse_fail :: "parse_reason \<Rightarrow> parse_reason + 'a" where
  "rd_kafka_buf_parse_fail why = Inl why"

text \<open>
  The label \<open>err_parse\<close> of CreateTopics, DeleteTopics, CreatePartitions and
  AlterConfigs: the result op is destroyed if there is one, the error string is
  written, and the function returns its local \<open>err\<close>.
\<close>

definition err_parse :: "int \<Rightarrow> parse_reason \<Rightarrow> parse_abort" where
  "err_parse err why = Parse_fail err why"

text \<open>
  \<^verbatim>\<open>for (i = 0 ; i < (int)cnt ; i++) { ... }\<close> over the elements of the buffer: the
  body reads one element and updates the state, or jumps.
\<close>

fun parse_loop :: "('e \<Rightarrow> 's \<Rightarrow> parse_reason + 's) \<Rightarrow> nat \<Rightarrow> 'e list \<Rightarrow> 's \<Rightarrow> parse_reason + 's" where
  "parse_loop body 0 es s = Inr s"
| "parse_loop body (Suc n) [] s = rd_kafka_buf_parse_fail Buf_underflow"
| "parse_loop body (Suc n) (e # es) s =
     (case body e s of Inl f \<Rightarrow> Inl f | Inr s' \<Rightarrow> parse_loop body n es s')"

text \<open>
  The end of every parser's loop body, the same text in all five: find the
  position of the element in the args, destroy the element's result and jump if
  it is not there or the position already has a result, store the result there
  otherwise.
\<close>

definition result_list_place :: "'a list \<Rightarrow> 'a \<Rightarrow> ('a \<Rightarrow> 'a \<Rightarrow> int) \<Rightarrow> 'r option list \<Rightarrow> 'r \<Rightarrow> parse_reason + 'r option list" where
  "result_list_place as skel cmp results r =
     (let orig_pos = rd_list_index as skel cmp in
      if orig_pos = - 1 then rd_kafka_buf_parse_fail Not_in_request
      else if rd_list_elem results orig_pos \<noteq> None then rd_kafka_buf_parse_fail Multiple_times
      else Inr (rd_list_set results orig_pos r))"

text \<open>The error string of an element: the broker's message, or the code's name.\<close>

definition element_errstr :: "int \<Rightarrow> string option \<Rightarrow> errstr_t option" where
  "element_errstr error_code error_msg =
     (if error_code \<noteq> 0
      then (if error_msg = None \<or> RD_KAFKAP_STR_LEN error_msg = 0
            then Some (Err2str error_code)
            else Some (Errmsg (RD_KAFKAP_STR_DUPA error_msg)))
      else None)"

text \<open>
  Each loop body is written in two parts: the result \<open>terr\<close> (or \<open>config\<close>) it builds
  from the element read, and the insertion of that result. Each parser starts
  with \<^verbatim>\<open>err = RD_KAFKA_RESP_ERR_NO_ERROR\<close> and assigns \<open>err\<close> nowhere else.
\<close>

definition CreateTopics_terr :: "(rd_kafka_NewTopic_t, 'b) admin_request \<Rightarrow> int \<Rightarrow> wire_topic \<Rightarrow> rd_kafka_topic_result_t" where
  "CreateTopics_terr rko_req api_version w =
     (let error_msg = (if api_version \<ge> 1 then w_error_msg w else None);
          error_code =
            (if w_error_code w = RD_KAFKA_RESP_ERR_REQUEST_TIMED_OUT
                \<and> rd_kafka_confval_get_int (operation_timeout (rko_options rko_req)) \<le> 0
             then RD_KAFKA_RESP_ERR_NO_ERROR else w_error_code w);
          errstr = element_errstr error_code error_msg
      in rd_kafka_topic_result_new (w_ktopic w) error_code errstr)"

definition CreateTopics_elem :: "(rd_kafka_NewTopic_t, 'b) admin_request \<Rightarrow> int \<Rightarrow> wire_topic \<Rightarrow> rd_kafka_topic_result_t option list \<Rightarrow> parse_reason + rd_kafka_topic_result_t option list" where
  "CreateTopics_elem rko_req api_version w results =
     (let terr = CreateTopics_terr rko_req api_version w
      in result_list_place (rko_args rko_req) (NewTopic_skel (tr_topic terr))
           rd_kafka_NewTopic_cmp results terr)"

definition rd_kafka_CreateTopicsResponse_parse :: "(rd_kafka_NewTopic_t, 'b) admin_request \<Rightarrow> wire_topic rd_kafka_buf_t \<Rightarrow> parse_abort + rd_kafka_topic_result_t option list" where
  "rd_kafka_CreateTopicsResponse_parse rko_req reply =
     (let err = RD_KAFKA_RESP_ERR_NO_ERROR in
      case (if buf_cnt reply > rd_list_cnt (rko_args rko_req)
            then rd_kafka_buf_parse_fail Too_many_elements
            else parse_loop (CreateTopics_elem rko_req (ApiVersion reply))
                   (nat (buf_cnt reply)) (buf_elems reply) (rd_list_init (buf_cnt reply))) of
        Inl why \<Rightarrow> Inl (err_parse err why)
      | Inr results \<Rightarrow> Inr results)"

definition DeleteTopics_terr :: "(rd_kafka_DeleteTopic_t, 'b) admin_request \<Rightarrow> wire_topic \<Rightarrow> rd_kafka_topic_result_t" where
  "DeleteTopics_terr rko_req w =
     (let error_code =
            (if w_error_code w = RD_KAFKA_RESP_ERR_REQUEST_TIMED_OUT
                \<and> rd_kafka_confval_get_int (operation_timeout (rko_options rko_req)) \<le> 0
             then RD_KAFKA_RESP_ERR_NO_ERROR else w_error_code w)
      in rd_kafka_topic_result_new (w_ktopic w) error_code
           (if error_code \<noteq> 0 then Some (Err2str error_code) else None))"

definition DeleteTopics_elem :: "(rd_kafka_DeleteTopic_t, 'b) admin_request \<Rightarrow> wire_topic \<Rightarrow> rd_kafka_topic_result_t option list \<Rightarrow> parse_reason + rd_kafka_topic_result_t option list" where
  "DeleteTopics_elem rko_req w results =
     (let terr = DeleteTopics_terr rko_req w
      in result_list_place (rko_args rko_req) (DeleteTopic_skel (tr_topic terr))
           rd_kafka_DeleteTopic_cmp results terr)"

definition rd_kafka_DeleteTopicsResponse_parse :: "(rd_kafka_DeleteTopic_t, 'b) admin_request \<Rightarrow> wire_topic rd_kafka_buf_t \<Rightarrow> parse_abort + rd_kafka_topic_result_t option list" where
  "rd_kafka_DeleteTopicsResponse_parse rko_req reply =
     (let err = RD_KAFKA_RESP_ERR_NO_ERROR in
      case (if buf_cnt reply > rd_list_cnt (rko_args rko_req)
            then rd_kafka_buf_parse_fail Too_many_elements
            else parse_loop (DeleteTopics_elem rko_req)
                   (nat (buf_cnt reply)) (buf_elems reply) (rd_list_init (buf_cnt reply))) of
        Inl why \<Rightarrow> Inl (err_parse err why)
      | Inr results \<Rightarrow> Inr results)"

text \<open>
  CreatePartitions computes \<open>errstr\<close> from the broker's message as CreateTopics
  does, and then builds the result from the code's name alone.
\<close>

definition CreatePartitions_terr :: "(rd_kafka_NewPartitions_t, 'b) admin_request \<Rightarrow> wire_topic \<Rightarrow> rd_kafka_topic_result_t" where
  "CreatePartitions_terr rko_req w =
     (let error_msg = w_error_msg w;
          error_code =
            (if w_error_code w = RD_KAFKA_RESP_ERR_REQUEST_TIMED_OUT
                \<and> rd_kafka_confval_get_int (operation_timeout (rko_options rko_req)) \<le> 0
             then RD_KAFKA_RESP_ERR_NO_ERROR else w_error_code w);
          errstr = element_errstr error_code error_msg
      in rd_kafka_topic_result_new (w_ktopic w) error_code
           (if error_code \<noteq> 0 then Some (Err2str error_code) else None))"

definition CreatePartitions_elem :: "(rd_kafka_NewPartitions_t, 'b) admin_request \<Rightarrow> wire_topic \<Rightarrow> rd_kafka_topic_result_t option list \<Rightarrow> parse_reason + rd_kafka_topic_result_t option list" where
  "CreatePartitions_elem rko_req w results =
     (let terr = CreatePartitions_terr rko_req w
      in result_list_place (rko_args rko_req) (NewPartitions_skel (tr_topic terr))
           rd_kafka_NewPartitions_cmp results terr)"

definition rd_kafka_CreatePartitionsResponse_parse :: "(rd_kafka_NewPartitions_t, 'b) admin_request \<Rightarrow> wire_topic rd_kafka_buf_t \<Rightarrow> parse_abort + rd_kafka_topic_result_t option list" where
  "rd_kafka_CreatePartitionsResponse_parse rko_req reply =
     (let err = RD_KAFKA_RESP_ERR_NO_ERROR in
      case (if buf_cnt reply > rd_list_cnt (rko_args rko_req)
            then rd_kafka_buf_parse_fail Too_many_elements
            else parse_loop (CreatePartitions_elem rko_req)
                   (nat (buf_cnt reply)) (buf_elems reply) (rd_list_init (buf_cnt reply))) of
        Inl why \<Rightarrow> Inl (err_parse err why)
      | Inr results \<Rightarrow> Inr results)"

text \<open>
  \<open>None\<close> is the element \<^verbatim>\<open>rd_kafka_ConfigResource_new\<close> rejects (an empty name or a
  negative type): the parser logs it and goes on to the next element, of which
  it has read every field.
\<close>

definition AlterConfigs_config :: "wire_alter_resource \<Rightarrow> rd_kafka_ConfigResource_t option" where
  "AlterConfigs_config w =
     (let error_code = ar_error_code w;
          res_type = ar_res_type w;
          res_nm = RD_KAFKAP_STR_DUPA (ar_res_name w);
          errstr = element_errstr error_code (ar_error_msg w)
      in case rd_kafka_ConfigResource_new res_type (Some res_nm) of
           None \<Rightarrow> None
         | Some cfg0 \<Rightarrow> Some (cfg0\<lparr>res_err := error_code, res_errstr := errstr\<rparr>))"

definition AlterConfigs_elem :: "(rd_kafka_ConfigResource_t, 'b) admin_request \<Rightarrow> wire_alter_resource \<Rightarrow> rd_kafka_ConfigResource_t option list \<Rightarrow> parse_reason + rd_kafka_ConfigResource_t option list" where
  "AlterConfigs_elem rko_req w results =
     (case AlterConfigs_config w of
        None \<Rightarrow> Inr results
      | Some cfg \<Rightarrow>
          result_list_place (rko_args rko_req)
            (ConfigResource_skel (restype cfg) (res_name cfg))
            rd_kafka_ConfigResource_cmp results cfg)"

text \<open>
  For a response with too many elements AlterConfigs returns BadMessage itself,
  where the other parsers use the macro.
\<close>

definition rd_kafka_AlterConfigsResponse_parse :: "(rd_kafka_ConfigResource_t, 'b) admin_request \<Rightarrow> wire_alter_resource rd_kafka_buf_t \<Rightarrow> parse_abort + rd_kafka_ConfigResource_t option list" where
  "rd_kafka_AlterConfigsResponse_parse rko_req reply =
     (let err = RD_KAFKA_RESP_ERR_NO_ERROR in
      if buf_cnt reply > rd_list_cnt (rko_args rko_req)
      then Inl (Parse_fail RD_KAFKA_RESP_ERR__BAD_MSG Too_many_elements)
      else case parse_loop (AlterConfigs_elem rko_req)
                  (nat (buf_cnt reply)) (buf_elems reply) (rd_list_init (buf_cnt reply)) of
             Inl why \<Rightarrow> Inl (err_parse err why)
           | Inr results \<Rightarrow> Inr results)"

subsection \<open>The parser of DescribeConfigs\<close>

text \<open>
  DescribeConfigs keeps the config resource it is building in a variable of the
  function, \<open>config\<close>, which \<open>err_parse\<close> destroys when it is not NULL. What matters
  of the pointer at the jump is whether it is NULL, points to a resource, or
  points to a resource already destroyed. (The entry being read, \<open>entry\<close>, is
  treated the same way by \<open>err_parse\<close>, but nothing destroys it before a jump.)
\<close>

datatype pointer_state = Ptr_null | Ptr_live | Ptr_destroyed

text \<open>
  How the body of the parser is left before its end: by a jump to \<open>err_parse\<close>,
  with the reason and the state of \<open>config\<close>, or by the write through a NULL
  entry.
\<close>

datatype describe_exit =
  Goto_err_parse parse_reason pointer_state
| Write_null_entry

text \<open>
  A read macro with the primitive behind it: the value and the next offset, or
  the jump. \<open>and_then\<close> goes on with both.
\<close>

definition rd_kafka_buf_read :: "(nat \<Rightarrow> ('v \<times> nat) option) \<Rightarrow> pointer_state \<Rightarrow> nat \<Rightarrow> describe_exit + 'v \<times> nat" where
  "rd_kafka_buf_read prim config_p pos =
     (case prim pos of
        None \<Rightarrow> Inl (Goto_err_parse Buf_underflow config_p)
      | Some r \<Rightarrow> Inr r)"

definition and_then :: "'x + 'v \<times> nat \<Rightarrow> ('v \<Rightarrow> nat \<Rightarrow> 'x + 'w \<times> nat) \<Rightarrow> 'x + 'w \<times> nat" where
  "and_then m f = (case m of Inl x \<Rightarrow> Inl x | Inr (v, pos) \<Rightarrow> f v pos)"

text \<open>
  \<^verbatim>\<open>for (i = 0 ; i < (int)cnt ; i++) { ... }\<close> over the buffer: the body reads from
  an offset and updates the state, or leaves.
\<close>

fun read_loop :: "('s \<Rightarrow> nat \<Rightarrow> 'x + 's \<times> nat) \<Rightarrow> nat \<Rightarrow> 's \<Rightarrow> nat \<Rightarrow> 'x + 's \<times> nat" where
  "read_loop body 0 s pos = Inr (s, pos)"
| "read_loop body (Suc n) s pos =
     (case body s pos of Inl x \<Rightarrow> Inl x | Inr (s', pos') \<Rightarrow> read_loop body n s' pos')"

text \<open>One synonym: name, value and source are read, then the entry is made.\<close>

definition DescribeConfigs_synonym :: "rd_kafka_rbuf_t \<Rightarrow> rd_kafka_ConfigEntry_t list \<Rightarrow> nat \<Rightarrow> describe_exit + rd_kafka_ConfigEntry_t list \<times> nat" where
  "DescribeConfigs_synonym reply syns pos =
     and_then (rd_kafka_buf_read (buf_read_str reply) Ptr_live pos) (\<lambda>syn_name p1.
     and_then (rd_kafka_buf_read (buf_read_str reply) Ptr_live p1) (\<lambda>syn_value p2.
     and_then (rd_kafka_buf_read (buf_read_i8 reply) Ptr_live p2) (\<lambda>syn_source p3.
       case rd_kafka_ConfigEntry_new0 syn_name syn_value of
         None \<Rightarrow> Inl (Goto_err_parse Invalid_synonym Ptr_live)
       | Some syn_entry \<Rightarrow>
           Inr (syns @
                  [ConfigEntry (kv_name syn_entry) (kv_value syn_entry)
                     ((ce_a syn_entry)\<lparr>source := syn_source, is_synonym := True\<rparr>)
                     (synonyms syn_entry)],
                p3))))"

text \<open>
  The attributes of an entry after the field that differs between the
  versions: ApiVersion 0 carries \<open>is_default\<close>, the others carry the source.
\<close>

definition DescribeConfigs_default_or_source :: "rd_kafka_rbuf_t \<Rightarrow> ConfigEntry_a \<Rightarrow> nat \<Rightarrow> describe_exit + ConfigEntry_a \<times> nat" where
  "DescribeConfigs_default_or_source reply a pos =
     (if rkbuf_ApiVersion reply = 0
      then and_then (rd_kafka_buf_read (buf_read_bool reply) Ptr_live pos) (\<lambda>is_dflt p.
             (let a' = a\<lparr>is_default := is_dflt\<rparr>
              in Inr (if is_default a'
                      then a'\<lparr>source := RD_KAFKA_CONFIG_SOURCE_DEFAULT_CONFIG\<rparr> else a', p)))
      else and_then (rd_kafka_buf_read (buf_read_i8 reply) Ptr_live pos) (\<lambda>config_source p.
             (let a' = a\<lparr>source := config_source\<rparr>
              in Inr (if source a' = RD_KAFKA_CONFIG_SOURCE_DEFAULT_CONFIG
                      then a'\<lparr>is_default := True\<rparr> else a', p))))"

text \<open>The number of synonyms to read: none unless the ApiVersion is 1.\<close>

definition DescribeConfigs_syn_cnt :: "rd_kafka_rbuf_t \<Rightarrow> nat \<Rightarrow> describe_exit + int \<times> nat" where
  "DescribeConfigs_syn_cnt reply pos =
     (if rkbuf_ApiVersion reply = 1
      then and_then (rd_kafka_buf_read (buf_read_i32 reply) Ptr_live pos) (\<lambda>syn_cnt p.
             if syn_cnt > 100000 then Inl (Goto_err_parse Too_many_synonyms Ptr_live)
             else Inr (syn_cnt, p))
      else Inr (0, pos))"

text \<open>
  One config entry. The first field stored in the entry is \<open>is_readonly\<close>: with a
  null config name the entry is NULL and the store, which follows the read,
  writes through it.
\<close>

definition DescribeConfigs_entry :: "rd_kafka_rbuf_t \<Rightarrow> nat \<Rightarrow> describe_exit + rd_kafka_ConfigEntry_t \<times> nat" where
  "DescribeConfigs_entry reply pos =
     and_then (rd_kafka_buf_read (buf_read_str reply) Ptr_live pos) (\<lambda>config_name p1.
     and_then (rd_kafka_buf_read (buf_read_str reply) Ptr_live p1) (\<lambda>config_value p2.
     and_then (rd_kafka_buf_read (buf_read_bool reply) Ptr_live p2) (\<lambda>is_ro p3.
       case rd_kafka_ConfigEntry_new0 config_name config_value of
         None \<Rightarrow> Inl Write_null_entry
       | Some entry \<Rightarrow>
           and_then (DescribeConfigs_default_or_source reply
                       ((ce_a entry)\<lparr>is_readonly := is_ro\<rparr>) p3) (\<lambda>a2 p4.
           and_then (rd_kafka_buf_read (buf_read_bool reply) Ptr_live p4) (\<lambda>is_sens p5.
           and_then (DescribeConfigs_syn_cnt reply p5) (\<lambda>syn_cnt p6.
           and_then (read_loop (DescribeConfigs_synonym reply) (nat syn_cnt)
                       (synonyms entry) p6) (\<lambda>syns p7.
             Inr (ConfigEntry (kv_name entry) (kv_value entry)
                    (a2\<lparr>is_sensitive := is_sens\<rparr>) syns, p7))))))))"

definition DescribeConfigs_add_entry :: "rd_kafka_rbuf_t \<Rightarrow> rd_kafka_ConfigResource_t \<Rightarrow> nat \<Rightarrow> describe_exit + rd_kafka_ConfigResource_t \<times> nat" where
  "DescribeConfigs_add_entry reply cfg pos =
     and_then (DescribeConfigs_entry reply pos) (\<lambda>entry p.
       Inr (cfg\<lparr>config := config cfg @ [entry]\<rparr>, p))"

text \<open>
  The head of a response element: error code, error message, resource type and
  resource name, read while \<open>config\<close> is NULL.
\<close>

definition DescribeConfigs_head :: "rd_kafka_rbuf_t \<Rightarrow> nat \<Rightarrow> describe_exit + (int \<times> string option \<times> int \<times> string option) \<times> nat" where
  "DescribeConfigs_head reply pos =
     and_then (rd_kafka_buf_read (buf_read_i16 reply) Ptr_null pos) (\<lambda>error_code p1.
     and_then (rd_kafka_buf_read (buf_read_str reply) Ptr_null p1) (\<lambda>error_msg p2.
     and_then (rd_kafka_buf_read (buf_read_i8 reply) Ptr_null p2) (\<lambda>res_type p3.
     and_then (rd_kafka_buf_read (buf_read_str reply) Ptr_null p3) (\<lambda>kres_name p4.
       Inr ((error_code, error_msg, res_type, kres_name), p4)))))"

text \<open>
  The config resource of a response element. When \<^verbatim>\<open>rd_kafka_ConfigResource_new\<close>
  rejects the type or the name, the parser logs that and executes \<^verbatim>\<open>continue\<close>:
  there is no resource (\<open>None\<close>), and the offset is the one behind the name. The
  number of entries and the entries are read only for a resource that was made.
\<close>

definition DescribeConfigs_config :: "rd_kafka_rbuf_t \<Rightarrow> nat \<Rightarrow> describe_exit + rd_kafka_ConfigResource_t option \<times> nat" where
  "DescribeConfigs_config reply pos =
     and_then (DescribeConfigs_head reply pos) (\<lambda>(error_code, error_msg, res_type, kres_name) p4.
       (let res_nm = RD_KAFKAP_STR_DUPA kres_name;
            errstr = element_errstr error_code error_msg
        in case rd_kafka_ConfigResource_new res_type (Some res_nm) of
             None \<Rightarrow> Inr (None, p4)
           | Some cfg0 \<Rightarrow>
               and_then (rd_kafka_buf_read (buf_read_i32 reply) Ptr_live p4) (\<lambda>entry_cnt p5.
               and_then (read_loop (DescribeConfigs_add_entry reply) (nat entry_cnt)
                           (cfg0\<lparr>res_err := error_code, res_errstr := errstr\<rparr>) p5) (\<lambda>cfg p6.
                 Inr (Some cfg, p6)))))"

text \<open>
  The loop body. The two jumps at its end are taken after
  \<^verbatim>\<open>rd_kafka_ConfigResource_destroy(config)\<close>, with \<open>config\<close> still pointing to the
  resource destroyed; after the result is stored, \<open>config\<close> is set to NULL.
\<close>

definition DescribeConfigs_elem :: "(rd_kafka_ConfigResource_t, 'b) admin_request \<Rightarrow> rd_kafka_rbuf_t \<Rightarrow> rd_kafka_ConfigResource_t option list \<Rightarrow> nat \<Rightarrow> describe_exit + rd_kafka_ConfigResource_t option list \<times> nat" where
  "DescribeConfigs_elem rko_req reply results pos =
     and_then (DescribeConfigs_config reply pos) (\<lambda>config_new p.
       case config_new of
         None \<Rightarrow> Inr (results, p)
       | Some cfg \<Rightarrow>
           (case result_list_place (rko_args rko_req)
                   (ConfigResource_skel (restype cfg) (res_name cfg))
                   rd_kafka_ConfigResource_cmp results cfg of
              Inl why \<Rightarrow> Inl (Goto_err_parse why Ptr_destroyed)
            | Inr results' \<Rightarrow> Inr (results', p)))"

text \<open>
  The label \<open>err_parse\<close> of DescribeConfigs: \<open>entry\<close> and \<open>config\<close> are destroyed when
  they are not NULL, then the result op, and the function returns its local
  \<open>err\<close>.
\<close>

definition DescribeConfigs_err_parse :: "int \<Rightarrow> pointer_state \<Rightarrow> parse_reason \<Rightarrow> parse_abort" where
  "DescribeConfigs_err_parse err config_p why =
     (if config_p = Ptr_destroyed then Config_destroyed_twice why else Parse_fail err why)"

text \<open>
  The parser reads the throttle time, which it hands to the client's throttle
  accounting, and the number of resources, and then the resources.
\<close>

definition DescribeConfigs_body :: "(rd_kafka_ConfigResource_t, 'b) admin_request \<Rightarrow> rd_kafka_rbuf_t \<Rightarrow> describe_exit + rd_kafka_ConfigResource_t option list \<times> nat" where
  "DescribeConfigs_body rko_req reply =
     and_then (rd_kafka_buf_read (buf_read_i32 reply) Ptr_null (rkbuf_offset reply)) (\<lambda>Throttle_Time p1.
     and_then (rd_kafka_buf_read (buf_read_i32 reply) Ptr_null p1) (\<lambda>res_cnt p2.
       if res_cnt > rd_list_cnt (rko_args rko_req)
       then Inl (Goto_err_parse Too_many_elements Ptr_null)
       else read_loop (DescribeConfigs_elem rko_req reply) (nat res_cnt)
              (rd_list_init res_cnt) p2))"

definition rd_kafka_DescribeConfigsResponse_parse :: "(rd_kafka_ConfigResource_t, 'b) admin_request \<Rightarrow> rd_kafka_rbuf_t \<Rightarrow> parse_abort + rd_kafka_ConfigResource_t option list" where
  "rd_kafka_DescribeConfigsResponse_parse rko_req reply =
     (let err = RD_KAFKA_RESP_ERR_NO_ERROR in
      case DescribeConfigs_body rko_req reply of
        Inl (Goto_err_parse why config_p) \<Rightarrow> Inl (DescribeConfigs_err_parse err config_p why)
      | Inl Write_null_entry \<Rightarrow> Inl Null_entry_deref
      | Inr (results, pos) \<Rightarrow> Inr results)"

subsection \<open>The worker\<close>

datatype fail_msg =
  Failed_while rd_kafka_admin_state
| Timed_out rd_kafka_admin_state
| Callback_errstr

text \<open>
  What a call does outside the request op, in program order: results posted on
  the application's reply queue, the timer, the notifier and the broker
  reference.
\<close>

datatype 'r worker_event =
  Admin_result_fail int fail_msg
| Admin_result_enq "'r option"
| Timer_start_oneshot int
| Timer_stop
| Enq_once_add_source string
| Enq_once_del_source string
| Enq_once_reenable
| Enq_once_destroy
| Broker_destroy int

datatype rd_kafka_op_res_t = RD_KAFKA_OP_RES_KEEP | RD_KAFKA_OP_RES_HANDLED

datatype worker_abort = Assert_rkb

text \<open>
  The request-specific callbacks: \<open>cbs_request\<close> returns the error code of the
  request builder, \<open>cbs_parse\<close> the parser's error code and the result op it wrote
  through \<open>rko_resultp\<close>.
\<close>

record ('a, 'b, 'r) rd_kafka_admin_worker_cbs =
  cbs_request :: "int \<Rightarrow> 'a list \<Rightarrow> rd_kafka_AdminOptions_t \<Rightarrow> int"
  cbs_parse :: "('a, 'b) admin_request \<Rightarrow> 'b option \<Rightarrow> int \<times> 'r option"

definition rd_kafka_admin_request_op_new :: "rd_kafka_t \<Rightarrow> rd_kafka_AdminOptions_t option \<Rightarrow> ('a, 'b) admin_request" where
  "rd_kafka_admin_request_op_new rk opts =
     (let os = (case opts of Some given \<Rightarrow> given | None \<Rightarrow> rd_kafka_AdminOptions_init rk None)
      in \<lparr>rko_err = 0,
          rko_state = RD_KAFKA_ADMIN_STATE_INIT,
          rko_abs_timeout = rk_timeout_init rk (rd_kafka_confval_get_int (request_timeout os)),
          rko_broker_id = - 1,
          rko_options = os,
          rko_args = [],
          rko_eonce = True,
          rko_tmr_started = False,
          rko_reply_buf = None\<rparr>)"

definition rd_kafka_admin_common_worker_destroy :: "('a, 'b) admin_request \<Rightarrow> ('a, 'b) admin_request \<times> 'r worker_event list" where
  "rd_kafka_admin_common_worker_destroy rko =
     (let timer_was_stopped = rko_tmr_started rko
      in (rko\<lparr>rko_tmr_started := False, rko_eonce := False\<rparr>,
          Timer_stop #
          (if rko_eonce rko
           then (if timer_was_stopped then [Enq_once_del_source ''timeout timer''] else [])
                @ [Enq_once_destroy]
           else [])))"

text \<open>The \<open>destroy:\<close> label of the worker.\<close>

definition worker_destroy :: "('a, 'b) admin_request \<Rightarrow> 'r worker_event list \<Rightarrow> worker_abort + (('a, 'b) admin_request \<times> 'r worker_event list \<times> rd_kafka_op_res_t)" where
  "worker_destroy rko evs =
     (let (rko', devs) = rd_kafka_admin_common_worker_destroy rko
      in Inr (rko', evs @ devs, RD_KAFKA_OP_RES_HANDLED))"

fun state_rank :: "rd_kafka_admin_state \<Rightarrow> nat" where
  "state_rank RD_KAFKA_ADMIN_STATE_INIT = 3"
| "state_rank RD_KAFKA_ADMIN_STATE_WAIT_BROKER = 2"
| "state_rank RD_KAFKA_ADMIN_STATE_WAIT_CONTROLLER = 2"
| "state_rank RD_KAFKA_ADMIN_STATE_CONSTRUCT_REQUEST = 1"
| "state_rank RD_KAFKA_ADMIN_STATE_WAIT_RESPONSE = 0"

text \<open>The \<open>redo:\<close> label: the switch on the state, re-entered by \<^verbatim>\<open>goto redo\<close>.\<close>

function admin_worker_redo :: "rd_kafka_t \<Rightarrow> ('a, 'b, 'r) rd_kafka_admin_worker_cbs \<Rightarrow> int \<Rightarrow> int option \<Rightarrow> ('a, 'b) admin_request \<Rightarrow> 'r worker_event list \<Rightarrow> worker_abort + (('a, 'b) admin_request \<times> 'r worker_event list \<times> rd_kafka_op_res_t)" where
  "admin_worker_redo rk cbs timeout_in rkb rko evs =
     (case rko_state rko of
        RD_KAFKA_ADMIN_STATE_INIT \<Rightarrow>
          (let evs1 = evs @ [Enq_once_add_source ''timeout timer'', Timer_start_oneshot timeout_in];
               rko1 = rko\<lparr>rko_tmr_started := True\<rparr>;
               b_id = rd_kafka_confval_get_int (broker (rko_options rko1));
               rko2 = (if b_id \<noteq> - 1 then rko1\<lparr>rko_broker_id := b_id\<rparr> else rko1)
           in if rko_broker_id rko2 \<noteq> - 1
              then admin_worker_redo rk cbs timeout_in rkb
                     (rko2\<lparr>rko_state := RD_KAFKA_ADMIN_STATE_WAIT_BROKER\<rparr>) evs1
              else admin_worker_redo rk cbs timeout_in rkb
                     (rko2\<lparr>rko_state := RD_KAFKA_ADMIN_STATE_WAIT_CONTROLLER\<rparr>) evs1)
      | RD_KAFKA_ADMIN_STATE_WAIT_BROKER \<Rightarrow>
          (case rk_broker_get_async rk (rko_broker_id rko) of
             None \<Rightarrow> Inr (rko, evs @ [Enq_once_reenable], RD_KAFKA_OP_RES_KEEP)
           | Some b \<Rightarrow>
               admin_worker_redo rk cbs timeout_in (Some b)
                 (rko\<lparr>rko_state := RD_KAFKA_ADMIN_STATE_CONSTRUCT_REQUEST\<rparr>)
                 (evs @ [Enq_once_reenable]))
      | RD_KAFKA_ADMIN_STATE_WAIT_CONTROLLER \<Rightarrow>
          (case rk_broker_controller_async rk of
             None \<Rightarrow> Inr (rko, evs @ [Enq_once_reenable], RD_KAFKA_OP_RES_KEEP)
           | Some b \<Rightarrow>
               admin_worker_redo rk cbs timeout_in (Some b)
                 (rko\<lparr>rko_state := RD_KAFKA_ADMIN_STATE_CONSTRUCT_REQUEST\<rparr>)
                 (evs @ [Enq_once_reenable]))
      | RD_KAFKA_ADMIN_STATE_CONSTRUCT_REQUEST \<Rightarrow>
          (case rkb of
             None \<Rightarrow> Inl Assert_rkb
           | Some b \<Rightarrow>
               (let err = cbs_request cbs b (rko_args rko) (rko_options rko);
                    evs1 = evs @ [Enq_once_add_source ''send'', Broker_destroy b]
                in if err \<noteq> 0
                   then worker_destroy rko
                          (evs1 @ [Enq_once_del_source ''send'',
                                   Admin_result_fail err Callback_errstr])
                   else Inr (rko\<lparr>rko_state := RD_KAFKA_ADMIN_STATE_WAIT_RESPONSE\<rparr>, evs1,
                             RD_KAFKA_OP_RES_KEEP)))
      | RD_KAFKA_ADMIN_STATE_WAIT_RESPONSE \<Rightarrow>
          (let err = fst (cbs_parse cbs rko (rko_reply_buf rko));
               rko_result = snd (cbs_parse cbs rko (rko_reply_buf rko))
           in if err \<noteq> 0
              then worker_destroy rko (evs @ [Admin_result_fail err Callback_errstr])
              else worker_destroy rko (evs @ [Admin_result_enq rko_result])))"
  by pat_completeness auto
termination
  by (relation "measure (\<lambda>(rk, cbs, timeout_in, rkb, rko, evs). state_rank (rko_state rko))")
    (auto simp: Let_def split: if_splits)

definition rd_kafka_admin_worker :: "rd_kafka_t \<Rightarrow> ('a, 'b, 'r) rd_kafka_admin_worker_cbs \<Rightarrow> ('a, 'b) admin_request \<Rightarrow> worker_abort + (('a, 'b) admin_request \<times> 'r worker_event list \<times> rd_kafka_op_res_t)" where
  "rd_kafka_admin_worker rk cbs rko =
     (if rk_terminating rk then worker_destroy rko []
      else if rko_err rko = RD_KAFKA_RESP_ERR__DESTROY then worker_destroy rko []
      else if rko_err rko \<noteq> 0
      then worker_destroy rko [Admin_result_fail (rko_err rko) (Failed_while (rko_state rko))]
      else
        (let timeout_in = rk_timeout_remains_us rk (rko_abs_timeout rko)
         in if timeout_in \<le> 0
            then worker_destroy rko
                   [Admin_result_fail RD_KAFKA_RESP_ERR__TIMED_OUT (Timed_out (rko_state rko))]
            else admin_worker_redo rk cbs timeout_in None rko []))"

subsection \<open>Submitting AlterConfigs and DescribeConfigs\<close>

text \<open>
  The copies made at submission are deep copies: equal to the original as
  values, with the resource's error fields cleared by the constructor.
\<close>

definition rd_kafka_ConfigEntry_copy :: "rd_kafka_ConfigEntry_t \<Rightarrow> rd_kafka_ConfigEntry_t" where
  "rd_kafka_ConfigEntry_copy src = src"

definition rd_kafka_ConfigResource_copy :: "rd_kafka_ConfigResource_t \<Rightarrow> rd_kafka_ConfigResource_t" where
  "rd_kafka_ConfigResource_copy src =
     \<lparr>restype = restype src, res_name = res_name src,
      config = map rd_kafka_ConfigEntry_copy (config src), res_err = 0, res_errstr = None\<rparr>"

text \<open>
  What a submission leaves behind: the ops enqueued on the client's \<open>rk_ops\<close>
  queue, and the events of the failure path. The op of a config request carries
  the reply buffer of its API and, as result, a list of config resources.
\<close>

record ('a, 'b, 'r) submission =
  rk_ops_enq :: "('a, 'b) admin_request list"
  sub_events :: "'r worker_event list"

definition rd_kafka_AlterConfigs :: "rd_kafka_t \<Rightarrow> rd_kafka_ConfigResource_t list \<Rightarrow> rd_kafka_AdminOptions_t option \<Rightarrow> (rd_kafka_ConfigResource_t, wire_alter_resource rd_kafka_buf_t, rd_kafka_ConfigResource_t option list) submission" where
  "rd_kafka_AlterConfigs rk configs opts =
     (let rko0 = rd_kafka_admin_request_op_new rk opts;
          rko = rko0\<lparr>rko_args := map rd_kafka_ConfigResource_copy configs\<rparr>
      in case rd_kafka_ConfigResource_get_single_broker_id (rko_args rko) of
           Inl err \<Rightarrow>
             \<lparr>rk_ops_enq = [],
              sub_events = Admin_result_fail err Callback_errstr
                           # snd (rd_kafka_admin_common_worker_destroy rko)\<rparr>
         | Inr b_id \<Rightarrow>
             \<lparr>rk_ops_enq = [rko\<lparr>rko_broker_id := b_id\<rparr>], sub_events = []\<rparr>)"

definition rd_kafka_DescribeConfigs :: "rd_kafka_t \<Rightarrow> rd_kafka_ConfigResource_t list \<Rightarrow> rd_kafka_AdminOptions_t option \<Rightarrow> (rd_kafka_ConfigResource_t, rd_kafka_rbuf_t, rd_kafka_ConfigResource_t option list) submission" where
  "rd_kafka_DescribeConfigs rk configs opts =
     (let rko0 = rd_kafka_admin_request_op_new rk opts;
          rko = rko0\<lparr>rko_args := map rd_kafka_ConfigResource_copy configs\<rparr>
      in case rd_kafka_ConfigResource_get_single_broker_id (rko_args rko) of
           Inl err \<Rightarrow>
             \<lparr>rk_ops_enq = [],
              sub_events = Admin_result_fail err Callback_errstr
                           # snd (rd_kafka_admin_common_worker_destroy rko)\<rparr>
         | Inr b_id \<Rightarrow>
             \<lparr>rk_ops_enq = [rko\<lparr>rko_broker_id := b_id\<rparr>], sub_events = []\<rparr>)"

subsection \<open>Vocabulary of the properties\<close>

text \<open>
  The shape the loop bodies of the four parsers on elements share: build the
  element's result (\<open>dec\<close>; the element may fail to decode, or be skipped), then
  insert it under its key.
\<close>

definition elem_step :: "('w \<Rightarrow> parse_reason + 'r option) \<Rightarrow> ('r \<Rightarrow> 'a) \<Rightarrow> 'a list \<Rightarrow> ('a \<Rightarrow> 'a \<Rightarrow> int) \<Rightarrow> 'w \<Rightarrow> 'r option list \<Rightarrow> parse_reason + 'r option list" where
  "elem_step dec key as cmp w rs =
     (case dec w of
        Inl f \<Rightarrow> Inl f
      | Inr None \<Rightarrow> Inr rs
      | Inr (Some r) \<Rightarrow> result_list_place as (key r) cmp rs r)"

text \<open>The reply cut after its first \<open>k\<close> elements.\<close>

definition first_elems :: "nat \<Rightarrow> 'e rd_kafka_buf_t \<Rightarrow> 'e rd_kafka_buf_t" where
  "first_elems k reply = reply\<lparr>buf_cnt := int k, buf_elems := take k (buf_elems reply)\<rparr>"

text \<open>The resources of type BROKER among the arguments of a submission.\<close>

definition broker_resources :: "rd_kafka_ConfigResource_t list \<Rightarrow> rd_kafka_ConfigResource_t list" where
  "broker_resources configs = filter (\<lambda>c. restype c = RD_KAFKA_RESOURCE_BROKER) configs"

subsection \<open>Example inputs\<close>

definition example_rk :: rd_kafka_t where
  "example_rk =
     \<lparr>rk_terminating = False, rk_admin_request_timeout_ms = 5000,
      rk_timeout_init = (\<lambda>ms. 1000000 + ms * 1000),
      rk_timeout_remains_us = (\<lambda>t. t - 2000000),
      rk_broker_get_async = (\<lambda>b. None),
      rk_broker_controller_async = None\<rparr>"

definition example_req :: "'a list \<Rightarrow> ('a, unit) admin_request" where
  "example_req as = (rd_kafka_admin_request_op_new example_rk None)\<lparr>rko_args := as\<rparr>"

definition wire_ok :: "string \<Rightarrow> wire_topic" where
  "wire_ok t = \<lparr>w_ktopic = Some t, w_error_code = 0, w_error_msg = None\<rparr>"

definition wire_res :: "int \<Rightarrow> string \<Rightarrow> wire_alter_resource" where
  "wire_res rtype nm =
     \<lparr>ar_error_code = 0, ar_error_msg = None, ar_res_type = rtype, ar_res_name = Some nm\<rparr>"

definition example_blocking_req :: "'a list \<Rightarrow> ('a, unit) admin_request" where
  "example_blocking_req as =
     (let q = example_req as; os = rko_options q
      in q\<lparr>rko_options :=
             os\<lparr>operation_timeout := (operation_timeout os)\<lparr>cv_v := 1000, cv_is_set := True\<rparr>\<rparr>\<rparr>)"

definition wire_timed_out :: "string \<Rightarrow> wire_topic" where
  "wire_timed_out t =
     \<lparr>w_ktopic = Some t, w_error_code = RD_KAFKA_RESP_ERR_REQUEST_TIMED_OUT,
      w_error_msg = None\<rparr>"

definition topic_ok :: "string \<Rightarrow> rd_kafka_topic_result_t" where
  "topic_ok t = \<lparr>tr_topic = t, tr_err = 0, tr_errstr = None\<rparr>"

definition example_delete_req :: "(rd_kafka_DeleteTopic_t, unit) admin_request" where
  "example_delete_req =
     example_req [\<lparr>dt_topic = ''beta''\<rparr>, \<lparr>dt_topic = ''alpha''\<rparr>, \<lparr>dt_topic = ''gamma''\<rparr>]"

definition example_delete_reply :: "string list \<Rightarrow> wire_topic rd_kafka_buf_t" where
  "example_delete_reply ts =
     \<lparr>ApiVersion = 0, buf_cnt = int (length ts), buf_elems = map wire_ok ts\<rparr>"

definition example_create_req :: "(rd_kafka_NewTopic_t, unit) admin_request" where
  "example_create_req =
     example_req [\<lparr>nt_topic = ''t1'', num_partitions = 3, replication_factor = 1,
                   nt_replicas = [], nt_config = []\<rparr>]"

definition example_partitions_req :: "(rd_kafka_NewPartitions_t, unit) admin_request" where
  "example_partitions_req = example_req [\<lparr>np_topic = ''t1'', total_cnt = 6, np_replicas = []\<rparr>]"

definition example_config_req :: "(rd_kafka_ConfigResource_t, unit) admin_request" where
  "example_config_req =
     example_req [ConfigResource_skel RD_KAFKA_RESOURCE_TOPIC ''t'',
                  ConfigResource_skel RD_KAFKA_RESOURCE_BROKER ''0'']"

definition example_alter_reply :: "(int \<times> string) list \<Rightarrow> wire_alter_resource rd_kafka_buf_t" where
  "example_alter_reply rs =
     \<lparr>ApiVersion = 0, buf_cnt = int (length rs),
      buf_elems = map (\<lambda>(ty, nm). wire_res ty nm) rs\<rparr>"

text \<open>
  An example of the read primitives: the encoding of the Kafka protocol over the
  bytes of a response. An integer is big-endian in two's complement, a boolean
  is a byte, a string is its length as an int16 followed by its bytes, and the
  null string has the length -1.
\<close>

definition be_value :: "string \<Rightarrow> int" where
  "be_value bs = foldl (\<lambda>acc c. acc * 256 + int (of_char c)) 0 bs"

definition kafka_read_int :: "nat \<Rightarrow> string \<Rightarrow> nat \<Rightarrow> (int \<times> nat) option" where
  "kafka_read_int k bytes pos =
     (if pos + k \<le> length bytes
      then (let u = be_value (take k (drop pos bytes))
            in Some (if u \<ge> 2 ^ (8 * k - 1) then u - 2 ^ (8 * k) else u, pos + k))
      else None)"

definition kafka_read_bool :: "string \<Rightarrow> nat \<Rightarrow> (bool \<times> nat) option" where
  "kafka_read_bool bytes pos =
     (case kafka_read_int 1 bytes pos of None \<Rightarrow> None | Some (v, p) \<Rightarrow> Some (v \<noteq> 0, p))"

definition kafka_read_str :: "string \<Rightarrow> nat \<Rightarrow> (string option \<times> nat) option" where
  "kafka_read_str bytes pos =
     (case kafka_read_int 2 bytes pos of
        None \<Rightarrow> None
      | Some (len, p) \<Rightarrow>
          if len = - 1 then Some (None, p)
          else if len < 0 \<or> p + nat len > length bytes then None
          else Some (Some (take (nat len) (drop p bytes)), p + nat len))"

definition kafka_reply :: "int \<Rightarrow> string \<Rightarrow> rd_kafka_rbuf_t" where
  "kafka_reply api_version bytes =
     \<lparr>rkbuf_ApiVersion = api_version, rkbuf_offset = 0,
      buf_read_i8 = kafka_read_int 1 bytes, buf_read_i16 = kafka_read_int 2 bytes,
      buf_read_i32 = kafka_read_int 4 bytes, buf_read_bool = kafka_read_bool bytes,
      buf_read_str = kafka_read_str bytes\<rparr>"

definition enc_int :: "nat \<Rightarrow> int \<Rightarrow> string" where
  "enc_int k v =
     map (\<lambda>i. char_of (nat (v mod 2 ^ (8 * k) div 2 ^ (8 * (k - 1 - i)) mod 256))) [0..<k]"

definition enc_bool :: "bool \<Rightarrow> string" where
  "enc_bool b = enc_int 1 (if b then 1 else 0)"

definition enc_str :: "string option \<Rightarrow> string" where
  "enc_str s = (case s of None \<Rightarrow> enc_int 2 (- 1) | Some bs \<Rightarrow> enc_int 2 (int (length bs)) @ bs)"

text \<open>
  The fields of a DescribeConfigs response, in the order of the wire. A config
  entry of version 0 carries \<open>we_is_default\<close> and no synonyms, one of version 1
  carries \<open>we_config_source\<close> and the synonyms.
\<close>

record wire_synonym =
  ws_name :: "string option"
  ws_value :: "string option"
  ws_source :: int

record wire_config_entry =
  we_name :: "string option"
  we_value :: "string option"
  we_is_readonly :: bool
  we_is_default :: bool
  we_config_source :: int
  we_is_sensitive :: bool
  we_syn_cnt :: int
  we_synonyms :: "wire_synonym list"

record wire_describe_resource =
  dr_error_code :: int
  dr_error_msg :: "string option"
  dr_res_type :: int
  dr_res_name :: "string option"
  dr_entry_cnt :: int
  dr_entries :: "wire_config_entry list"

definition enc_synonym :: "wire_synonym \<Rightarrow> string" where
  "enc_synonym w = enc_str (ws_name w) @ enc_str (ws_value w) @ enc_int 1 (ws_source w)"

definition enc_config_entry :: "int \<Rightarrow> wire_config_entry \<Rightarrow> string" where
  "enc_config_entry api_version w =
     enc_str (we_name w) @ enc_str (we_value w) @ enc_bool (we_is_readonly w)
     @ (if api_version = 0 then enc_bool (we_is_default w) else enc_int 1 (we_config_source w))
     @ enc_bool (we_is_sensitive w)
     @ (if api_version = 1
        then enc_int 4 (we_syn_cnt w) @ concat (map enc_synonym (we_synonyms w)) else [])"

definition enc_describe_resource :: "int \<Rightarrow> wire_describe_resource \<Rightarrow> string" where
  "enc_describe_resource api_version w =
     enc_int 2 (dr_error_code w) @ enc_str (dr_error_msg w) @ enc_int 1 (dr_res_type w)
     @ enc_str (dr_res_name w) @ enc_int 4 (dr_entry_cnt w)
     @ concat (map (enc_config_entry api_version) (dr_entries w))"

text \<open>A response: the throttle time, the number of resources, the resources.\<close>

definition describe_response :: "int \<Rightarrow> wire_describe_resource list \<Rightarrow> rd_kafka_rbuf_t" where
  "describe_response api_version ws =
     kafka_reply api_version
       (enc_int 4 0 @ enc_int 4 (int (length ws))
        @ concat (map (enc_describe_resource api_version) ws))"

definition example_wire_entry :: "int \<Rightarrow> wire_synonym list \<Rightarrow> wire_config_entry" where
  "example_wire_entry src syns =
     \<lparr>we_name = Some ''retention.ms'', we_value = Some ''1'', we_is_readonly = False,
      we_is_default = True, we_config_source = src, we_is_sensitive = False,
      we_syn_cnt = int (length syns), we_synonyms = syns\<rparr>"

definition describe_resource :: "int \<Rightarrow> string \<Rightarrow> wire_config_entry list \<Rightarrow> wire_describe_resource" where
  "describe_resource rtype nm es =
     \<lparr>dr_error_code = 0, dr_error_msg = None, dr_res_type = rtype, dr_res_name = Some nm,
      dr_entry_cnt = int (length es), dr_entries = es\<rparr>"

definition example_describe_reply :: "int \<Rightarrow> wire_synonym list \<Rightarrow> rd_kafka_rbuf_t" where
  "example_describe_reply api_version syns =
     describe_response api_version
       [describe_resource RD_KAFKA_RESOURCE_TOPIC ''t''
          [example_wire_entry RD_KAFKA_CONFIG_SOURCE_DEFAULT_CONFIG syns]]"

definition example_cbs :: "(unit, unit, unit) rd_kafka_admin_worker_cbs" where
  "example_cbs = \<lparr>cbs_request = (\<lambda>b as os. 0), cbs_parse = (\<lambda>q b. (0, None))\<rparr>"

definition example_rko :: "(unit, unit) admin_request" where
  "example_rko = (example_req [])\<lparr>rko_state := RD_KAFKA_ADMIN_STATE_WAIT_RESPONSE\<rparr>"

definition example_rko_failed :: "(unit, unit) admin_request" where
  "example_rko_failed =
     example_rko\<lparr>rko_err := RD_KAFKA_RESP_ERR__TIMED_OUT, rko_abs_timeout := 1000000\<rparr>"

definition example_rko_late :: "(unit, unit) admin_request" where
  "example_rko_late = example_rko\<lparr>rko_abs_timeout := 1000000\<rparr>"

text \<open>The definitions of the five parsers, collected for unfolding.\<close>

named_theorems parse_defs

declare rd_kafka_CreateTopicsResponse_parse_def [parse_defs]
declare rd_kafka_DeleteTopicsResponse_parse_def [parse_defs]
declare rd_kafka_CreatePartitionsResponse_parse_def [parse_defs]
declare rd_kafka_AlterConfigsResponse_parse_def [parse_defs]
declare rd_kafka_DescribeConfigsResponse_parse_def [parse_defs]

section \<open>Properties\<close>

subsection \<open>Enum names\<close>

lemma small_word_sint:
  fixes c :: "32 word"
  assumes "uint c < 6"
  shows "sint c = uint c"
proof -
  have "- 2147483648 \<le> uint c"
    using uint_ge_0 [of c] by linarith
  with assms show ?thesis
    by (simp add: sint_uint signed_take_bit_int_eq_self_iff)
qed

text \<open>
  Claim C10. \<^verbatim>\<open>rd_kafka_ConfigSource_name\<close> and \<^verbatim>\<open>rd_kafka_ResourceType_name\<close> are total
  on every 32-bit value: a value that is not below the enum's count when read as
  unsigned, so every negative one, yields "UNSUPPORTED"; a known member yields
  its entry of the name table; the read of the table is never outside it (the
  result is never \<open>None\<close>).
\<close>

theorem enum_names_total:
  "rd_kafka_ConfigSource_name c =
     Some (if uint c < 6 then ConfigSource_names ! nat (uint c) else ''UNSUPPORTED'')
   \<and> rd_kafka_ResourceType_name r =
     Some (if uint r < 5 then ResourceType_names ! nat (uint r) else ''UNSUPPORTED'')
   \<and> (sint c < 0 \<longrightarrow> rd_kafka_ConfigSource_name c = Some ''UNSUPPORTED'')
   \<and> (sint r < 0 \<longrightarrow> rd_kafka_ResourceType_name r = Some ''UNSUPPORTED'')"
proof -
  have neg: "uint x \<ge> 6" if "sint x < 0" for x :: "32 word"
    using that small_word_sint [of x] uint_ge_0 [of x] by (cases "uint x < 6") auto
  have c: "rd_kafka_ConfigSource_name c =
     Some (if uint c < 6 then ConfigSource_names ! nat (uint c) else ''UNSUPPORTED'')"
    using small_word_sint [of c] uint_ge_0 [of c]
    by (simp add: rd_kafka_ConfigSource_name_def to_unsigned_int_def
        RD_KAFKA_CONFIG_SOURCE__CNT_def c_array_read_def ConfigSource_names_def)
  have r: "rd_kafka_ResourceType_name r =
     Some (if uint r < 5 then ResourceType_names ! nat (uint r) else ''UNSUPPORTED'')"
    using small_word_sint [of r] uint_ge_0 [of r]
    by (simp add: rd_kafka_ResourceType_name_def to_unsigned_int_def
        RD_KAFKA_RESOURCE__CNT_def c_array_read_def ResourceType_names_def)
  show ?thesis using c r neg [of c] neg [of r] by auto
qed

theorem enum_names_total_witness:
  "rd_kafka_ConfigSource_name 5 = Some ''DEFAULT_CONFIG''
   \<and> rd_kafka_ResourceType_name (- 1) = Some ''UNSUPPORTED''
   \<and> sint (- 1 :: 32 word) < 0"
  using enum_names_total [of 5 "- 1", THEN conjunct1]
    enum_names_total [of 5 "- 1", THEN conjunct2, THEN conjunct2, THEN conjunct2]
  by (simp add: ConfigSource_names_def)

subsection \<open>Array accessors\<close>

text \<open>
  Claim C9. \<^verbatim>\<open>rd_kafka_ConfigEntry_synonyms\<close> returns NULL and the count 0 when the
  entry has no synonyms, and \<^verbatim>\<open>rd_kafka_ConfigResource_configs\<close> does so when the
  resource has no config entries; a pointer that is not NULL is the array of a
  sequence that is not empty, and the count is always the length.
\<close>

theorem empty_arrays_are_null:
  "snd (rd_kafka_ConfigEntry_synonyms entry) = int (length (synonyms entry))
   \<and> (synonyms entry = [] \<longrightarrow> rd_kafka_ConfigEntry_synonyms entry = (None, 0))
   \<and> (fst (rd_kafka_ConfigEntry_synonyms entry) \<noteq> None \<longrightarrow>
        fst (rd_kafka_ConfigEntry_synonyms entry) = Some (synonyms entry) \<and> synonyms entry \<noteq> [])
   \<and> snd (rd_kafka_ConfigResource_configs cfg) = int (length (config cfg))
   \<and> (config cfg = [] \<longrightarrow> rd_kafka_ConfigResource_configs cfg = (None, 0))
   \<and> (fst (rd_kafka_ConfigResource_configs cfg) \<noteq> None \<longrightarrow>
        fst (rd_kafka_ConfigResource_configs cfg) = Some (config cfg) \<and> config cfg \<noteq> [])"
  by (simp add: rd_kafka_ConfigEntry_synonyms_def rd_kafka_ConfigResource_configs_def
      rd_list_cnt_def Let_def)

theorem empty_arrays_are_null_witness:
  "rd_kafka_ConfigEntry_synonyms (ConfigEntry ''a'' None ConfigEntry_a_zero []) = (None, 0)
   \<and> rd_kafka_ConfigResource_configs
        \<lparr>restype = 2, res_name = ''t'', config = [], res_err = 0, res_errstr = None\<rparr> = (None, 0)
   \<and> fst (rd_kafka_ConfigResource_configs
        \<lparr>restype = 2, res_name = ''t'', config = [ConfigEntry ''a'' None ConfigEntry_a_zero []],
         res_err = 0, res_errstr = None\<rparr>) = Some [ConfigEntry ''a'' None ConfigEntry_a_zero []]"
  using empty_arrays_are_null [of "ConfigEntry ''a'' None ConfigEntry_a_zero []"
      "\<lparr>restype = 2, res_name = ''t'', config = [], res_err = 0, res_errstr = None\<rparr>"]
    empty_arrays_are_null [of "ConfigEntry ''a'' None ConfigEntry_a_zero []"
      "\<lparr>restype = 2, res_name = ''t'', config = [ConfigEntry ''a'' None ConfigEntry_a_zero []],
         res_err = 0, res_errstr = None\<rparr>"]
  by (simp add: rd_kafka_ConfigResource_configs_def rd_list_cnt_def)

subsection \<open>Lists\<close>

lemma compare_chars_eq_0: "compare_chars a b = 0 \<longleftrightarrow> a = b"
  by (induction a b rule: compare_chars.induct) auto

lemma strcmp_eq_0: "strcmp a b = 0 \<longleftrightarrow> c_str a = c_str b"
  by (simp add: strcmp_def compare_chars_eq_0)

lemma c_str_idem: "c_str (c_str s) = c_str s"
  by (simp add: c_str_def)

lemma c_str_DUPA: "c_str (RD_KAFKAP_STR_DUPA k) = RD_KAFKAP_STR_DUPA k"
  by (simp add: RD_KAFKAP_STR_DUPA_def c_str_idem split: option.splits) (simp add: c_str_def)

lemma rd_list_index_from_bounds:
  "0 \<le> i \<Longrightarrow> rd_list_index_from i rl m cmp = pos \<Longrightarrow> pos \<noteq> - 1 \<Longrightarrow>
     i \<le> pos \<and> pos < i + int (length rl) \<and> cmp m (rl ! nat (pos - i)) = 0"
proof (induction rl arbitrary: i)
  case Nil
  then show ?case by simp
next
  case (Cons e rl)
  show ?case
  proof (cases "cmp m e = 0")
    case True
    with Cons.prems show ?thesis by simp
  next
    case False
    with Cons.prems have r: "rd_list_index_from (i + 1) rl m cmp = pos" by simp
    from Cons.IH [OF _ r] Cons.prems
    have b: "i + 1 \<le> pos" "pos < i + 1 + int (length rl)" "cmp m (rl ! nat (pos - (i + 1))) = 0"
      by auto
    have "nat (pos - i) = Suc (nat (pos - (i + 1)))" using b by linarith
    with b show ?thesis by simp
  qed
qed

lemma rd_list_index_found:
  assumes "rd_list_index rl m cmp \<noteq> - 1"
  shows "0 \<le> rd_list_index rl m cmp \<and> rd_list_index rl m cmp < rd_list_cnt rl
         \<and> cmp m (rl ! nat (rd_list_index rl m cmp)) = 0"
  using rd_list_index_from_bounds [of 0 rl m cmp "rd_list_index rl m cmp"] assms
  by (simp add: rd_list_index_def rd_list_cnt_def)

lemma rd_list_index_from_first:
  "0 \<le> i \<Longrightarrow> rd_list_index_from i rl m cmp = pos \<Longrightarrow> pos \<noteq> - 1 \<Longrightarrow>
     j < nat (pos - i) \<Longrightarrow> cmp m (rl ! j) \<noteq> 0"
proof (induction rl arbitrary: i j)
  case Nil
  then show ?case by simp
next
  case (Cons e rl)
  show ?case
  proof (cases "cmp m e = 0")
    case True
    with Cons.prems show ?thesis by simp
  next
    case False
    with Cons.prems have r: "rd_list_index_from (i + 1) rl m cmp = pos" by simp
    show ?thesis
    proof (cases j)
      case 0
      with False show ?thesis by simp
    next
      case (Suc j')
      from rd_list_index_from_bounds [OF _ r Cons.prems(3)] Cons.prems(1)
      have "i + 1 \<le> pos" by simp
      with Cons.prems(4) Suc have "j' < nat (pos - (i + 1))" by linarith
      from Cons.IH [OF _ r Cons.prems(3) this] Cons.prems(1) Suc show ?thesis by simp
    qed
  qed
qed

lemma rd_list_index_first:
  assumes "rd_list_index rl m cmp \<noteq> - 1" and "j < nat (rd_list_index rl m cmp)"
  shows "cmp m (rl ! j) \<noteq> 0"
  using rd_list_index_from_first [of 0 rl m cmp "rd_list_index rl m cmp" j] assms
  by (simp add: rd_list_index_def)

lemma rd_list_index_from_none:
  "0 \<le> i \<Longrightarrow> rd_list_index_from i rl m cmp = - 1 \<longleftrightarrow> (\<forall>e \<in> set rl. cmp m e \<noteq> 0)"
  by (induction rl arbitrary: i) auto

lemma rd_list_index_none:
  "rd_list_index rl m cmp = - 1 \<longleftrightarrow> (\<forall>e \<in> set rl. cmp m e \<noteq> 0)"
  by (simp add: rd_list_index_def rd_list_index_from_none)

lemma rd_list_elem_set_same:
  "0 \<le> pos \<Longrightarrow> rd_list_elem (rd_list_set rs pos r) pos = Some r"
  by (auto simp: rd_list_elem_def rd_list_set_def rd_list_cnt_def nth_append)

lemma rd_list_elem_set_other:
  assumes "0 \<le> pos" "q \<noteq> pos"
  shows "rd_list_elem (rd_list_set rs pos r) q = rd_list_elem rs q"
proof (cases "pos \<ge> rd_list_cnt rs")
  case True
  then have s: "rd_list_set rs pos r = rs @ replicate (nat pos - length rs) None @ [Some r]"
    by (simp add: rd_list_set_def)
  have len: "length (rd_list_set rs pos r) = nat pos + 1"
    using True assms by (simp add: s rd_list_cnt_def)
  show ?thesis
  proof (cases "0 \<le> q \<and> q < int (length rs)")
    case True
    then show ?thesis using len \<open>pos \<ge> rd_list_cnt rs\<close>
      by (auto simp: rd_list_elem_def rd_list_cnt_def s nth_append)
  next
    case False
    then show ?thesis using len assms \<open>pos \<ge> rd_list_cnt rs\<close>
      by (auto simp: rd_list_elem_def rd_list_cnt_def s nth_append nth_Cons')
  qed
next
  case False
  then show ?thesis using assms
    by (auto simp: rd_list_elem_def rd_list_set_def rd_list_cnt_def)
qed



subsection \<open>The loop\<close>

lemma parse_loop_split:
  "length pre \<le> n \<Longrightarrow>
   parse_loop body n (pre @ post) s =
     (case parse_loop body (length pre) pre s of
        Inl f \<Rightarrow> Inl f
      | Inr s' \<Rightarrow> parse_loop body (n - length pre) post s')"
proof (induction pre arbitrary: n s)
  case Nil
  then show ?case by simp
next
  case (Cons e pre)
  then obtain m where n: "n = Suc m" by (cases n) auto
  with Cons.prems have "length pre \<le> m" by simp
  from Cons.IH [OF this] show ?case
    by (simp add: n split: sum.splits)
qed

lemma parse_loop_invariant:
  assumes "parse_loop body n es s = Inr s'"
    and "I s"
    and "\<And>e a b. e \<in> set (take n es) \<Longrightarrow> I a \<Longrightarrow> body e a = Inr b \<Longrightarrow> I b"
  shows "I s'"
  using assms
proof (induction body n es s rule: parse_loop.induct)
  case (1 body es s)
  then show ?case by simp
next
  case (2 body n s)
  then show ?case by (simp add: rd_kafka_buf_parse_fail_def)
next
  case (3 body n e es s)
  from "3.prems"(1) obtain a where a: "body e s = Inr a" and rest: "parse_loop body n es a = Inr s'"
    by (auto split: sum.splits)
  have "I a" using "3.prems"(3) [of e s a] "3.prems"(2) a by simp
  from "3.IH" [OF a rest this] "3.prems"(3) show ?case by auto
qed

lemma read_loop_invariant:
  assumes "read_loop body n s pos = Inr (s', pos')"
    and "I s"
    and "\<And>a p b p'. I a \<Longrightarrow> body a p = Inr (b, p') \<Longrightarrow> I b"
  shows "I s'"
  using assms
proof (induction n arbitrary: s pos)
  case 0
  then show ?case by simp
next
  case (Suc n)
  from Suc.prems(1) obtain a p where a: "body s pos = Inr (a, p)"
    and rest: "read_loop body n a p = Inr (s', pos')"
    by (auto split: sum.splits)
  have "I a" using Suc.prems(3) [OF Suc.prems(2) a] .
  from Suc.IH [OF rest this] Suc.prems(3) show ?case by blast
qed

lemma read_loop_Suc:
  "read_loop body (Suc k) s pos =
     (case read_loop body k s pos of
        Inl x \<Rightarrow> Inl x
      | Inr (s', pos') \<Rightarrow> body s' pos')"
proof (induction k arbitrary: s pos)
  case 0
  then show ?case by (simp split: sum.splits)
next
  case (Suc k)
  show ?case
  proof (cases "body s pos")
    case (Inl x)
    then show ?thesis by simp
  next
    case (Inr r)
    obtain a p where r: "r = (a, p)" by (cases r)
    from Suc [of a p] show ?thesis
      by (simp add: Inr r)
  qed
qed

lemma read_loop_add:
  "read_loop body (k + m) s pos =
     (case read_loop body k s pos of
        Inl x \<Rightarrow> Inl x
      | Inr (s', pos') \<Rightarrow> read_loop body m s' pos')"
proof (induction k arbitrary: s pos)
  case 0
  then show ?case by simp
next
  case (Suc k)
  show ?case
  proof (cases "body s pos")
    case (Inl x)
    then show ?thesis by simp
  next
    case (Inr r)
    obtain a p where r: "r = (a, p)" by (cases r)
    from Suc [of a p] show ?thesis
      by (simp add: Inr r)
  qed
qed

subsection \<open>One element of a response\<close>

lemma place_Inr:
  assumes "result_list_place as skel cmp rs r = Inr rs'"
  shows "rd_list_index as skel cmp \<noteq> - 1 \<and> rd_list_elem rs (rd_list_index as skel cmp) = None
         \<and> rs' = rd_list_set rs (rd_list_index as skel cmp) r"
  using assms
  by (auto simp: result_list_place_def Let_def rd_kafka_buf_parse_fail_def split: if_splits)

lemma elem_step_keeps:
  assumes "elem_step dec key as cmp w a = Inr b" and "rd_list_elem a q = Some x"
  shows "rd_list_elem b q = Some x"
proof (cases "dec w")
  case (Inl f)
  with assms show ?thesis by (simp add: elem_step_def)
next
  case (Inr ro)
  show ?thesis
  proof (cases ro)
    case None
    with Inr assms show ?thesis by (simp add: elem_step_def)
  next
    case (Some r)
    with Inr assms have p: "result_list_place as (key r) cmp a r = Inr b"
      by (simp add: elem_step_def)
    let ?pos = "rd_list_index as (key r) cmp"
    from place_Inr [OF p] have ne: "?pos \<noteq> - 1" and em: "rd_list_elem a ?pos = None"
      and b: "b = rd_list_set a ?pos r" by auto
    from rd_list_index_found [OF ne] have "0 \<le> ?pos" by simp
    moreover have "q \<noteq> ?pos" using em assms(2) by auto
    ultimately show ?thesis using assms(2) by (simp add: b rd_list_elem_set_other)
  qed
qed

lemma loop_keeps:
  assumes "parse_loop (elem_step dec key as cmp) n ws rs0 = Inr rs"
    and "rd_list_elem rs0 q = Some x"
  shows "rd_list_elem rs q = Some x"
proof (rule parse_loop_invariant [OF assms(1), where I = "\<lambda>a. rd_list_elem a q = Some x"])
  show "rd_list_elem rs0 q = Some x" by (rule assms(2))
next
  fix e a b
  assume "rd_list_elem a q = Some x" and "elem_step dec key as cmp e a = Inr b"
  then show "rd_list_elem b q = Some x" by (rule elem_step_keeps [rotated])
qed

lemma loop_places:
  "parse_loop (elem_step dec key as cmp) n ws rs0 = Inr rs \<Longrightarrow>
   w \<in> set (take n ws) \<Longrightarrow> dec w = Inr (Some r) \<Longrightarrow>
   rd_list_index as (key r) cmp \<noteq> - 1
   \<and> rd_list_elem rs (rd_list_index as (key r) cmp) = Some r"
proof (induction ws arbitrary: n rs0)
  case Nil
  then show ?case by simp
next
  case (Cons e es)
  from Cons.prems(2) obtain m where n: "n = Suc m" by (cases n) auto
  from Cons.prems(1) obtain a where a: "elem_step dec key as cmp e rs0 = Inr a"
    and rest: "parse_loop (elem_step dec key as cmp) m es a = Inr rs"
    by (auto simp: n split: sum.splits)
  show ?case
  proof (cases "w = e")
    case True
    with a Cons.prems(3) have p: "result_list_place as (key r) cmp rs0 r = Inr a"
      by (simp add: elem_step_def)
    let ?pos = "rd_list_index as (key r) cmp"
    from place_Inr [OF p] have ne: "?pos \<noteq> - 1" and b: "a = rd_list_set rs0 ?pos r" by auto
    from rd_list_index_found [OF ne] have "rd_list_elem a ?pos = Some r"
      by (simp add: b rd_list_elem_set_same)
    from loop_keeps [OF rest this] ne show ?thesis by simp
  next
    case False
    with Cons.prems(2) have "w \<in> set (take m es)" by (simp add: n)
    from Cons.IH [OF rest this Cons.prems(3)] show ?thesis .
  qed
qed

lemma loop_fails_at:
  assumes ws: "ws = pre @ w # post" and n: "length pre < n"
    and pre: "parse_loop (elem_step dec key as cmp) (length pre) pre rs0 = Inr rs"
    and dec: "dec w = Inr (Some r)"
  shows "(rd_list_index as (key r) cmp = - 1 \<longrightarrow>
            parse_loop (elem_step dec key as cmp) n ws rs0
              = Inl Not_in_request)
       \<and> (rd_list_index as (key r) cmp \<noteq> - 1
            \<and> rd_list_elem rs (rd_list_index as (key r) cmp) \<noteq> None \<longrightarrow>
            parse_loop (elem_step dec key as cmp) n ws rs0
              = Inl Multiple_times)
       \<and> (rd_list_index as (key r) cmp \<noteq> - 1
            \<and> rd_list_elem rs (rd_list_index as (key r) cmp) = None \<longrightarrow>
            parse_loop (elem_step dec key as cmp) (Suc (length pre)) (pre @ [w]) rs0
              = Inr (rd_list_set rs (rd_list_index as (key r) cmp) r))"
proof -
  obtain m where m: "n - length pre = Suc m" using n by (cases "n - length pre") auto
  have full: "parse_loop (elem_step dec key as cmp) n ws rs0 =
          (case elem_step dec key as cmp w rs of Inl f \<Rightarrow> Inl f
           | Inr s' \<Rightarrow> parse_loop (elem_step dec key as cmp) m post s')"
    using parse_loop_split [of pre n "elem_step dec key as cmp" "w # post" rs0] n
    by (simp add: ws pre m)
  have one: "parse_loop (elem_step dec key as cmp) (Suc (length pre)) (pre @ [w]) rs0 =
          (case elem_step dec key as cmp w rs of Inl f \<Rightarrow> Inl f | Inr s' \<Rightarrow> Inr s')"
    using parse_loop_split [of pre "Suc (length pre)" "elem_step dec key as cmp" "[w]" rs0]
    by (simp add: pre split: sum.splits)
  have st: "elem_step dec key as cmp w rs = result_list_place as (key r) cmp rs r"
    by (simp add: elem_step_def dec)
  show ?thesis
    unfolding full one st
    by (simp add: result_list_place_def Let_def rd_kafka_buf_parse_fail_def)
qed

lemma loop_skip:
  assumes ws: "ws = pre @ w # post" and n: "length pre < n"
    and pre: "parse_loop (elem_step dec key as cmp) (length pre) pre rs0 = Inr rs"
    and dec: "dec w = Inr None"
  shows "parse_loop (elem_step dec key as cmp) (Suc (length pre)) (pre @ [w]) rs0 = Inr rs"
  using parse_loop_split [of pre "Suc (length pre)" "elem_step dec key as cmp" "[w]" rs0]
  by (simp add: pre elem_step_def dec)




subsection \<open>The five parsers\<close>

lemma CreateTopics_elem_step:
  "CreateTopics_elem q v =
     elem_step (\<lambda>w. Inr (Some (CreateTopics_terr q v w))) (\<lambda>r. NewTopic_skel (tr_topic r))
       (rko_args q) rd_kafka_NewTopic_cmp"
  by (rule ext)+ (simp add: CreateTopics_elem_def elem_step_def Let_def)

lemma DeleteTopics_elem_step:
  "DeleteTopics_elem q =
     elem_step (\<lambda>w. Inr (Some (DeleteTopics_terr q w))) (\<lambda>r. DeleteTopic_skel (tr_topic r))
       (rko_args q) rd_kafka_DeleteTopic_cmp"
  by (rule ext)+ (simp add: DeleteTopics_elem_def elem_step_def Let_def)

lemma CreatePartitions_elem_step:
  "CreatePartitions_elem q =
     elem_step (\<lambda>w. Inr (Some (CreatePartitions_terr q w)))
       (\<lambda>r. NewPartitions_skel (tr_topic r)) (rko_args q) rd_kafka_NewPartitions_cmp"
  by (rule ext)+ (simp add: CreatePartitions_elem_def elem_step_def Let_def)

lemma AlterConfigs_elem_step:
  "AlterConfigs_elem q =
     elem_step (\<lambda>w. Inr (AlterConfigs_config w))
       (\<lambda>c. ConfigResource_skel (restype c) (res_name c)) (rko_args q)
       rd_kafka_ConfigResource_cmp"
  by (rule ext)+ (simp add: AlterConfigs_elem_def elem_step_def split: option.splits)

lemmas elem_steps =
  CreateTopics_elem_step DeleteTopics_elem_step CreatePartitions_elem_step
  AlterConfigs_elem_step


lemma DescribeConfigs_elem_cases:
  assumes "DescribeConfigs_elem q r a pos = Inr (b, p)"
  shows "(DescribeConfigs_config r pos = Inr (None, p) \<and> b = a)
       \<or> (\<exists>cfg. DescribeConfigs_config r pos = Inr (Some cfg, p)
              \<and> result_list_place (rko_args q) (ConfigResource_skel (restype cfg) (res_name cfg))
                    rd_kafka_ConfigResource_cmp a cfg = Inr b)"
  using assms
  by (auto simp: DescribeConfigs_elem_def and_then_def split: sum.splits option.splits prod.splits)


text \<open>A response of DescribeConfigs that parses is its loop, run behind the two counts.\<close>

lemma DescribeConfigs_body_reads:
  "buf_read_i32 r (rkbuf_offset r) = Some (t, p1) \<Longrightarrow> buf_read_i32 r p1 = Some (n, p2) \<Longrightarrow>
     DescribeConfigs_body q r =
       (if n > rd_list_cnt (rko_args q) then Inl (Goto_err_parse Too_many_elements Ptr_null)
        else read_loop (DescribeConfigs_elem q r) (nat n) [] p2)"
  by (simp add: DescribeConfigs_body_def and_then_def rd_kafka_buf_read_def rd_list_init_def)

lemma parsed_describe:
  assumes "rd_kafka_DescribeConfigsResponse_parse q r = Inr rs"
  shows "\<exists>t p1 n p2 p. buf_read_i32 r (rkbuf_offset r) = Some (t, p1)
           \<and> buf_read_i32 r p1 = Some (n, p2) \<and> n \<le> rd_list_cnt (rko_args q)
           \<and> read_loop (DescribeConfigs_elem q r) (nat n) [] p2 = Inr (rs, p)"
proof -
  from assms obtain p where b: "DescribeConfigs_body q r = Inr (rs, p)"
    by (auto simp: rd_kafka_DescribeConfigsResponse_parse_def Let_def
        split: sum.splits describe_exit.splits prod.splits)
  then obtain t p1 where t: "buf_read_i32 r (rkbuf_offset r) = Some (t, p1)"
    by (cases "buf_read_i32 r (rkbuf_offset r)")
      (auto simp: DescribeConfigs_body_def and_then_def rd_kafka_buf_read_def)
  with b obtain n p2 where n: "buf_read_i32 r p1 = Some (n, p2)"
    by (cases "buf_read_i32 r p1")
      (auto simp: DescribeConfigs_body_def and_then_def rd_kafka_buf_read_def)
  from b DescribeConfigs_body_reads [OF t n, of q]
  have "n \<le> rd_list_cnt (rko_args q)"
    and "read_loop (DescribeConfigs_elem q r) (nat n) [] p2 = Inr (rs, p)"
    by (auto split: if_splits)
  with t n show ?thesis by blast
qed

text \<open>
  Claim C6, as the source has it. When the response declares more elements than
  the args list of the request holds, no parser returns a result list, and the
  code it returns is this:

  \<^item> \<^verbatim>\<open>rd_kafka_AlterConfigsResponse_parse\<close> returns \<^verbatim>\<open>RD_KAFKA_RESP_ERR__BAD_MSG\<close> itself;

  \<^item> the parsers of CreateTopics, DeleteTopics, CreatePartitions and
    DescribeConfigs leave through \<^verbatim>\<open>err_parse\<close> and return their local \<open>err\<close>,
    which is initialised to \<^verbatim>\<open>RD_KAFKA_RESP_ERR_NO_ERROR\<close> and assigned nowhere: the code
    they return is \<^verbatim>\<open>RD_KAFKA_RESP_ERR_NO_ERROR\<close>, which is not \<^verbatim>\<open>RD_KAFKA_RESP_ERR__BAD_MSG\<close>.

  The count of DescribeConfigs is the second 32-bit integer of the reply, behind
  the throttle time.
\<close>

theorem too_many_elements_returns_err:
  "(buf_cnt r1 > rd_list_cnt (rko_args q1) \<longrightarrow>
      rd_kafka_CreateTopicsResponse_parse q1 r1
        = Inl (Parse_fail RD_KAFKA_RESP_ERR_NO_ERROR Too_many_elements))
   \<and> (buf_cnt r2 > rd_list_cnt (rko_args q2) \<longrightarrow>
      rd_kafka_DeleteTopicsResponse_parse q2 r2
        = Inl (Parse_fail RD_KAFKA_RESP_ERR_NO_ERROR Too_many_elements))
   \<and> (buf_cnt r3 > rd_list_cnt (rko_args q3) \<longrightarrow>
      rd_kafka_CreatePartitionsResponse_parse q3 r3
        = Inl (Parse_fail RD_KAFKA_RESP_ERR_NO_ERROR Too_many_elements))
   \<and> (buf_cnt r4 > rd_list_cnt (rko_args q4) \<longrightarrow>
      rd_kafka_AlterConfigsResponse_parse q4 r4
        = Inl (Parse_fail RD_KAFKA_RESP_ERR__BAD_MSG Too_many_elements))
   \<and> (buf_read_i32 r5 (rkbuf_offset r5) = Some (t5, o5) \<and> buf_read_i32 r5 o5 = Some (n5, p5)
        \<and> n5 > rd_list_cnt (rko_args q5) \<longrightarrow>
      rd_kafka_DescribeConfigsResponse_parse q5 r5
        = Inl (Parse_fail RD_KAFKA_RESP_ERR_NO_ERROR Too_many_elements))
   \<and> RD_KAFKA_RESP_ERR_NO_ERROR \<noteq> RD_KAFKA_RESP_ERR__BAD_MSG"
proof -
  have d: "buf_read_i32 r5 (rkbuf_offset r5) = Some (t5, o5) \<and> buf_read_i32 r5 o5 = Some (n5, p5)
        \<and> n5 > rd_list_cnt (rko_args q5) \<longrightarrow>
      rd_kafka_DescribeConfigsResponse_parse q5 r5
        = Inl (Parse_fail RD_KAFKA_RESP_ERR_NO_ERROR Too_many_elements)"
    using DescribeConfigs_body_reads [of r5 t5 o5 n5 p5 q5]
    by (simp add: rd_kafka_DescribeConfigsResponse_parse_def DescribeConfigs_err_parse_def Let_def)
  show ?thesis
    using d by (simp add: parse_defs rd_kafka_buf_parse_fail_def err_parse_def Let_def err_defs)
qed

theorem too_many_elements_returns_err_witness:
  "buf_cnt (example_delete_reply [''t1'', ''t2'']) > rd_list_cnt (rko_args example_create_req)
   \<and> rd_kafka_CreateTopicsResponse_parse example_create_req (example_delete_reply [''t1'', ''t2''])
       = Inl (Parse_fail RD_KAFKA_RESP_ERR_NO_ERROR Too_many_elements)
   \<and> buf_cnt (example_delete_reply [''a'', ''b'', ''c'', ''d''])
       > rd_list_cnt (rko_args example_delete_req)
   \<and> rd_kafka_DeleteTopicsResponse_parse example_delete_req
        (example_delete_reply [''a'', ''b'', ''c'', ''d''])
       = Inl (Parse_fail RD_KAFKA_RESP_ERR_NO_ERROR Too_many_elements)
   \<and> buf_cnt (example_delete_reply [''t1'', ''t2'']) > rd_list_cnt (rko_args example_partitions_req)
   \<and> rd_kafka_CreatePartitionsResponse_parse example_partitions_req
        (example_delete_reply [''t1'', ''t2''])
       = Inl (Parse_fail RD_KAFKA_RESP_ERR_NO_ERROR Too_many_elements)
   \<and> buf_cnt (example_alter_reply [(2, ''t''), (4, ''0''), (2, ''u'')])
       > rd_list_cnt (rko_args example_config_req)
   \<and> rd_kafka_AlterConfigsResponse_parse example_config_req
        (example_alter_reply [(2, ''t''), (4, ''0''), (2, ''u'')])
       = Inl (Parse_fail RD_KAFKA_RESP_ERR__BAD_MSG Too_many_elements)
   \<and> buf_read_i32 (describe_response 0 [describe_resource 2 ''t'' [], describe_resource 2 ''t'' [], describe_resource 2 ''t'' []]) (rkbuf_offset (describe_response 0 [describe_resource 2 ''t'' [], describe_resource 2 ''t'' [], describe_resource 2 ''t'' []])) = Some (0, 4)
   \<and> buf_read_i32 (describe_response 0 [describe_resource 2 ''t'' [], describe_resource 2 ''t'' [], describe_resource 2 ''t'' []]) 4 = Some (3, 8)
   \<and> 3 > rd_list_cnt (rko_args example_config_req)
   \<and> rd_kafka_DescribeConfigsResponse_parse example_config_req (describe_response 0 [describe_resource 2 ''t'' [], describe_resource 2 ''t'' [], describe_resource 2 ''t'' []])
       = Inl (Parse_fail RD_KAFKA_RESP_ERR_NO_ERROR Too_many_elements)"
proof -
  have h: "buf_cnt (example_delete_reply [''t1'', ''t2'']) > rd_list_cnt (rko_args example_create_req)"
    "buf_cnt (example_delete_reply [''a'', ''b'', ''c'', ''d''])
       > rd_list_cnt (rko_args example_delete_req)"
    "buf_cnt (example_delete_reply [''t1'', ''t2'']) > rd_list_cnt (rko_args example_partitions_req)"
    "buf_cnt (example_alter_reply [(2, ''t''), (4, ''0''), (2, ''u'')])
       > rd_list_cnt (rko_args example_config_req)"
    "buf_read_i32 (describe_response 0 [describe_resource 2 ''t'' [], describe_resource 2 ''t'' [], describe_resource 2 ''t'' []]) (rkbuf_offset (describe_response 0 [describe_resource 2 ''t'' [], describe_resource 2 ''t'' [], describe_resource 2 ''t'' []])) = Some (0, 4)"
    "buf_read_i32 (describe_response 0 [describe_resource 2 ''t'' [], describe_resource 2 ''t'' [], describe_resource 2 ''t'' []]) 4 = Some (3, 8)"
    "3 > rd_list_cnt (rko_args example_config_req)"
    by code_simp+
  from too_many_elements_returns_err [where ?q1.0 = example_create_req
      and ?r1.0 = "example_delete_reply [''t1'', ''t2'']"
      and ?q2.0 = example_delete_req
      and ?r2.0 = "example_delete_reply [''a'', ''b'', ''c'', ''d'']"
      and ?q3.0 = example_partitions_req
      and ?r3.0 = "example_delete_reply [''t1'', ''t2'']"
      and ?q4.0 = example_config_req
      and ?r4.0 = "example_alter_reply [(2, ''t''), (4, ''0''), (2, ''u'')]"
      and ?q5.0 = example_config_req
      and ?r5.0 = "describe_response 0 [describe_resource 2 ''t'' [], describe_resource 2 ''t'' [], describe_resource 2 ''t'' []]" and ?t5.0 = 0 and ?o5.0 = 4 and ?n5.0 = 3 and ?p5.0 = 8] h
  show ?thesis by blast
qed





subsection \<open>Elements and their positions\<close>

lemma NewTopic_cmp_0:
  "rd_kafka_NewTopic_cmp (NewTopic_skel t) a = 0 \<longleftrightarrow> c_str (nt_topic a) = c_str t"
  by (auto simp: rd_kafka_NewTopic_cmp_def NewTopic_skel_def strcmp_eq_0)

lemma DeleteTopic_cmp_0:
  "rd_kafka_DeleteTopic_cmp (DeleteTopic_skel t) a = 0 \<longleftrightarrow> c_str (dt_topic a) = c_str t"
  by (auto simp: rd_kafka_DeleteTopic_cmp_def DeleteTopic_skel_def strcmp_eq_0)

lemma NewPartitions_cmp_0:
  "rd_kafka_NewPartitions_cmp (NewPartitions_skel t) a = 0 \<longleftrightarrow> c_str (np_topic a) = c_str t"
  by (auto simp: rd_kafka_NewPartitions_cmp_def NewPartitions_skel_def strcmp_eq_0)

lemma ConfigResource_cmp_0:
  "rd_kafka_ConfigResource_cmp (ConfigResource_skel ty nm) a = 0
     \<longleftrightarrow> restype a = ty \<and> c_str (res_name a) = c_str nm"
  by (auto simp: rd_kafka_ConfigResource_cmp_def ConfigResource_skel_def strcmp_eq_0)

lemma generic_places:
  assumes "parse_loop (elem_step dec key as cmp) n ws (rd_list_init c) = Inr rs"
    and "w \<in> set (take n ws)" and "dec w = Inr (Some r)"
  shows "0 \<le> rd_list_index as (key r) cmp \<and> rd_list_index as (key r) cmp < rd_list_cnt as
         \<and> cmp (key r) (as ! nat (rd_list_index as (key r) cmp)) = 0
         \<and> (\<forall>j<nat (rd_list_index as (key r) cmp). cmp (key r) (as ! j) \<noteq> 0)
         \<and> rd_list_elem rs (rd_list_index as (key r) cmp) = Some r"
proof -
  from assms(1) have l: "parse_loop (elem_step dec key as cmp) n ws [] = Inr rs"
    by (simp add: rd_list_init_def)
  from loop_places [OF l assms(2,3)] rd_list_index_found [of as "key r" cmp]
    rd_list_index_first [of as "key r" cmp]
  show ?thesis by simp
qed

lemma generic_fails_at:
  assumes k: "k < n" "k < length ws"
    and pre: "parse_loop (elem_step dec key as cmp) k (take k ws) (rd_list_init c0) = Inr rs"
    and dec: "dec (ws ! k) = Inr (Some r)"
  shows "(rd_list_index as (key r) cmp = - 1 \<longrightarrow>
            parse_loop (elem_step dec key as cmp) n ws (rd_list_init c1)
              = Inl Not_in_request)
       \<and> (rd_list_index as (key r) cmp \<noteq> - 1
            \<and> rd_list_elem rs (rd_list_index as (key r) cmp) \<noteq> None \<longrightarrow>
            parse_loop (elem_step dec key as cmp) n ws (rd_list_init c1)
              = Inl Multiple_times)
       \<and> (rd_list_index as (key r) cmp \<noteq> - 1
            \<and> rd_list_elem rs (rd_list_index as (key r) cmp) = None \<longrightarrow>
            parse_loop (elem_step dec key as cmp) (Suc k) (take (Suc k) ws) (rd_list_init c2)
              = Inr (rd_list_set rs (rd_list_index as (key r) cmp) r))"
proof -
  have ws: "ws = take k ws @ ws ! k # drop (Suc k) ws"
    using k(2) by (simp add: id_take_nth_drop)
  have len: "length (take k ws) = k" using k(2) by simp
  have tk: "take (Suc k) ws = take k ws @ [ws ! k]"
    using k(2) by (simp add: take_Suc_conv_app_nth)
  from pre have pre': "parse_loop (elem_step dec key as cmp) (length (take k ws)) (take k ws) [] = Inr rs"
    unfolding len by (simp add: rd_list_init_def)
  have n: "length (take k ws) < n" using k(1) len by simp
  from loop_fails_at [OF ws n pre' dec] show ?thesis
    unfolding len tk [symmetric] by (simp add: rd_list_init_def)
qed

lemma generic_skip:
  assumes k: "k < length ws"
    and pre: "parse_loop (elem_step dec key as cmp) k (take k ws) (rd_list_init c0) = Inr rs"
    and dec: "dec (ws ! k) = Inr None"
  shows "parse_loop (elem_step dec key as cmp) (Suc k) (take (Suc k) ws) (rd_list_init c2) = Inr rs"
proof -
  have ws: "ws = take k ws @ ws ! k # drop (Suc k) ws"
    using k by (simp add: id_take_nth_drop)
  have len: "length (take k ws) = k" using k by simp
  have tk: "take (Suc k) ws = take k ws @ [ws ! k]"
    using k by (simp add: take_Suc_conv_app_nth)
  from pre have pre': "parse_loop (elem_step dec key as cmp) (length (take k ws)) (take k ws) [] = Inr rs"
    unfolding len by (simp add: rd_list_init_def)
  have n: "length (take k ws) < Suc k" using len by simp
  from loop_skip [OF ws n pre' dec] show ?thesis
    unfolding len tk [symmetric] by (simp add: rd_list_init_def)
qed

text \<open>A parser whose count check passes is its loop, behind \<open>err_parse\<close>.\<close>

lemma parse_is_loop:
  "buf_cnt r1 \<le> rd_list_cnt (rko_args q1) \<Longrightarrow>
     rd_kafka_CreateTopicsResponse_parse q1 r1 =
       (case parse_loop (CreateTopics_elem q1 (ApiVersion r1)) (nat (buf_cnt r1)) (buf_elems r1)
               (rd_list_init (buf_cnt r1)) of
          Inl why \<Rightarrow> Inl (Parse_fail RD_KAFKA_RESP_ERR_NO_ERROR why)
        | Inr rs \<Rightarrow> Inr rs)"
  "buf_cnt r2 \<le> rd_list_cnt (rko_args q2) \<Longrightarrow>
     rd_kafka_DeleteTopicsResponse_parse q2 r2 =
       (case parse_loop (DeleteTopics_elem q2) (nat (buf_cnt r2)) (buf_elems r2)
               (rd_list_init (buf_cnt r2)) of
          Inl why \<Rightarrow> Inl (Parse_fail RD_KAFKA_RESP_ERR_NO_ERROR why)
        | Inr rs \<Rightarrow> Inr rs)"
  "buf_cnt r3 \<le> rd_list_cnt (rko_args q3) \<Longrightarrow>
     rd_kafka_CreatePartitionsResponse_parse q3 r3 =
       (case parse_loop (CreatePartitions_elem q3) (nat (buf_cnt r3)) (buf_elems r3)
               (rd_list_init (buf_cnt r3)) of
          Inl why \<Rightarrow> Inl (Parse_fail RD_KAFKA_RESP_ERR_NO_ERROR why)
        | Inr rs \<Rightarrow> Inr rs)"
  "buf_cnt r4 \<le> rd_list_cnt (rko_args q4) \<Longrightarrow>
     rd_kafka_AlterConfigsResponse_parse q4 r4 =
       (case parse_loop (AlterConfigs_elem q4) (nat (buf_cnt r4)) (buf_elems r4)
               (rd_list_init (buf_cnt r4)) of
          Inl why \<Rightarrow> Inl (Parse_fail RD_KAFKA_RESP_ERR_NO_ERROR why)
        | Inr rs \<Rightarrow> Inr rs)"
  by (simp_all add: parse_defs err_parse_def Let_def split: sum.splits)

lemma parsed_is_loop:
  "rd_kafka_CreateTopicsResponse_parse q1 r1 = Inr rs1 \<Longrightarrow>
     parse_loop (CreateTopics_elem q1 (ApiVersion r1)) (nat (buf_cnt r1)) (buf_elems r1)
         (rd_list_init (buf_cnt r1)) = Inr rs1"
  "rd_kafka_DeleteTopicsResponse_parse q2 r2 = Inr rs2 \<Longrightarrow>
     parse_loop (DeleteTopics_elem q2) (nat (buf_cnt r2)) (buf_elems r2)
         (rd_list_init (buf_cnt r2)) = Inr rs2"
  "rd_kafka_CreatePartitionsResponse_parse q3 r3 = Inr rs3 \<Longrightarrow>
     parse_loop (CreatePartitions_elem q3) (nat (buf_cnt r3)) (buf_elems r3)
         (rd_list_init (buf_cnt r3)) = Inr rs3"
  "rd_kafka_AlterConfigsResponse_parse q4 r4 = Inr rs4 \<Longrightarrow>
     parse_loop (AlterConfigs_elem q4) (nat (buf_cnt r4)) (buf_elems r4)
         (rd_list_init (buf_cnt r4)) = Inr rs4"
  by (simp_all add: parse_defs rd_kafka_buf_parse_fail_def Let_def split: if_splits sum.splits)

lemma first_elems_simps:
  "buf_cnt (first_elems k r) = int k"
  "buf_elems (first_elems k r) = take k (buf_elems r)"
  "ApiVersion (first_elems k r) = ApiVersion r"
  by (simp_all add: first_elems_def)

subsection \<open>The loop of DescribeConfigs\<close>

lemma place_keeps:
  assumes "result_list_place as skel cmp a r = Inr b" and "rd_list_elem a q = Some x"
  shows "rd_list_elem b q = Some x"
proof -
  let ?pos = "rd_list_index as skel cmp"
  from place_Inr [OF assms(1)] have ne: "?pos \<noteq> - 1" and em: "rd_list_elem a ?pos = None"
    and b: "b = rd_list_set a ?pos r" by auto
  from rd_list_index_found [OF ne] have "0 \<le> ?pos" by simp
  moreover have "q \<noteq> ?pos" using em assms(2) by auto
  ultimately show ?thesis using assms(2) by (simp add: b rd_list_elem_set_other)
qed

lemma describe_loop_keeps:
  assumes "read_loop (DescribeConfigs_elem q r) n rs0 pos = Inr (rs, p)"
    and "rd_list_elem rs0 i = Some x"
  shows "rd_list_elem rs i = Some x"
proof (rule read_loop_invariant [OF assms(1), where I = "\<lambda>a. rd_list_elem a i = Some x"])
  show "rd_list_elem rs0 i = Some x" by (rule assms(2))
next
  fix a p b p'
  assume inv: "rd_list_elem a i = Some x" and st: "DescribeConfigs_elem q r a p = Inr (b, p')"
  from DescribeConfigs_elem_cases [OF st] show "rd_list_elem b i = Some x"
  proof
    assume "DescribeConfigs_config r p = Inr (None, p') \<and> b = a"
    with inv show ?thesis by simp
  next
    assume "\<exists>cfg. DescribeConfigs_config r p = Inr (Some cfg, p')
              \<and> result_list_place (rko_args q) (ConfigResource_skel (restype cfg) (res_name cfg))
                    rd_kafka_ConfigResource_cmp a cfg = Inr b"
    then obtain cfg where "result_list_place (rko_args q)
        (ConfigResource_skel (restype cfg) (res_name cfg)) rd_kafka_ConfigResource_cmp a cfg = Inr b"
      by blast
    from place_keeps [OF this inv] show ?thesis .
  qed
qed

lemma DescribeConfigs_elem_config:
  "DescribeConfigs_config r pos = Inr (Some cfg, p) \<Longrightarrow>
     DescribeConfigs_elem q r a pos =
       (case result_list_place (rko_args q) (ConfigResource_skel (restype cfg) (res_name cfg))
               rd_kafka_ConfigResource_cmp a cfg of
          Inl why \<Rightarrow> Inl (Goto_err_parse why Ptr_destroyed)
        | Inr b \<Rightarrow> Inr (b, p))"
  "DescribeConfigs_config r pos = Inr (None, p) \<Longrightarrow> DescribeConfigs_elem q r a pos = Inr (a, p)"
  by (simp_all add: DescribeConfigs_elem_def and_then_def)

text \<open>The loop from the state it is in before an iteration.\<close>

lemma read_loop_from:
  assumes "k < n" and "read_loop body k s pos = Inr (a, p)"
  shows "read_loop body n s pos =
     (case body a p of
        Inl x \<Rightarrow> Inl x
      | Inr (b, p') \<Rightarrow> read_loop body (n - Suc k) b p')"
proof -
  have n: "n = k + Suc (n - Suc k)" using assms(1) by simp
  show ?thesis
    by (subst n, subst read_loop_add) (simp add: assms(2) split: sum.splits)
qed

lemma nat_1_int: "nat (1 + int k) = Suc k"
  by simp

lemma ConfigResource_new_cases:
  "rd_kafka_ConfigResource_new ty (Some nm) =
     (if c_str nm = [] \<or> ty < 0 then None
      else Some \<lparr>restype = ty, res_name = c_str nm, config = [], res_err = 0,
                 res_errstr = None\<rparr>)"
  by (simp add: rd_kafka_ConfigResource_new_def strlen_def)

lemma AlterConfigs_config_cases:
  "(AlterConfigs_config w = None
      \<longleftrightarrow> RD_KAFKAP_STR_DUPA (ar_res_name w) = [] \<or> ar_res_type w < 0)
   \<and> (AlterConfigs_config w = Some c \<longrightarrow>
        restype c = ar_res_type w \<and> res_name c = RD_KAFKAP_STR_DUPA (ar_res_name w))"
  by (auto simp: AlterConfigs_config_def ConfigResource_new_cases Let_def c_str_DUPA)

lemma add_entry_keeps_key:
  assumes "read_loop (DescribeConfigs_add_entry r) n c0 pos = Inr (c, p)"
  shows "restype c = restype c0 \<and> res_name c = res_name c0"
proof (rule read_loop_invariant [OF assms,
      where I = "\<lambda>a. restype a = restype c0 \<and> res_name a = res_name c0"])
  show "restype c0 = restype c0 \<and> res_name c0 = res_name c0" by simp
next
  fix a p b p'
  assume "restype a = restype c0 \<and> res_name a = res_name c0"
    and "DescribeConfigs_add_entry r a p = Inr (b, p')"
  then show "restype b = restype c0 \<and> res_name b = res_name c0"
    by (auto simp: DescribeConfigs_add_entry_def and_then_def split: sum.splits prod.splits)
qed

text \<open>The config resource of an element whose head has been read.\<close>

lemma DescribeConfigs_config_head:
  assumes "DescribeConfigs_head r a = Inr ((e, m, ty, nm), b)"
  shows "DescribeConfigs_config r a =
     (if RD_KAFKAP_STR_DUPA nm = [] \<or> ty < 0 then Inr (None, b)
      else and_then (rd_kafka_buf_read (buf_read_i32 r) Ptr_live b) (\<lambda>entry_cnt p5.
           and_then (read_loop (DescribeConfigs_add_entry r) (nat entry_cnt)
                       \<lparr>restype = ty, res_name = RD_KAFKAP_STR_DUPA nm, config = [],
                        res_err = e, res_errstr = element_errstr e m\<rparr> p5) (\<lambda>cfg p6.
             Inr (Some cfg, p6))))"
  using assms
  by (simp add: DescribeConfigs_config_def and_then_def Let_def ConfigResource_new_cases
      c_str_DUPA)

lemma DescribeConfigs_config_cases:
  assumes "DescribeConfigs_head r a = Inr ((e, m, ty, nm), b)"
  shows "(DescribeConfigs_config r a = Inr (None, b)
            \<longleftrightarrow> RD_KAFKAP_STR_DUPA nm = [] \<or> ty < 0)
       \<and> (DescribeConfigs_config r a = Inr (Some c, g) \<longrightarrow>
            restype c = ty \<and> res_name c = RD_KAFKAP_STR_DUPA nm)"
proof (cases "RD_KAFKAP_STR_DUPA nm = [] \<or> ty < 0")
  case True
  then show ?thesis by (simp add: DescribeConfigs_config_head [OF assms])
next
  case False
  let ?c0 = "\<lparr>restype = ty, res_name = RD_KAFKAP_STR_DUPA nm, config = [],
              res_err = e, res_errstr = element_errstr e m\<rparr>"
  have none: "DescribeConfigs_config r a \<noteq> Inr (None, b)"
    using False
    by (auto simp: DescribeConfigs_config_head [OF assms] and_then_def
        split: sum.splits prod.splits)
  have some: "restype c = ty \<and> res_name c = RD_KAFKAP_STR_DUPA nm"
    if "DescribeConfigs_config r a = Inr (Some c, g)"
  proof -
    from that False obtain cnt p5 where
      "read_loop (DescribeConfigs_add_entry r) (nat cnt) ?c0 p5 = Inr (c, g)"
      by (auto simp: DescribeConfigs_config_head [OF assms] and_then_def
          split: sum.splits prod.splits)
    from add_entry_keeps_key [OF this] show ?thesis by simp
  qed
  from none some False show ?thesis by blast
qed

lemma CreateTopics_places:
  "rd_kafka_CreateTopicsResponse_parse q1 r1 = Inr rs1 \<and> w1 \<in> set (take (nat (buf_cnt r1)) (buf_elems r1)) \<longrightarrow>
      (let terr = CreateTopics_terr q1 (ApiVersion r1) w1;
           pos = rd_list_index (rko_args q1) (NewTopic_skel (tr_topic terr)) rd_kafka_NewTopic_cmp
       in 0 \<le> pos \<and> pos < rd_list_cnt (rko_args q1)
          \<and> c_str (nt_topic (rko_args q1 ! nat pos)) = c_str (tr_topic terr)
          \<and> (\<forall>j<nat pos. c_str (nt_topic (rko_args q1 ! j)) \<noteq> c_str (tr_topic terr))
          \<and> rd_list_elem rs1 pos = Some terr)"
proof (intro impI, elim conjE)
  assume p: "rd_kafka_CreateTopicsResponse_parse q1 r1 = Inr rs1"
    and w: "w1 \<in> set (take (nat (buf_cnt r1)) (buf_elems r1))"
  from generic_places [OF parsed_is_loop(1) [OF p, unfolded elem_steps] w refl]
  show "let terr = CreateTopics_terr q1 (ApiVersion r1) w1;
           pos = rd_list_index (rko_args q1) (NewTopic_skel (tr_topic terr)) rd_kafka_NewTopic_cmp
       in 0 \<le> pos \<and> pos < rd_list_cnt (rko_args q1)
          \<and> c_str (nt_topic (rko_args q1 ! nat pos)) = c_str (tr_topic terr)
          \<and> (\<forall>j<nat pos. c_str (nt_topic (rko_args q1 ! j)) \<noteq> c_str (tr_topic terr))
          \<and> rd_list_elem rs1 pos = Some terr"
    by (simp add: Let_def NewTopic_cmp_0)
qed

lemma CreateTopics_fails_at:
  "k1 < nat (buf_cnt r1) \<and> k1 < length (buf_elems r1)
      \<and> buf_cnt r1 \<le> rd_list_cnt (rko_args q1)
      \<and> rd_kafka_CreateTopicsResponse_parse q1 (first_elems k1 r1) = Inr pre1 \<longrightarrow>
      (let terr = CreateTopics_terr q1 (ApiVersion r1) (buf_elems r1 ! k1);
           pos = rd_list_index (rko_args q1) (NewTopic_skel (tr_topic terr)) rd_kafka_NewTopic_cmp
       in (pos = - 1 \<longrightarrow>
             rd_kafka_CreateTopicsResponse_parse q1 r1 = Inl (Parse_fail RD_KAFKA_RESP_ERR_NO_ERROR Not_in_request))
          \<and> (pos \<noteq> - 1 \<and> rd_list_elem pre1 pos \<noteq> None \<longrightarrow>
             rd_kafka_CreateTopicsResponse_parse q1 r1 = Inl (Parse_fail RD_KAFKA_RESP_ERR_NO_ERROR Multiple_times))
          \<and> (pos \<noteq> - 1 \<and> rd_list_elem pre1 pos = None \<longrightarrow>
             rd_kafka_CreateTopicsResponse_parse q1 (first_elems (Suc k1) r1) = Inr (rd_list_set pre1 pos terr)))"
proof (intro impI, elim conjE)
  assume k: "k1 < nat (buf_cnt r1)" "k1 < length (buf_elems r1)"
    and c: "buf_cnt r1 \<le> rd_list_cnt (rko_args q1)"
    and p: "rd_kafka_CreateTopicsResponse_parse q1 (first_elems k1 r1) = Inr pre1"
  have ck: "buf_cnt (first_elems k1 r1) \<le> rd_list_cnt (rko_args q1)"
    "buf_cnt (first_elems (Suc k1) r1) \<le> rd_list_cnt (rko_args q1)"
    using k c by (simp_all add: first_elems_simps)
  from parsed_is_loop(1) [OF p] have pre: "parse_loop
      (elem_step (\<lambda>w. Inr (Some (CreateTopics_terr q1 (ApiVersion r1) w))) (\<lambda>r. NewTopic_skel (tr_topic r))
         (rko_args q1) rd_kafka_NewTopic_cmp)
      k1 (take k1 (buf_elems r1)) (rd_list_init 0) = Inr pre1"
    unfolding elem_steps by (simp add: first_elems_simps rd_list_init_def)
  from generic_fails_at [OF k pre refl, where ?c1.0 = 0 and ?c2.0 = 0]
  show "let terr = CreateTopics_terr q1 (ApiVersion r1) (buf_elems r1 ! k1);
           pos = rd_list_index (rko_args q1) (NewTopic_skel (tr_topic terr)) rd_kafka_NewTopic_cmp
       in (pos = - 1 \<longrightarrow>
             rd_kafka_CreateTopicsResponse_parse q1 r1 = Inl (Parse_fail RD_KAFKA_RESP_ERR_NO_ERROR Not_in_request))
          \<and> (pos \<noteq> - 1 \<and> rd_list_elem pre1 pos \<noteq> None \<longrightarrow>
             rd_kafka_CreateTopicsResponse_parse q1 r1 = Inl (Parse_fail RD_KAFKA_RESP_ERR_NO_ERROR Multiple_times))
          \<and> (pos \<noteq> - 1 \<and> rd_list_elem pre1 pos = None \<longrightarrow>
             rd_kafka_CreateTopicsResponse_parse q1 (first_elems (Suc k1) r1) = Inr (rd_list_set pre1 pos terr))"
    unfolding parse_is_loop(1) [OF c] parse_is_loop(1) [OF ck(2)] elem_steps
    by (simp add: Let_def first_elems_simps rd_list_init_def nat_1_int)
qed

lemma DeleteTopics_places:
  "rd_kafka_DeleteTopicsResponse_parse q2 r2 = Inr rs2 \<and> w2 \<in> set (take (nat (buf_cnt r2)) (buf_elems r2)) \<longrightarrow>
      (let terr = DeleteTopics_terr q2 w2;
           pos = rd_list_index (rko_args q2) (DeleteTopic_skel (tr_topic terr)) rd_kafka_DeleteTopic_cmp
       in 0 \<le> pos \<and> pos < rd_list_cnt (rko_args q2)
          \<and> c_str (dt_topic (rko_args q2 ! nat pos)) = c_str (tr_topic terr)
          \<and> (\<forall>j<nat pos. c_str (dt_topic (rko_args q2 ! j)) \<noteq> c_str (tr_topic terr))
          \<and> rd_list_elem rs2 pos = Some terr)"
proof (intro impI, elim conjE)
  assume p: "rd_kafka_DeleteTopicsResponse_parse q2 r2 = Inr rs2"
    and w: "w2 \<in> set (take (nat (buf_cnt r2)) (buf_elems r2))"
  from generic_places [OF parsed_is_loop(2) [OF p, unfolded elem_steps] w refl]
  show "let terr = DeleteTopics_terr q2 w2;
           pos = rd_list_index (rko_args q2) (DeleteTopic_skel (tr_topic terr)) rd_kafka_DeleteTopic_cmp
       in 0 \<le> pos \<and> pos < rd_list_cnt (rko_args q2)
          \<and> c_str (dt_topic (rko_args q2 ! nat pos)) = c_str (tr_topic terr)
          \<and> (\<forall>j<nat pos. c_str (dt_topic (rko_args q2 ! j)) \<noteq> c_str (tr_topic terr))
          \<and> rd_list_elem rs2 pos = Some terr"
    by (simp add: Let_def DeleteTopic_cmp_0)
qed

lemma DeleteTopics_fails_at:
  "k2 < nat (buf_cnt r2) \<and> k2 < length (buf_elems r2)
      \<and> buf_cnt r2 \<le> rd_list_cnt (rko_args q2)
      \<and> rd_kafka_DeleteTopicsResponse_parse q2 (first_elems k2 r2) = Inr pre2 \<longrightarrow>
      (let terr = DeleteTopics_terr q2 (buf_elems r2 ! k2);
           pos = rd_list_index (rko_args q2) (DeleteTopic_skel (tr_topic terr)) rd_kafka_DeleteTopic_cmp
       in (pos = - 1 \<longrightarrow>
             rd_kafka_DeleteTopicsResponse_parse q2 r2 = Inl (Parse_fail RD_KAFKA_RESP_ERR_NO_ERROR Not_in_request))
          \<and> (pos \<noteq> - 1 \<and> rd_list_elem pre2 pos \<noteq> None \<longrightarrow>
             rd_kafka_DeleteTopicsResponse_parse q2 r2 = Inl (Parse_fail RD_KAFKA_RESP_ERR_NO_ERROR Multiple_times))
          \<and> (pos \<noteq> - 1 \<and> rd_list_elem pre2 pos = None \<longrightarrow>
             rd_kafka_DeleteTopicsResponse_parse q2 (first_elems (Suc k2) r2) = Inr (rd_list_set pre2 pos terr)))"
proof (intro impI, elim conjE)
  assume k: "k2 < nat (buf_cnt r2)" "k2 < length (buf_elems r2)"
    and c: "buf_cnt r2 \<le> rd_list_cnt (rko_args q2)"
    and p: "rd_kafka_DeleteTopicsResponse_parse q2 (first_elems k2 r2) = Inr pre2"
  have ck: "buf_cnt (first_elems k2 r2) \<le> rd_list_cnt (rko_args q2)"
    "buf_cnt (first_elems (Suc k2) r2) \<le> rd_list_cnt (rko_args q2)"
    using k c by (simp_all add: first_elems_simps)
  from parsed_is_loop(2) [OF p] have pre: "parse_loop
      (elem_step (\<lambda>w. Inr (Some (DeleteTopics_terr q2 w))) (\<lambda>r. DeleteTopic_skel (tr_topic r))
         (rko_args q2) rd_kafka_DeleteTopic_cmp)
      k2 (take k2 (buf_elems r2)) (rd_list_init 0) = Inr pre2"
    unfolding elem_steps by (simp add: first_elems_simps rd_list_init_def)
  from generic_fails_at [OF k pre refl, where ?c1.0 = 0 and ?c2.0 = 0]
  show "let terr = DeleteTopics_terr q2 (buf_elems r2 ! k2);
           pos = rd_list_index (rko_args q2) (DeleteTopic_skel (tr_topic terr)) rd_kafka_DeleteTopic_cmp
       in (pos = - 1 \<longrightarrow>
             rd_kafka_DeleteTopicsResponse_parse q2 r2 = Inl (Parse_fail RD_KAFKA_RESP_ERR_NO_ERROR Not_in_request))
          \<and> (pos \<noteq> - 1 \<and> rd_list_elem pre2 pos \<noteq> None \<longrightarrow>
             rd_kafka_DeleteTopicsResponse_parse q2 r2 = Inl (Parse_fail RD_KAFKA_RESP_ERR_NO_ERROR Multiple_times))
          \<and> (pos \<noteq> - 1 \<and> rd_list_elem pre2 pos = None \<longrightarrow>
             rd_kafka_DeleteTopicsResponse_parse q2 (first_elems (Suc k2) r2) = Inr (rd_list_set pre2 pos terr))"
    unfolding parse_is_loop(2) [OF c] parse_is_loop(2) [OF ck(2)] elem_steps
    by (simp add: Let_def first_elems_simps rd_list_init_def nat_1_int)
qed

lemma CreatePartitions_places:
  "rd_kafka_CreatePartitionsResponse_parse q3 r3 = Inr rs3 \<and> w3 \<in> set (take (nat (buf_cnt r3)) (buf_elems r3)) \<longrightarrow>
      (let terr = CreatePartitions_terr q3 w3;
           pos = rd_list_index (rko_args q3) (NewPartitions_skel (tr_topic terr)) rd_kafka_NewPartitions_cmp
       in 0 \<le> pos \<and> pos < rd_list_cnt (rko_args q3)
          \<and> c_str (np_topic (rko_args q3 ! nat pos)) = c_str (tr_topic terr)
          \<and> (\<forall>j<nat pos. c_str (np_topic (rko_args q3 ! j)) \<noteq> c_str (tr_topic terr))
          \<and> rd_list_elem rs3 pos = Some terr)"
proof (intro impI, elim conjE)
  assume p: "rd_kafka_CreatePartitionsResponse_parse q3 r3 = Inr rs3"
    and w: "w3 \<in> set (take (nat (buf_cnt r3)) (buf_elems r3))"
  from generic_places [OF parsed_is_loop(3) [OF p, unfolded elem_steps] w refl]
  show "let terr = CreatePartitions_terr q3 w3;
           pos = rd_list_index (rko_args q3) (NewPartitions_skel (tr_topic terr)) rd_kafka_NewPartitions_cmp
       in 0 \<le> pos \<and> pos < rd_list_cnt (rko_args q3)
          \<and> c_str (np_topic (rko_args q3 ! nat pos)) = c_str (tr_topic terr)
          \<and> (\<forall>j<nat pos. c_str (np_topic (rko_args q3 ! j)) \<noteq> c_str (tr_topic terr))
          \<and> rd_list_elem rs3 pos = Some terr"
    by (simp add: Let_def NewPartitions_cmp_0)
qed

lemma CreatePartitions_fails_at:
  "k3 < nat (buf_cnt r3) \<and> k3 < length (buf_elems r3)
      \<and> buf_cnt r3 \<le> rd_list_cnt (rko_args q3)
      \<and> rd_kafka_CreatePartitionsResponse_parse q3 (first_elems k3 r3) = Inr pre3 \<longrightarrow>
      (let terr = CreatePartitions_terr q3 (buf_elems r3 ! k3);
           pos = rd_list_index (rko_args q3) (NewPartitions_skel (tr_topic terr)) rd_kafka_NewPartitions_cmp
       in (pos = - 1 \<longrightarrow>
             rd_kafka_CreatePartitionsResponse_parse q3 r3 = Inl (Parse_fail RD_KAFKA_RESP_ERR_NO_ERROR Not_in_request))
          \<and> (pos \<noteq> - 1 \<and> rd_list_elem pre3 pos \<noteq> None \<longrightarrow>
             rd_kafka_CreatePartitionsResponse_parse q3 r3 = Inl (Parse_fail RD_KAFKA_RESP_ERR_NO_ERROR Multiple_times))
          \<and> (pos \<noteq> - 1 \<and> rd_list_elem pre3 pos = None \<longrightarrow>
             rd_kafka_CreatePartitionsResponse_parse q3 (first_elems (Suc k3) r3) = Inr (rd_list_set pre3 pos terr)))"
proof (intro impI, elim conjE)
  assume k: "k3 < nat (buf_cnt r3)" "k3 < length (buf_elems r3)"
    and c: "buf_cnt r3 \<le> rd_list_cnt (rko_args q3)"
    and p: "rd_kafka_CreatePartitionsResponse_parse q3 (first_elems k3 r3) = Inr pre3"
  have ck: "buf_cnt (first_elems k3 r3) \<le> rd_list_cnt (rko_args q3)"
    "buf_cnt (first_elems (Suc k3) r3) \<le> rd_list_cnt (rko_args q3)"
    using k c by (simp_all add: first_elems_simps)
  from parsed_is_loop(3) [OF p] have pre: "parse_loop
      (elem_step (\<lambda>w. Inr (Some (CreatePartitions_terr q3 w))) (\<lambda>r. NewPartitions_skel (tr_topic r))
         (rko_args q3) rd_kafka_NewPartitions_cmp)
      k3 (take k3 (buf_elems r3)) (rd_list_init 0) = Inr pre3"
    unfolding elem_steps by (simp add: first_elems_simps rd_list_init_def)
  from generic_fails_at [OF k pre refl, where ?c1.0 = 0 and ?c2.0 = 0]
  show "let terr = CreatePartitions_terr q3 (buf_elems r3 ! k3);
           pos = rd_list_index (rko_args q3) (NewPartitions_skel (tr_topic terr)) rd_kafka_NewPartitions_cmp
       in (pos = - 1 \<longrightarrow>
             rd_kafka_CreatePartitionsResponse_parse q3 r3 = Inl (Parse_fail RD_KAFKA_RESP_ERR_NO_ERROR Not_in_request))
          \<and> (pos \<noteq> - 1 \<and> rd_list_elem pre3 pos \<noteq> None \<longrightarrow>
             rd_kafka_CreatePartitionsResponse_parse q3 r3 = Inl (Parse_fail RD_KAFKA_RESP_ERR_NO_ERROR Multiple_times))
          \<and> (pos \<noteq> - 1 \<and> rd_list_elem pre3 pos = None \<longrightarrow>
             rd_kafka_CreatePartitionsResponse_parse q3 (first_elems (Suc k3) r3) = Inr (rd_list_set pre3 pos terr))"
    unfolding parse_is_loop(3) [OF c] parse_is_loop(3) [OF ck(2)] elem_steps
    by (simp add: Let_def first_elems_simps rd_list_init_def nat_1_int)
qed

lemma AlterConfigs_skips:
  "(AlterConfigs_config w4 = None
        \<longleftrightarrow> RD_KAFKAP_STR_DUPA (ar_res_name w4) = [] \<or> ar_res_type w4 < 0)
      \<and> (AlterConfigs_config w4 = Some c4 \<longrightarrow>
            restype c4 = ar_res_type w4 \<and> res_name c4 = RD_KAFKAP_STR_DUPA (ar_res_name w4))"
  by (rule AlterConfigs_config_cases)

lemma AlterConfigs_places:
  "rd_kafka_AlterConfigsResponse_parse q4 r4 = Inr rs4 \<and> w4 \<in> set (take (nat (buf_cnt r4)) (buf_elems r4))
      \<and> AlterConfigs_config w4 = Some c4 \<longrightarrow>
      (let pos = rd_list_index (rko_args q4) (ConfigResource_skel (restype c4) (res_name c4))
                   rd_kafka_ConfigResource_cmp
       in 0 \<le> pos \<and> pos < rd_list_cnt (rko_args q4)
          \<and> restype (rko_args q4 ! nat pos) = restype c4
          \<and> c_str (res_name (rko_args q4 ! nat pos)) = c_str (res_name c4)
          \<and> (\<forall>j<nat pos. restype (rko_args q4 ! j) = restype c4
                 \<longrightarrow> c_str (res_name (rko_args q4 ! j)) \<noteq> c_str (res_name c4))
          \<and> rd_list_elem rs4 pos = Some c4)"
proof (intro impI, elim conjE)
  assume p: "rd_kafka_AlterConfigsResponse_parse q4 r4 = Inr rs4"
    and w: "w4 \<in> set (take (nat (buf_cnt r4)) (buf_elems r4))"
    and dec: "AlterConfigs_config w4 = Some c4"
  have dec': "(\<lambda>w. Inr (AlterConfigs_config w)) w4 = Inr (Some c4)" using dec by simp
  from generic_places [OF parsed_is_loop(4) [OF p, unfolded elem_steps] w dec']
  show "let pos = rd_list_index (rko_args q4) (ConfigResource_skel (restype c4) (res_name c4))
                   rd_kafka_ConfigResource_cmp
       in 0 \<le> pos \<and> pos < rd_list_cnt (rko_args q4)
          \<and> restype (rko_args q4 ! nat pos) = restype c4
          \<and> c_str (res_name (rko_args q4 ! nat pos)) = c_str (res_name c4)
          \<and> (\<forall>j<nat pos. restype (rko_args q4 ! j) = restype c4
                 \<longrightarrow> c_str (res_name (rko_args q4 ! j)) \<noteq> c_str (res_name c4))
          \<and> rd_list_elem rs4 pos = Some c4"
    by (simp add: Let_def ConfigResource_cmp_0)
qed

lemma AlterConfigs_fails_at:
  "k4 < nat (buf_cnt r4) \<and> k4 < length (buf_elems r4)
      \<and> buf_cnt r4 \<le> rd_list_cnt (rko_args q4)
      \<and> rd_kafka_AlterConfigsResponse_parse q4 (first_elems k4 r4) = Inr pre4
      \<and> AlterConfigs_config (buf_elems r4 ! k4) = Some d4 \<longrightarrow>
      (let pos = rd_list_index (rko_args q4) (ConfigResource_skel (restype d4) (res_name d4))
                   rd_kafka_ConfigResource_cmp
       in (pos = - 1 \<longrightarrow>
             rd_kafka_AlterConfigsResponse_parse q4 r4 = Inl (Parse_fail RD_KAFKA_RESP_ERR_NO_ERROR Not_in_request))
          \<and> (pos \<noteq> - 1 \<and> rd_list_elem pre4 pos \<noteq> None \<longrightarrow>
             rd_kafka_AlterConfigsResponse_parse q4 r4 = Inl (Parse_fail RD_KAFKA_RESP_ERR_NO_ERROR Multiple_times))
          \<and> (pos \<noteq> - 1 \<and> rd_list_elem pre4 pos = None \<longrightarrow>
             rd_kafka_AlterConfigsResponse_parse q4 (first_elems (Suc k4) r4) = Inr (rd_list_set pre4 pos d4)))"
proof (intro impI, elim conjE)
  assume k: "k4 < nat (buf_cnt r4)" "k4 < length (buf_elems r4)"
    and c: "buf_cnt r4 \<le> rd_list_cnt (rko_args q4)"
    and p: "rd_kafka_AlterConfigsResponse_parse q4 (first_elems k4 r4) = Inr pre4"
    and dec: "AlterConfigs_config (buf_elems r4 ! k4) = Some d4"
  have dec': "(\<lambda>w. Inr (AlterConfigs_config w)) (buf_elems r4 ! k4) = Inr (Some d4)" using dec by simp
  have ck: "buf_cnt (first_elems k4 r4) \<le> rd_list_cnt (rko_args q4)"
    "buf_cnt (first_elems (Suc k4) r4) \<le> rd_list_cnt (rko_args q4)"
    using k c by (simp_all add: first_elems_simps)
  from parsed_is_loop(4) [OF p] have pre: "parse_loop
      (elem_step (\<lambda>w. Inr (AlterConfigs_config w)) (\<lambda>c. ConfigResource_skel (restype c) (res_name c))
         (rko_args q4) rd_kafka_ConfigResource_cmp)
      k4 (take k4 (buf_elems r4)) (rd_list_init 0) = Inr pre4"
    unfolding elem_steps by (simp add: first_elems_simps rd_list_init_def)
  from generic_fails_at [OF k pre dec', where ?c1.0 = 0 and ?c2.0 = 0]
  show "let pos = rd_list_index (rko_args q4) (ConfigResource_skel (restype d4) (res_name d4))
                   rd_kafka_ConfigResource_cmp
       in (pos = - 1 \<longrightarrow>
             rd_kafka_AlterConfigsResponse_parse q4 r4 = Inl (Parse_fail RD_KAFKA_RESP_ERR_NO_ERROR Not_in_request))
          \<and> (pos \<noteq> - 1 \<and> rd_list_elem pre4 pos \<noteq> None \<longrightarrow>
             rd_kafka_AlterConfigsResponse_parse q4 r4 = Inl (Parse_fail RD_KAFKA_RESP_ERR_NO_ERROR Multiple_times))
          \<and> (pos \<noteq> - 1 \<and> rd_list_elem pre4 pos = None \<longrightarrow>
             rd_kafka_AlterConfigsResponse_parse q4 (first_elems (Suc k4) r4) = Inr (rd_list_set pre4 pos d4))"
    unfolding parse_is_loop(4) [OF c] parse_is_loop(4) [OF ck(2)] elem_steps
    by (simp add: Let_def first_elems_simps rd_list_init_def nat_1_int)
qed

lemma AlterConfigs_skipped_at:
  "k4 < nat (buf_cnt r4) \<and> k4 < length (buf_elems r4)
      \<and> buf_cnt r4 \<le> rd_list_cnt (rko_args q4)
      \<and> rd_kafka_AlterConfigsResponse_parse q4 (first_elems k4 r4) = Inr pre4
      \<and> AlterConfigs_config (buf_elems r4 ! k4) = None \<longrightarrow>
      rd_kafka_AlterConfigsResponse_parse q4 (first_elems (Suc k4) r4) = Inr pre4"
proof (intro impI, elim conjE)
  assume k: "k4 < nat (buf_cnt r4)" "k4 < length (buf_elems r4)"
    and c: "buf_cnt r4 \<le> rd_list_cnt (rko_args q4)"
    and p: "rd_kafka_AlterConfigsResponse_parse q4 (first_elems k4 r4) = Inr pre4"
    and dec: "AlterConfigs_config (buf_elems r4 ! k4) = None"
  have dec': "(\<lambda>w. Inr (AlterConfigs_config w)) (buf_elems r4 ! k4) = Inr None" using dec by simp
  have ck: "buf_cnt (first_elems k4 r4) \<le> rd_list_cnt (rko_args q4)"
    "buf_cnt (first_elems (Suc k4) r4) \<le> rd_list_cnt (rko_args q4)"
    using k c by (simp_all add: first_elems_simps)
  from parsed_is_loop(4) [OF p] have pre: "parse_loop
      (elem_step (\<lambda>w. Inr (AlterConfigs_config w)) (\<lambda>c. ConfigResource_skel (restype c) (res_name c))
         (rko_args q4) rd_kafka_ConfigResource_cmp)
      k4 (take k4 (buf_elems r4)) (rd_list_init 0) = Inr pre4"
    unfolding elem_steps by (simp add: first_elems_simps rd_list_init_def)
  from generic_skip [OF k(2) pre dec', where ?c2.0 = 0]
  show "rd_kafka_AlterConfigsResponse_parse q4 (first_elems (Suc k4) r4) = Inr pre4"
    unfolding parse_is_loop(4) [OF ck(2)] elem_steps
    by (simp add: first_elems_simps rd_list_init_def nat_1_int)
qed

lemma DescribeConfigs_skips:
  "DescribeConfigs_head r5 a5 = Inr ((e5, m5, ty5, nm5), b5) \<longrightarrow>
      ((DescribeConfigs_config r5 a5 = Inr (None, b5)
          \<longleftrightarrow> RD_KAFKAP_STR_DUPA nm5 = [] \<or> ty5 < 0)
       \<and> (DescribeConfigs_config r5 a5 = Inr (Some c5, g5) \<longrightarrow>
             restype c5 = ty5 \<and> res_name c5 = RD_KAFKAP_STR_DUPA nm5))"
proof
  assume h: "DescribeConfigs_head r5 a5 = Inr ((e5, m5, ty5, nm5), b5)"
  from DescribeConfigs_config_cases [OF h]
  show "(DescribeConfigs_config r5 a5 = Inr (None, b5)
          \<longleftrightarrow> RD_KAFKAP_STR_DUPA nm5 = [] \<or> ty5 < 0)
       \<and> (DescribeConfigs_config r5 a5 = Inr (Some c5, g5) \<longrightarrow>
             restype c5 = ty5 \<and> res_name c5 = RD_KAFKAP_STR_DUPA nm5)"
    by blast
qed

lemma DescribeConfigs_places:
  "buf_read_i32 r5 (rkbuf_offset r5) = Some (t5, o5) \<and> buf_read_i32 r5 o5 = Some (n5, p5)
      \<and> n5 \<le> rd_list_cnt (rko_args q5)
      \<and> rd_kafka_DescribeConfigsResponse_parse q5 r5 = Inr rs5 \<and> k5 < nat n5
      \<and> read_loop (DescribeConfigs_elem q5 r5) k5 [] p5 = Inr (pre5, a5)
      \<and> DescribeConfigs_config r5 a5 = Inr (Some c5, g5) \<longrightarrow>
      (let pos = rd_list_index (rko_args q5) (ConfigResource_skel (restype c5) (res_name c5))
                   rd_kafka_ConfigResource_cmp
       in 0 \<le> pos \<and> pos < rd_list_cnt (rko_args q5)
          \<and> restype (rko_args q5 ! nat pos) = restype c5
          \<and> c_str (res_name (rko_args q5 ! nat pos)) = c_str (res_name c5)
          \<and> (\<forall>j<nat pos. restype (rko_args q5 ! j) = restype c5
                 \<longrightarrow> c_str (res_name (rko_args q5 ! j)) \<noteq> c_str (res_name c5))
          \<and> rd_list_elem rs5 pos = Some c5)"
proof (intro impI, elim conjE)
  assume t: "buf_read_i32 r5 (rkbuf_offset r5) = Some (t5, o5)"
    and n: "buf_read_i32 r5 o5 = Some (n5, p5)"
    and c: "n5 \<le> rd_list_cnt (rko_args q5)"
    and p: "rd_kafka_DescribeConfigsResponse_parse q5 r5 = Inr rs5"
    and k: "k5 < nat n5"
    and l: "read_loop (DescribeConfigs_elem q5 r5) k5 [] p5 = Inr (pre5, a5)"
    and dec: "DescribeConfigs_config r5 a5 = Inr (Some c5, g5)"
  let ?skel = "ConfigResource_skel (restype c5) (res_name c5)"
  let ?pos = "rd_list_index (rko_args q5) ?skel rd_kafka_ConfigResource_cmp"
  from parsed_describe [OF p] t n obtain pe
    where full: "read_loop (DescribeConfigs_elem q5 r5) (nat n5) [] p5 = Inr (rs5, pe)" by auto
  from full [unfolded read_loop_from [OF k l] DescribeConfigs_elem_config(1) [OF dec]]
  obtain b where pl: "result_list_place (rko_args q5) ?skel rd_kafka_ConfigResource_cmp pre5 c5
      = Inr b"
    and rest: "read_loop (DescribeConfigs_elem q5 r5) (nat n5 - Suc k5) b g5 = Inr (rs5, pe)"
    by (auto split: sum.splits)
  from place_Inr [OF pl] have ne: "?pos \<noteq> - 1" and b: "b = rd_list_set pre5 ?pos c5" by auto
  from rd_list_index_found [OF ne] have f: "0 \<le> ?pos" "?pos < rd_list_cnt (rko_args q5)"
    "rd_kafka_ConfigResource_cmp ?skel (rko_args q5 ! nat ?pos) = 0" by simp_all
  have "rd_list_elem b ?pos = Some c5" using f(1) by (simp add: b rd_list_elem_set_same)
  from describe_loop_keeps [OF rest this] have e: "rd_list_elem rs5 ?pos = Some c5" .
  have first: "\<forall>j<nat ?pos. rd_kafka_ConfigResource_cmp ?skel (rko_args q5 ! j) \<noteq> 0"
    using rd_list_index_first [OF ne] by blast
  show "let pos = rd_list_index (rko_args q5) (ConfigResource_skel (restype c5) (res_name c5))
                   rd_kafka_ConfigResource_cmp
       in 0 \<le> pos \<and> pos < rd_list_cnt (rko_args q5)
          \<and> restype (rko_args q5 ! nat pos) = restype c5
          \<and> c_str (res_name (rko_args q5 ! nat pos)) = c_str (res_name c5)
          \<and> (\<forall>j<nat pos. restype (rko_args q5 ! j) = restype c5
                 \<longrightarrow> c_str (res_name (rko_args q5 ! j)) \<noteq> c_str (res_name c5))
          \<and> rd_list_elem rs5 pos = Some c5"
    using f e first by (simp add: Let_def ConfigResource_cmp_0)
qed

lemma DescribeConfigs_fails_at:
  "buf_read_i32 r5 (rkbuf_offset r5) = Some (t5, o5) \<and> buf_read_i32 r5 o5 = Some (n5, p5)
      \<and> n5 \<le> rd_list_cnt (rko_args q5)
      \<and> k5 < nat n5
      \<and> read_loop (DescribeConfigs_elem q5 r5) k5 [] p5 = Inr (pre5, a5)
      \<and> DescribeConfigs_config r5 a5 = Inr (Some d5, h5) \<longrightarrow>
      (let pos = rd_list_index (rko_args q5) (ConfigResource_skel (restype d5) (res_name d5))
                   rd_kafka_ConfigResource_cmp
       in (pos = - 1 \<longrightarrow>
             rd_kafka_DescribeConfigsResponse_parse q5 r5 = Inl (Config_destroyed_twice Not_in_request))
          \<and> (pos \<noteq> - 1 \<and> rd_list_elem pre5 pos \<noteq> None \<longrightarrow>
             rd_kafka_DescribeConfigsResponse_parse q5 r5 = Inl (Config_destroyed_twice Multiple_times))
          \<and> (pos \<noteq> - 1 \<and> rd_list_elem pre5 pos = None \<longrightarrow>
             read_loop (DescribeConfigs_elem q5 r5) (Suc k5) [] p5
               = Inr (rd_list_set pre5 pos d5, h5)))"
proof (intro impI, elim conjE)
  assume t: "buf_read_i32 r5 (rkbuf_offset r5) = Some (t5, o5)"
    and n: "buf_read_i32 r5 o5 = Some (n5, p5)"
    and c: "n5 \<le> rd_list_cnt (rko_args q5)"
    and k: "k5 < nat n5"
    and l: "read_loop (DescribeConfigs_elem q5 r5) k5 [] p5 = Inr (pre5, a5)"
    and dec: "DescribeConfigs_config r5 a5 = Inr (Some d5, h5)"
  let ?skel = "ConfigResource_skel (restype d5) (res_name d5)"
  let ?pos = "rd_list_index (rko_args q5) ?skel rd_kafka_ConfigResource_cmp"
  have body: "DescribeConfigs_body q5 r5 =
      (case result_list_place (rko_args q5) ?skel rd_kafka_ConfigResource_cmp pre5 d5 of
         Inl why \<Rightarrow> Inl (Goto_err_parse why Ptr_destroyed)
       | Inr b \<Rightarrow> read_loop (DescribeConfigs_elem q5 r5) (nat n5 - Suc k5) b h5)"
    using c unfolding DescribeConfigs_body_reads [OF t n] read_loop_from [OF k l]
      DescribeConfigs_elem_config(1) [OF dec]
    by (simp split: sum.splits)
  have one: "read_loop (DescribeConfigs_elem q5 r5) (Suc k5) [] p5 =
      (case result_list_place (rko_args q5) ?skel rd_kafka_ConfigResource_cmp pre5 d5 of
         Inl why \<Rightarrow> Inl (Goto_err_parse why Ptr_destroyed)
       | Inr b \<Rightarrow> Inr (b, h5))"
    unfolding read_loop_Suc l by (simp add: DescribeConfigs_elem_config(1) [OF dec])
  show "let pos = rd_list_index (rko_args q5) (ConfigResource_skel (restype d5) (res_name d5))
                   rd_kafka_ConfigResource_cmp
       in (pos = - 1 \<longrightarrow>
             rd_kafka_DescribeConfigsResponse_parse q5 r5 = Inl (Config_destroyed_twice Not_in_request))
          \<and> (pos \<noteq> - 1 \<and> rd_list_elem pre5 pos \<noteq> None \<longrightarrow>
             rd_kafka_DescribeConfigsResponse_parse q5 r5 = Inl (Config_destroyed_twice Multiple_times))
          \<and> (pos \<noteq> - 1 \<and> rd_list_elem pre5 pos = None \<longrightarrow>
             read_loop (DescribeConfigs_elem q5 r5) (Suc k5) [] p5
               = Inr (rd_list_set pre5 pos d5, h5))"
    unfolding rd_kafka_DescribeConfigsResponse_parse_def body one
    by (simp add: Let_def result_list_place_def rd_kafka_buf_parse_fail_def
        DescribeConfigs_err_parse_def)
qed

lemma DescribeConfigs_skipped_at:
  "read_loop (DescribeConfigs_elem q5 r5) k5 [] p5 = Inr (pre5, a5)
      \<and> DescribeConfigs_head r5 a5 = Inr ((e5, m5, ty5, nm5), b5)
      \<and> (RD_KAFKAP_STR_DUPA nm5 = [] \<or> ty5 < 0) \<longrightarrow>
      read_loop (DescribeConfigs_elem q5 r5) (Suc k5) [] p5 = Inr (pre5, b5)"
proof (intro impI, elim conjE)
  assume l: "read_loop (DescribeConfigs_elem q5 r5) k5 [] p5 = Inr (pre5, a5)"
    and h: "DescribeConfigs_head r5 a5 = Inr ((e5, m5, ty5, nm5), b5)"
    and rej: "RD_KAFKAP_STR_DUPA nm5 = [] \<or> ty5 < 0"
  from DescribeConfigs_config_cases [OF h, of c5 g5] rej
  have "DescribeConfigs_config r5 a5 = Inr (None, b5)" by blast
  from DescribeConfigs_elem_config(2) [OF this]
  show "read_loop (DescribeConfigs_elem q5 r5) (Suc k5) [] p5 = Inr (pre5, b5)"
    unfolding read_loop_Suc l by simp
qed

text \<open>
  Claim C2, in the form that holds of the code. Keys are compared as C strings,
  up to their first NUL. For each of the five parsers:

  \<^item> in a response that parses, the result of every element is at the position of
    the first args entry that has the element's key (the topic name; for the
    config parsers the resource type and the name): there is such an entry, it
    has the key, and no entry before it has;

  \<^item> when the elements before element \<open>k\<close> parse into the list \<open>pre\<close>, the key
    of element \<open>k\<close> decides what follows: no args entry has the key, and the
    parser leaves through its failure exit, the element not being in the
    request; the position of the key holds a result already, and the parser
    leaves through its failure exit, the element being returned multiple times;
    or the result is set at that position of \<open>pre\<close>. A parser that leaves
    through the failure exit returns no result list; what it returns there is
    its local \<open>err\<close>, still \<^verbatim>\<open>RD_KAFKA_RESP_ERR_NO_ERROR\<close>, and in DescribeConfigs the
    resource of the element has been destroyed before the jump and is destroyed
    again in the exit.

  For the two config parsers this is said of the elements a config resource is
  built from. An element with an empty name or a negative resource type builds
  none: no args entry is looked up and the results stay as they were. The
  parser of AlterConfigs has read the whole element by then and goes on with the
  next one. The parser of DescribeConfigs has read the element up to its name
  and goes on reading from there.
\<close>

theorem elements_placed_by_key:
  "(rd_kafka_CreateTopicsResponse_parse q1 r1 = Inr rs1 \<and> w1 \<in> set (take (nat (buf_cnt r1)) (buf_elems r1)) \<longrightarrow>
      (let terr = CreateTopics_terr q1 (ApiVersion r1) w1;
           pos = rd_list_index (rko_args q1) (NewTopic_skel (tr_topic terr)) rd_kafka_NewTopic_cmp
       in 0 \<le> pos \<and> pos < rd_list_cnt (rko_args q1)
          \<and> c_str (nt_topic (rko_args q1 ! nat pos)) = c_str (tr_topic terr)
          \<and> (\<forall>j<nat pos. c_str (nt_topic (rko_args q1 ! j)) \<noteq> c_str (tr_topic terr))
          \<and> rd_list_elem rs1 pos = Some terr))
   \<and> (k1 < nat (buf_cnt r1) \<and> k1 < length (buf_elems r1)
      \<and> buf_cnt r1 \<le> rd_list_cnt (rko_args q1)
      \<and> rd_kafka_CreateTopicsResponse_parse q1 (first_elems k1 r1) = Inr pre1 \<longrightarrow>
      (let terr = CreateTopics_terr q1 (ApiVersion r1) (buf_elems r1 ! k1);
           pos = rd_list_index (rko_args q1) (NewTopic_skel (tr_topic terr)) rd_kafka_NewTopic_cmp
       in (pos = - 1 \<longrightarrow>
             rd_kafka_CreateTopicsResponse_parse q1 r1 = Inl (Parse_fail RD_KAFKA_RESP_ERR_NO_ERROR Not_in_request))
          \<and> (pos \<noteq> - 1 \<and> rd_list_elem pre1 pos \<noteq> None \<longrightarrow>
             rd_kafka_CreateTopicsResponse_parse q1 r1 = Inl (Parse_fail RD_KAFKA_RESP_ERR_NO_ERROR Multiple_times))
          \<and> (pos \<noteq> - 1 \<and> rd_list_elem pre1 pos = None \<longrightarrow>
             rd_kafka_CreateTopicsResponse_parse q1 (first_elems (Suc k1) r1) = Inr (rd_list_set pre1 pos terr))))
   \<and> (rd_kafka_DeleteTopicsResponse_parse q2 r2 = Inr rs2 \<and> w2 \<in> set (take (nat (buf_cnt r2)) (buf_elems r2)) \<longrightarrow>
      (let terr = DeleteTopics_terr q2 w2;
           pos = rd_list_index (rko_args q2) (DeleteTopic_skel (tr_topic terr)) rd_kafka_DeleteTopic_cmp
       in 0 \<le> pos \<and> pos < rd_list_cnt (rko_args q2)
          \<and> c_str (dt_topic (rko_args q2 ! nat pos)) = c_str (tr_topic terr)
          \<and> (\<forall>j<nat pos. c_str (dt_topic (rko_args q2 ! j)) \<noteq> c_str (tr_topic terr))
          \<and> rd_list_elem rs2 pos = Some terr))
   \<and> (k2 < nat (buf_cnt r2) \<and> k2 < length (buf_elems r2)
      \<and> buf_cnt r2 \<le> rd_list_cnt (rko_args q2)
      \<and> rd_kafka_DeleteTopicsResponse_parse q2 (first_elems k2 r2) = Inr pre2 \<longrightarrow>
      (let terr = DeleteTopics_terr q2 (buf_elems r2 ! k2);
           pos = rd_list_index (rko_args q2) (DeleteTopic_skel (tr_topic terr)) rd_kafka_DeleteTopic_cmp
       in (pos = - 1 \<longrightarrow>
             rd_kafka_DeleteTopicsResponse_parse q2 r2 = Inl (Parse_fail RD_KAFKA_RESP_ERR_NO_ERROR Not_in_request))
          \<and> (pos \<noteq> - 1 \<and> rd_list_elem pre2 pos \<noteq> None \<longrightarrow>
             rd_kafka_DeleteTopicsResponse_parse q2 r2 = Inl (Parse_fail RD_KAFKA_RESP_ERR_NO_ERROR Multiple_times))
          \<and> (pos \<noteq> - 1 \<and> rd_list_elem pre2 pos = None \<longrightarrow>
             rd_kafka_DeleteTopicsResponse_parse q2 (first_elems (Suc k2) r2) = Inr (rd_list_set pre2 pos terr))))
   \<and> (rd_kafka_CreatePartitionsResponse_parse q3 r3 = Inr rs3 \<and> w3 \<in> set (take (nat (buf_cnt r3)) (buf_elems r3)) \<longrightarrow>
      (let terr = CreatePartitions_terr q3 w3;
           pos = rd_list_index (rko_args q3) (NewPartitions_skel (tr_topic terr)) rd_kafka_NewPartitions_cmp
       in 0 \<le> pos \<and> pos < rd_list_cnt (rko_args q3)
          \<and> c_str (np_topic (rko_args q3 ! nat pos)) = c_str (tr_topic terr)
          \<and> (\<forall>j<nat pos. c_str (np_topic (rko_args q3 ! j)) \<noteq> c_str (tr_topic terr))
          \<and> rd_list_elem rs3 pos = Some terr))
   \<and> (k3 < nat (buf_cnt r3) \<and> k3 < length (buf_elems r3)
      \<and> buf_cnt r3 \<le> rd_list_cnt (rko_args q3)
      \<and> rd_kafka_CreatePartitionsResponse_parse q3 (first_elems k3 r3) = Inr pre3 \<longrightarrow>
      (let terr = CreatePartitions_terr q3 (buf_elems r3 ! k3);
           pos = rd_list_index (rko_args q3) (NewPartitions_skel (tr_topic terr)) rd_kafka_NewPartitions_cmp
       in (pos = - 1 \<longrightarrow>
             rd_kafka_CreatePartitionsResponse_parse q3 r3 = Inl (Parse_fail RD_KAFKA_RESP_ERR_NO_ERROR Not_in_request))
          \<and> (pos \<noteq> - 1 \<and> rd_list_elem pre3 pos \<noteq> None \<longrightarrow>
             rd_kafka_CreatePartitionsResponse_parse q3 r3 = Inl (Parse_fail RD_KAFKA_RESP_ERR_NO_ERROR Multiple_times))
          \<and> (pos \<noteq> - 1 \<and> rd_list_elem pre3 pos = None \<longrightarrow>
             rd_kafka_CreatePartitionsResponse_parse q3 (first_elems (Suc k3) r3) = Inr (rd_list_set pre3 pos terr))))
   \<and> ((AlterConfigs_config w4 = None
        \<longleftrightarrow> RD_KAFKAP_STR_DUPA (ar_res_name w4) = [] \<or> ar_res_type w4 < 0)
      \<and> (AlterConfigs_config w4 = Some c4 \<longrightarrow>
            restype c4 = ar_res_type w4 \<and> res_name c4 = RD_KAFKAP_STR_DUPA (ar_res_name w4)))
   \<and> (rd_kafka_AlterConfigsResponse_parse q4 r4 = Inr rs4 \<and> w4 \<in> set (take (nat (buf_cnt r4)) (buf_elems r4))
      \<and> AlterConfigs_config w4 = Some c4 \<longrightarrow>
      (let pos = rd_list_index (rko_args q4) (ConfigResource_skel (restype c4) (res_name c4))
                   rd_kafka_ConfigResource_cmp
       in 0 \<le> pos \<and> pos < rd_list_cnt (rko_args q4)
          \<and> restype (rko_args q4 ! nat pos) = restype c4
          \<and> c_str (res_name (rko_args q4 ! nat pos)) = c_str (res_name c4)
          \<and> (\<forall>j<nat pos. restype (rko_args q4 ! j) = restype c4
                 \<longrightarrow> c_str (res_name (rko_args q4 ! j)) \<noteq> c_str (res_name c4))
          \<and> rd_list_elem rs4 pos = Some c4))
   \<and> (k4 < nat (buf_cnt r4) \<and> k4 < length (buf_elems r4)
      \<and> buf_cnt r4 \<le> rd_list_cnt (rko_args q4)
      \<and> rd_kafka_AlterConfigsResponse_parse q4 (first_elems k4 r4) = Inr pre4
      \<and> AlterConfigs_config (buf_elems r4 ! k4) = Some d4 \<longrightarrow>
      (let pos = rd_list_index (rko_args q4) (ConfigResource_skel (restype d4) (res_name d4))
                   rd_kafka_ConfigResource_cmp
       in (pos = - 1 \<longrightarrow>
             rd_kafka_AlterConfigsResponse_parse q4 r4 = Inl (Parse_fail RD_KAFKA_RESP_ERR_NO_ERROR Not_in_request))
          \<and> (pos \<noteq> - 1 \<and> rd_list_elem pre4 pos \<noteq> None \<longrightarrow>
             rd_kafka_AlterConfigsResponse_parse q4 r4 = Inl (Parse_fail RD_KAFKA_RESP_ERR_NO_ERROR Multiple_times))
          \<and> (pos \<noteq> - 1 \<and> rd_list_elem pre4 pos = None \<longrightarrow>
             rd_kafka_AlterConfigsResponse_parse q4 (first_elems (Suc k4) r4) = Inr (rd_list_set pre4 pos d4))))
   \<and> (k4 < nat (buf_cnt r4) \<and> k4 < length (buf_elems r4)
      \<and> buf_cnt r4 \<le> rd_list_cnt (rko_args q4)
      \<and> rd_kafka_AlterConfigsResponse_parse q4 (first_elems k4 r4) = Inr pre4
      \<and> AlterConfigs_config (buf_elems r4 ! k4) = None \<longrightarrow>
      rd_kafka_AlterConfigsResponse_parse q4 (first_elems (Suc k4) r4) = Inr pre4)
   \<and> (DescribeConfigs_head r5 a5 = Inr ((e5, m5, ty5, nm5), b5) \<longrightarrow>
      ((DescribeConfigs_config r5 a5 = Inr (None, b5)
          \<longleftrightarrow> RD_KAFKAP_STR_DUPA nm5 = [] \<or> ty5 < 0)
       \<and> (DescribeConfigs_config r5 a5 = Inr (Some c5, g5) \<longrightarrow>
             restype c5 = ty5 \<and> res_name c5 = RD_KAFKAP_STR_DUPA nm5)))
   \<and> (buf_read_i32 r5 (rkbuf_offset r5) = Some (t5, o5) \<and> buf_read_i32 r5 o5 = Some (n5, p5)
      \<and> n5 \<le> rd_list_cnt (rko_args q5)
      \<and> rd_kafka_DescribeConfigsResponse_parse q5 r5 = Inr rs5 \<and> k5 < nat n5
      \<and> read_loop (DescribeConfigs_elem q5 r5) k5 [] p5 = Inr (pre5, a5)
      \<and> DescribeConfigs_config r5 a5 = Inr (Some c5, g5) \<longrightarrow>
      (let pos = rd_list_index (rko_args q5) (ConfigResource_skel (restype c5) (res_name c5))
                   rd_kafka_ConfigResource_cmp
       in 0 \<le> pos \<and> pos < rd_list_cnt (rko_args q5)
          \<and> restype (rko_args q5 ! nat pos) = restype c5
          \<and> c_str (res_name (rko_args q5 ! nat pos)) = c_str (res_name c5)
          \<and> (\<forall>j<nat pos. restype (rko_args q5 ! j) = restype c5
                 \<longrightarrow> c_str (res_name (rko_args q5 ! j)) \<noteq> c_str (res_name c5))
          \<and> rd_list_elem rs5 pos = Some c5))
   \<and> (buf_read_i32 r5 (rkbuf_offset r5) = Some (t5, o5) \<and> buf_read_i32 r5 o5 = Some (n5, p5)
      \<and> n5 \<le> rd_list_cnt (rko_args q5)
      \<and> k5 < nat n5
      \<and> read_loop (DescribeConfigs_elem q5 r5) k5 [] p5 = Inr (pre5, a5)
      \<and> DescribeConfigs_config r5 a5 = Inr (Some d5, h5) \<longrightarrow>
      (let pos = rd_list_index (rko_args q5) (ConfigResource_skel (restype d5) (res_name d5))
                   rd_kafka_ConfigResource_cmp
       in (pos = - 1 \<longrightarrow>
             rd_kafka_DescribeConfigsResponse_parse q5 r5 = Inl (Config_destroyed_twice Not_in_request))
          \<and> (pos \<noteq> - 1 \<and> rd_list_elem pre5 pos \<noteq> None \<longrightarrow>
             rd_kafka_DescribeConfigsResponse_parse q5 r5 = Inl (Config_destroyed_twice Multiple_times))
          \<and> (pos \<noteq> - 1 \<and> rd_list_elem pre5 pos = None \<longrightarrow>
             read_loop (DescribeConfigs_elem q5 r5) (Suc k5) [] p5
               = Inr (rd_list_set pre5 pos d5, h5))))
   \<and> (read_loop (DescribeConfigs_elem q5 r5) k5 [] p5 = Inr (pre5, a5)
      \<and> DescribeConfigs_head r5 a5 = Inr ((e5, m5, ty5, nm5), b5)
      \<and> (RD_KAFKAP_STR_DUPA nm5 = [] \<or> ty5 < 0) \<longrightarrow>
      read_loop (DescribeConfigs_elem q5 r5) (Suc k5) [] p5 = Inr (pre5, b5))"
  by (rule conjI [OF CreateTopics_places conjI [OF CreateTopics_fails_at conjI [OF DeleteTopics_places conjI [OF DeleteTopics_fails_at conjI [OF CreatePartitions_places conjI [OF CreatePartitions_fails_at conjI [OF AlterConfigs_skips conjI [OF AlterConfigs_places conjI [OF AlterConfigs_fails_at conjI [OF AlterConfigs_skipped_at conjI [OF DescribeConfigs_skips conjI [OF DescribeConfigs_places conjI [OF DescribeConfigs_fails_at DescribeConfigs_skipped_at]]]]]]]]]]]]])

theorem elements_placed_by_key_witness:
  "rd_kafka_CreateTopicsResponse_parse example_create_req (example_delete_reply [''t1'']) = Inr [Some (topic_ok ''t1'')]
   \<and> (wire_ok ''t1'') \<in> set (take (nat (buf_cnt (example_delete_reply [''t1'']))) (buf_elems (example_delete_reply [''t1''])))
   \<and> rd_list_elem [Some (topic_ok ''t1'')] (rd_list_index (rko_args example_create_req) (NewTopic_skel (tr_topic (CreateTopics_terr example_create_req (ApiVersion (example_delete_reply [''t1''])) (wire_ok ''t1'')))) rd_kafka_NewTopic_cmp) = Some (CreateTopics_terr example_create_req (ApiVersion (example_delete_reply [''t1''])) (wire_ok ''t1''))
   \<and> (0::nat) < nat (buf_cnt (example_delete_reply [''t9'']))
   \<and> (0::nat) < length (buf_elems (example_delete_reply [''t9'']))
   \<and> buf_cnt (example_delete_reply [''t9'']) \<le> rd_list_cnt (rko_args example_create_req)
   \<and> rd_kafka_CreateTopicsResponse_parse example_create_req (first_elems 0 (example_delete_reply [''t9''])) = Inr []
   \<and> (rd_list_index (rko_args example_create_req) (NewTopic_skel (tr_topic (CreateTopics_terr example_create_req (ApiVersion (example_delete_reply [''t9''])) (buf_elems (example_delete_reply [''t9'']) ! 0)))) rd_kafka_NewTopic_cmp) = - 1
   \<and> rd_kafka_CreateTopicsResponse_parse example_create_req (example_delete_reply [''t9'']) = Inl (Parse_fail RD_KAFKA_RESP_ERR_NO_ERROR Not_in_request)
   \<and> rd_kafka_DeleteTopicsResponse_parse example_delete_req (example_delete_reply [''gamma'', ''alpha'', ''beta'']) = Inr [Some (topic_ok ''beta''), Some (topic_ok ''alpha''), Some (topic_ok ''gamma'')]
   \<and> (wire_ok ''gamma'') \<in> set (take (nat (buf_cnt (example_delete_reply [''gamma'', ''alpha'', ''beta'']))) (buf_elems (example_delete_reply [''gamma'', ''alpha'', ''beta''])))
   \<and> (0::nat) < nat (rd_list_index (rko_args example_delete_req) (DeleteTopic_skel (tr_topic (DeleteTopics_terr example_delete_req (wire_ok ''gamma'')))) rd_kafka_DeleteTopic_cmp)
   \<and> (1::nat) < nat (rd_list_index (rko_args example_delete_req) (DeleteTopic_skel (tr_topic (DeleteTopics_terr example_delete_req (wire_ok ''gamma'')))) rd_kafka_DeleteTopic_cmp)
   \<and> 0 \<le> (rd_list_index (rko_args example_delete_req) (DeleteTopic_skel (tr_topic (DeleteTopics_terr example_delete_req (wire_ok ''gamma'')))) rd_kafka_DeleteTopic_cmp)
   \<and> (rd_list_index (rko_args example_delete_req) (DeleteTopic_skel (tr_topic (DeleteTopics_terr example_delete_req (wire_ok ''gamma'')))) rd_kafka_DeleteTopic_cmp) < rd_list_cnt (rko_args example_delete_req)
   \<and> c_str (dt_topic (rko_args example_delete_req ! nat (rd_list_index (rko_args example_delete_req) (DeleteTopic_skel (tr_topic (DeleteTopics_terr example_delete_req (wire_ok ''gamma'')))) rd_kafka_DeleteTopic_cmp))) = c_str (tr_topic (DeleteTopics_terr example_delete_req (wire_ok ''gamma'')))
   \<and> c_str (dt_topic (rko_args example_delete_req ! 0)) \<noteq> c_str (tr_topic (DeleteTopics_terr example_delete_req (wire_ok ''gamma'')))
   \<and> c_str (dt_topic (rko_args example_delete_req ! 1)) \<noteq> c_str (tr_topic (DeleteTopics_terr example_delete_req (wire_ok ''gamma'')))
   \<and> rd_list_elem [Some (topic_ok ''beta''), Some (topic_ok ''alpha''), Some (topic_ok ''gamma'')] (rd_list_index (rko_args example_delete_req) (DeleteTopic_skel (tr_topic (DeleteTopics_terr example_delete_req (wire_ok ''gamma'')))) rd_kafka_DeleteTopic_cmp) = Some (DeleteTopics_terr example_delete_req (wire_ok ''gamma''))
   \<and> (1::nat) < nat (buf_cnt (example_delete_reply [''gamma'', ''delta'', ''beta'']))
   \<and> (1::nat) < length (buf_elems (example_delete_reply [''gamma'', ''delta'', ''beta'']))
   \<and> buf_cnt (example_delete_reply [''gamma'', ''delta'', ''beta'']) \<le> rd_list_cnt (rko_args example_delete_req)
   \<and> rd_kafka_DeleteTopicsResponse_parse example_delete_req (first_elems 1 (example_delete_reply [''gamma'', ''delta'', ''beta''])) = Inr [None, None, Some (topic_ok ''gamma'')]
   \<and> (rd_list_index (rko_args example_delete_req) (DeleteTopic_skel (tr_topic (DeleteTopics_terr example_delete_req (buf_elems (example_delete_reply [''gamma'', ''delta'', ''beta'']) ! 1)))) rd_kafka_DeleteTopic_cmp) = - 1
   \<and> rd_kafka_DeleteTopicsResponse_parse example_delete_req (example_delete_reply [''gamma'', ''delta'', ''beta'']) = Inl (Parse_fail RD_KAFKA_RESP_ERR_NO_ERROR Not_in_request)
   \<and> (1::nat) < nat (buf_cnt (example_delete_reply [''gamma'', ''gamma'', ''beta'']))
   \<and> (1::nat) < length (buf_elems (example_delete_reply [''gamma'', ''gamma'', ''beta'']))
   \<and> buf_cnt (example_delete_reply [''gamma'', ''gamma'', ''beta'']) \<le> rd_list_cnt (rko_args example_delete_req)
   \<and> rd_kafka_DeleteTopicsResponse_parse example_delete_req (first_elems 1 (example_delete_reply [''gamma'', ''gamma'', ''beta''])) = Inr [None, None, Some (topic_ok ''gamma'')]
   \<and> (rd_list_index (rko_args example_delete_req) (DeleteTopic_skel (tr_topic (DeleteTopics_terr example_delete_req (buf_elems (example_delete_reply [''gamma'', ''gamma'', ''beta'']) ! 1)))) rd_kafka_DeleteTopic_cmp) \<noteq> - 1
   \<and> rd_list_elem [None, None, Some (topic_ok ''gamma'')] (rd_list_index (rko_args example_delete_req) (DeleteTopic_skel (tr_topic (DeleteTopics_terr example_delete_req (buf_elems (example_delete_reply [''gamma'', ''gamma'', ''beta'']) ! 1)))) rd_kafka_DeleteTopic_cmp) \<noteq> None
   \<and> rd_kafka_DeleteTopicsResponse_parse example_delete_req (example_delete_reply [''gamma'', ''gamma'', ''beta'']) = Inl (Parse_fail RD_KAFKA_RESP_ERR_NO_ERROR Multiple_times)
   \<and> (1::nat) < nat (buf_cnt (example_delete_reply [''gamma'', ''alpha'', ''beta'']))
   \<and> (1::nat) < length (buf_elems (example_delete_reply [''gamma'', ''alpha'', ''beta'']))
   \<and> buf_cnt (example_delete_reply [''gamma'', ''alpha'', ''beta'']) \<le> rd_list_cnt (rko_args example_delete_req)
   \<and> rd_kafka_DeleteTopicsResponse_parse example_delete_req (first_elems 1 (example_delete_reply [''gamma'', ''alpha'', ''beta''])) = Inr [None, None, Some (topic_ok ''gamma'')]
   \<and> (rd_list_index (rko_args example_delete_req) (DeleteTopic_skel (tr_topic (DeleteTopics_terr example_delete_req (buf_elems (example_delete_reply [''gamma'', ''alpha'', ''beta'']) ! 1)))) rd_kafka_DeleteTopic_cmp) \<noteq> - 1
   \<and> rd_list_elem [None, None, Some (topic_ok ''gamma'')] (rd_list_index (rko_args example_delete_req) (DeleteTopic_skel (tr_topic (DeleteTopics_terr example_delete_req (buf_elems (example_delete_reply [''gamma'', ''alpha'', ''beta'']) ! 1)))) rd_kafka_DeleteTopic_cmp) = None
   \<and> rd_kafka_DeleteTopicsResponse_parse example_delete_req (first_elems (Suc 1) (example_delete_reply [''gamma'', ''alpha'', ''beta''])) = Inr (rd_list_set [None, None, Some (topic_ok ''gamma'')] (rd_list_index (rko_args example_delete_req) (DeleteTopic_skel (tr_topic (DeleteTopics_terr example_delete_req (buf_elems (example_delete_reply [''gamma'', ''alpha'', ''beta'']) ! 1)))) rd_kafka_DeleteTopic_cmp) (DeleteTopics_terr example_delete_req (buf_elems (example_delete_reply [''gamma'', ''alpha'', ''beta'']) ! 1)))
   \<and> rd_kafka_CreatePartitionsResponse_parse example_partitions_req (example_delete_reply [''t1'']) = Inr [Some (topic_ok ''t1'')]
   \<and> rd_list_elem [Some (topic_ok ''t1'')] (rd_list_index (rko_args example_partitions_req) (NewPartitions_skel (tr_topic (CreatePartitions_terr example_partitions_req (wire_ok ''t1'')))) rd_kafka_NewPartitions_cmp) = Some (CreatePartitions_terr example_partitions_req (wire_ok ''t1''))
   \<and> (1::nat) < nat (buf_cnt (example_delete_reply [''t1'', ''t1'']))
   \<and> (1::nat) < length (buf_elems (example_delete_reply [''t1'', ''t1'']))
   \<and> buf_cnt (example_delete_reply [''t1'', ''t1'']) \<le> rd_list_cnt (rko_args (example_req [\<lparr>np_topic = ''t1'', total_cnt = 6, np_replicas = []\<rparr>, \<lparr>np_topic = ''t2'', total_cnt = 6, np_replicas = []\<rparr>]))
   \<and> rd_kafka_CreatePartitionsResponse_parse (example_req [\<lparr>np_topic = ''t1'', total_cnt = 6, np_replicas = []\<rparr>, \<lparr>np_topic = ''t2'', total_cnt = 6, np_replicas = []\<rparr>]) (first_elems 1 (example_delete_reply [''t1'', ''t1''])) = Inr [Some (topic_ok ''t1'')]
   \<and> (rd_list_index (rko_args (example_req [\<lparr>np_topic = ''t1'', total_cnt = 6, np_replicas = []\<rparr>, \<lparr>np_topic = ''t2'', total_cnt = 6, np_replicas = []\<rparr>])) (NewPartitions_skel (tr_topic (CreatePartitions_terr (example_req [\<lparr>np_topic = ''t1'', total_cnt = 6, np_replicas = []\<rparr>, \<lparr>np_topic = ''t2'', total_cnt = 6, np_replicas = []\<rparr>]) (buf_elems (example_delete_reply [''t1'', ''t1'']) ! 1)))) rd_kafka_NewPartitions_cmp) \<noteq> - 1
   \<and> rd_list_elem [Some (topic_ok ''t1'')] (rd_list_index (rko_args (example_req [\<lparr>np_topic = ''t1'', total_cnt = 6, np_replicas = []\<rparr>, \<lparr>np_topic = ''t2'', total_cnt = 6, np_replicas = []\<rparr>])) (NewPartitions_skel (tr_topic (CreatePartitions_terr (example_req [\<lparr>np_topic = ''t1'', total_cnt = 6, np_replicas = []\<rparr>, \<lparr>np_topic = ''t2'', total_cnt = 6, np_replicas = []\<rparr>]) (buf_elems (example_delete_reply [''t1'', ''t1'']) ! 1)))) rd_kafka_NewPartitions_cmp) \<noteq> None
   \<and> rd_kafka_CreatePartitionsResponse_parse (example_req [\<lparr>np_topic = ''t1'', total_cnt = 6, np_replicas = []\<rparr>, \<lparr>np_topic = ''t2'', total_cnt = 6, np_replicas = []\<rparr>]) (example_delete_reply [''t1'', ''t1'']) = Inl (Parse_fail RD_KAFKA_RESP_ERR_NO_ERROR Multiple_times)
   \<and> AlterConfigs_config (wire_res 2 ''t'') = Some (ConfigResource_skel 2 ''t'')
   \<and> restype (ConfigResource_skel 2 ''t'') = ar_res_type (wire_res 2 ''t'')
   \<and> res_name (ConfigResource_skel 2 ''t'') = RD_KAFKAP_STR_DUPA (ar_res_name (wire_res 2 ''t''))
   \<and> ar_res_type (wire_res (- 1) ''x'') < 0
   \<and> AlterConfigs_config (wire_res (- 1) ''x'') = None
   \<and> rd_kafka_AlterConfigsResponse_parse example_config_req (example_alter_reply [(2, ''t'')]) = Inr [Some (ConfigResource_skel 2 ''t'')]
   \<and> (wire_res 2 ''t'') \<in> set (take (nat (buf_cnt (example_alter_reply [(2, ''t'')]))) (buf_elems (example_alter_reply [(2, ''t'')])))
   \<and> 0 \<le> (rd_list_index (rko_args example_config_req) (ConfigResource_skel (restype (ConfigResource_skel 2 ''t'')) (res_name (ConfigResource_skel 2 ''t''))) rd_kafka_ConfigResource_cmp)
   \<and> (rd_list_index (rko_args example_config_req) (ConfigResource_skel (restype (ConfigResource_skel 2 ''t'')) (res_name (ConfigResource_skel 2 ''t''))) rd_kafka_ConfigResource_cmp) < rd_list_cnt (rko_args example_config_req)
   \<and> restype (rko_args example_config_req ! nat (rd_list_index (rko_args example_config_req) (ConfigResource_skel (restype (ConfigResource_skel 2 ''t'')) (res_name (ConfigResource_skel 2 ''t''))) rd_kafka_ConfigResource_cmp)) = restype (ConfigResource_skel 2 ''t'')
   \<and> c_str (res_name (rko_args example_config_req ! nat (rd_list_index (rko_args example_config_req) (ConfigResource_skel (restype (ConfigResource_skel 2 ''t'')) (res_name (ConfigResource_skel 2 ''t''))) rd_kafka_ConfigResource_cmp))) = c_str (res_name (ConfigResource_skel 2 ''t''))
   \<and> rd_list_elem [Some (ConfigResource_skel 2 ''t'')] (rd_list_index (rko_args example_config_req) (ConfigResource_skel (restype (ConfigResource_skel 2 ''t'')) (res_name (ConfigResource_skel 2 ''t''))) rd_kafka_ConfigResource_cmp) = Some (ConfigResource_skel 2 ''t'')
   \<and> (0::nat) < nat (buf_cnt (example_alter_reply [(2, ''zz'')]))
   \<and> (0::nat) < length (buf_elems (example_alter_reply [(2, ''zz'')]))
   \<and> buf_cnt (example_alter_reply [(2, ''zz'')]) \<le> rd_list_cnt (rko_args example_config_req)
   \<and> rd_kafka_AlterConfigsResponse_parse example_config_req (first_elems 0 (example_alter_reply [(2, ''zz'')])) = Inr []
   \<and> AlterConfigs_config (buf_elems (example_alter_reply [(2, ''zz'')]) ! 0) = Some (ConfigResource_skel 2 ''zz'')
   \<and> (rd_list_index (rko_args example_config_req) (ConfigResource_skel (restype (ConfigResource_skel 2 ''zz'')) (res_name (ConfigResource_skel 2 ''zz''))) rd_kafka_ConfigResource_cmp) = - 1
   \<and> rd_kafka_AlterConfigsResponse_parse example_config_req (example_alter_reply [(2, ''zz'')]) = Inl (Parse_fail RD_KAFKA_RESP_ERR_NO_ERROR Not_in_request)
   \<and> (0::nat) < nat (buf_cnt (example_alter_reply [(- 1, ''x'')]))
   \<and> (0::nat) < length (buf_elems (example_alter_reply [(- 1, ''x'')]))
   \<and> buf_cnt (example_alter_reply [(- 1, ''x'')]) \<le> rd_list_cnt (rko_args example_config_req)
   \<and> rd_kafka_AlterConfigsResponse_parse example_config_req (first_elems 0 (example_alter_reply [(- 1, ''x'')])) = Inr []
   \<and> AlterConfigs_config (buf_elems (example_alter_reply [(- 1, ''x'')]) ! 0) = None
   \<and> rd_kafka_AlterConfigsResponse_parse example_config_req (first_elems (Suc 0) (example_alter_reply [(- 1, ''x'')])) = Inr []
   \<and> DescribeConfigs_head (describe_response 0 [describe_resource (- 1) ''x'' [], describe_resource (2) ''t'' []]) 8 = Inr ((0, None, - 1, Some ''x''), 16)
   \<and> (- 1::int) < 0
   \<and> DescribeConfigs_config (describe_response 0 [describe_resource (- 1) ''x'' [], describe_resource (2) ''t'' []]) 8 = Inr (None, 16)
   \<and> DescribeConfigs_head (example_describe_reply 0 []) 8 = Inr ((0, None, 2, Some ''t''), 16)
   \<and> DescribeConfigs_config (example_describe_reply 0 []) 8 = Inr (Some ((ConfigResource_skel 2 ''t'')\<lparr>config := [(ConfigEntry ''retention.ms'' (Some ''1'') \<lparr>source = 5, is_readonly = False, is_default = True, is_sensitive = False, is_synonym = False\<rparr> [])]\<rparr>), 40)
   \<and> restype ((ConfigResource_skel 2 ''t'')\<lparr>config := [(ConfigEntry ''retention.ms'' (Some ''1'') \<lparr>source = 5, is_readonly = False, is_default = True, is_sensitive = False, is_synonym = False\<rparr> [])]\<rparr>) = 2
   \<and> res_name ((ConfigResource_skel 2 ''t'')\<lparr>config := [(ConfigEntry ''retention.ms'' (Some ''1'') \<lparr>source = 5, is_readonly = False, is_default = True, is_sensitive = False, is_synonym = False\<rparr> [])]\<rparr>) = RD_KAFKAP_STR_DUPA (Some ''t'')
   \<and> buf_read_i32 (describe_response 0 [describe_resource (2) ''t'' [], describe_resource (4) ''0'' []]) (rkbuf_offset (describe_response 0 [describe_resource (2) ''t'' [], describe_resource (4) ''0'' []])) = Some (0, 4)
   \<and> buf_read_i32 (describe_response 0 [describe_resource (2) ''t'' [], describe_resource (4) ''0'' []]) 4 = Some (2, 8)
   \<and> (2::int) \<le> rd_list_cnt (rko_args example_config_req)
   \<and> rd_kafka_DescribeConfigsResponse_parse example_config_req (describe_response 0 [describe_resource (2) ''t'' [], describe_resource (4) ''0'' []]) = Inr [Some (ConfigResource_skel 2 ''t''), Some (ConfigResource_skel 4 ''0'')]
   \<and> (1::nat) < nat 2
   \<and> read_loop (DescribeConfigs_elem example_config_req (describe_response 0 [describe_resource (2) ''t'' [], describe_resource (4) ''0'' []])) 1 [] 8 = Inr ([Some (ConfigResource_skel 2 ''t'')], 20)
   \<and> DescribeConfigs_config (describe_response 0 [describe_resource (2) ''t'' [], describe_resource (4) ''0'' []]) 20 = Inr (Some (ConfigResource_skel 4 ''0''), 32)
   \<and> (0::nat) < nat (rd_list_index (rko_args example_config_req) (ConfigResource_skel (restype (ConfigResource_skel 4 ''0'')) (res_name (ConfigResource_skel 4 ''0''))) rd_kafka_ConfigResource_cmp)
   \<and> restype (rko_args example_config_req ! 0) \<noteq> restype (ConfigResource_skel 4 ''0'')
   \<and> 0 \<le> (rd_list_index (rko_args example_config_req) (ConfigResource_skel (restype (ConfigResource_skel 4 ''0'')) (res_name (ConfigResource_skel 4 ''0''))) rd_kafka_ConfigResource_cmp)
   \<and> (rd_list_index (rko_args example_config_req) (ConfigResource_skel (restype (ConfigResource_skel 4 ''0'')) (res_name (ConfigResource_skel 4 ''0''))) rd_kafka_ConfigResource_cmp) < rd_list_cnt (rko_args example_config_req)
   \<and> restype (rko_args example_config_req ! nat (rd_list_index (rko_args example_config_req) (ConfigResource_skel (restype (ConfigResource_skel 4 ''0'')) (res_name (ConfigResource_skel 4 ''0''))) rd_kafka_ConfigResource_cmp)) = restype (ConfigResource_skel 4 ''0'')
   \<and> c_str (res_name (rko_args example_config_req ! nat (rd_list_index (rko_args example_config_req) (ConfigResource_skel (restype (ConfigResource_skel 4 ''0'')) (res_name (ConfigResource_skel 4 ''0''))) rd_kafka_ConfigResource_cmp))) = c_str (res_name (ConfigResource_skel 4 ''0''))
   \<and> rd_list_elem [Some (ConfigResource_skel 2 ''t''), Some (ConfigResource_skel 4 ''0'')] (rd_list_index (rko_args example_config_req) (ConfigResource_skel (restype (ConfigResource_skel 4 ''0'')) (res_name (ConfigResource_skel 4 ''0''))) rd_kafka_ConfigResource_cmp) = Some (ConfigResource_skel 4 ''0'')
   \<and> buf_read_i32 (describe_response 0 [describe_resource (2) ''zz'' []]) (rkbuf_offset (describe_response 0 [describe_resource (2) ''zz'' []])) = Some (0, 4)
   \<and> buf_read_i32 (describe_response 0 [describe_resource (2) ''zz'' []]) 4 = Some (1, 8)
   \<and> (1::int) \<le> rd_list_cnt (rko_args example_config_req)
   \<and> (0::nat) < nat 1
   \<and> read_loop (DescribeConfigs_elem example_config_req (describe_response 0 [describe_resource (2) ''zz'' []])) 0 [] 8 = Inr ([], 8)
   \<and> DescribeConfigs_config (describe_response 0 [describe_resource (2) ''zz'' []]) 8 = Inr (Some (ConfigResource_skel 2 ''zz''), 21)
   \<and> rd_kafka_DescribeConfigsResponse_parse example_config_req (describe_response 0 [describe_resource (2) ''zz'' []]) = Inl (Config_destroyed_twice Not_in_request)
   \<and> buf_read_i32 (describe_response 0 [describe_resource (2) ''t'' [], describe_resource (2) ''t'' []]) (rkbuf_offset (describe_response 0 [describe_resource (2) ''t'' [], describe_resource (2) ''t'' []])) = Some (0, 4)
   \<and> buf_read_i32 (describe_response 0 [describe_resource (2) ''t'' [], describe_resource (2) ''t'' []]) 4 = Some (2, 8)
   \<and> read_loop (DescribeConfigs_elem example_config_req (describe_response 0 [describe_resource (2) ''t'' [], describe_resource (2) ''t'' []])) 1 [] 8 = Inr ([Some (ConfigResource_skel 2 ''t'')], 20)
   \<and> DescribeConfigs_config (describe_response 0 [describe_resource (2) ''t'' [], describe_resource (2) ''t'' []]) 20 = Inr (Some (ConfigResource_skel 2 ''t''), 32)
   \<and> (rd_list_index (rko_args example_config_req) (ConfigResource_skel (restype (ConfigResource_skel 2 ''t'')) (res_name (ConfigResource_skel 2 ''t''))) rd_kafka_ConfigResource_cmp) \<noteq> - 1
   \<and> rd_list_elem [Some (ConfigResource_skel 2 ''t'')] (rd_list_index (rko_args example_config_req) (ConfigResource_skel (restype (ConfigResource_skel 2 ''t'')) (res_name (ConfigResource_skel 2 ''t''))) rd_kafka_ConfigResource_cmp) \<noteq> None
   \<and> rd_kafka_DescribeConfigsResponse_parse example_config_req (describe_response 0 [describe_resource (2) ''t'' [], describe_resource (2) ''t'' []]) = Inl (Config_destroyed_twice Multiple_times)
   \<and> buf_read_i32 (example_describe_reply 0 []) (rkbuf_offset (example_describe_reply 0 [])) = Some (0, 4)
   \<and> buf_read_i32 (example_describe_reply 0 []) 4 = Some (1, 8)
   \<and> read_loop (DescribeConfigs_elem example_config_req (example_describe_reply 0 [])) 0 [] 8 = Inr ([], 8)
   \<and> (rd_list_index (rko_args example_config_req) (ConfigResource_skel (restype ((ConfigResource_skel 2 ''t'')\<lparr>config := [(ConfigEntry ''retention.ms'' (Some ''1'') \<lparr>source = 5, is_readonly = False, is_default = True, is_sensitive = False, is_synonym = False\<rparr> [])]\<rparr>)) (res_name ((ConfigResource_skel 2 ''t'')\<lparr>config := [(ConfigEntry ''retention.ms'' (Some ''1'') \<lparr>source = 5, is_readonly = False, is_default = True, is_sensitive = False, is_synonym = False\<rparr> [])]\<rparr>))) rd_kafka_ConfigResource_cmp) \<noteq> - 1
   \<and> rd_list_elem [] (rd_list_index (rko_args example_config_req) (ConfigResource_skel (restype ((ConfigResource_skel 2 ''t'')\<lparr>config := [(ConfigEntry ''retention.ms'' (Some ''1'') \<lparr>source = 5, is_readonly = False, is_default = True, is_sensitive = False, is_synonym = False\<rparr> [])]\<rparr>)) (res_name ((ConfigResource_skel 2 ''t'')\<lparr>config := [(ConfigEntry ''retention.ms'' (Some ''1'') \<lparr>source = 5, is_readonly = False, is_default = True, is_sensitive = False, is_synonym = False\<rparr> [])]\<rparr>))) rd_kafka_ConfigResource_cmp) = None
   \<and> read_loop (DescribeConfigs_elem example_config_req (example_describe_reply 0 [])) (Suc 0) [] 8 = Inr (rd_list_set [] (rd_list_index (rko_args example_config_req) (ConfigResource_skel (restype ((ConfigResource_skel 2 ''t'')\<lparr>config := [(ConfigEntry ''retention.ms'' (Some ''1'') \<lparr>source = 5, is_readonly = False, is_default = True, is_sensitive = False, is_synonym = False\<rparr> [])]\<rparr>)) (res_name ((ConfigResource_skel 2 ''t'')\<lparr>config := [(ConfigEntry ''retention.ms'' (Some ''1'') \<lparr>source = 5, is_readonly = False, is_default = True, is_sensitive = False, is_synonym = False\<rparr> [])]\<rparr>))) rd_kafka_ConfigResource_cmp) ((ConfigResource_skel 2 ''t'')\<lparr>config := [(ConfigEntry ''retention.ms'' (Some ''1'') \<lparr>source = 5, is_readonly = False, is_default = True, is_sensitive = False, is_synonym = False\<rparr> [])]\<rparr>), 40)
   \<and> read_loop (DescribeConfigs_elem example_config_req (describe_response 0 [describe_resource (- 1) ''x'' [], describe_resource (2) ''t'' []])) 0 [] 8 = Inr ([], 8)
   \<and> read_loop (DescribeConfigs_elem example_config_req (describe_response 0 [describe_resource (- 1) ''x'' [], describe_resource (2) ''t'' []])) (Suc 0) [] 8 = Inr ([], 16)"
proof -
  have h_c1:
    "rd_kafka_CreateTopicsResponse_parse example_create_req (example_delete_reply [''t1'']) = Inr [Some (topic_ok ''t1'')]"
    "(wire_ok ''t1'') \<in> set (take (nat (buf_cnt (example_delete_reply [''t1'']))) (buf_elems (example_delete_reply [''t1''])))"
    by code_simp+
  from elements_placed_by_key [where ?q1.0 = example_create_req and ?r1.0 = "example_delete_reply [''t1'']" and ?rs1.0 = "[Some (topic_ok ''t1'')]" and ?w1.0 = "wire_ok ''t1''",
      THEN conjunct1, unfolded Let_def] h_c1
  have c1:
    "rd_list_elem [Some (topic_ok ''t1'')] (rd_list_index (rko_args example_create_req) (NewTopic_skel (tr_topic (CreateTopics_terr example_create_req (ApiVersion (example_delete_reply [''t1''])) (wire_ok ''t1'')))) rd_kafka_NewTopic_cmp) = Some (CreateTopics_terr example_create_req (ApiVersion (example_delete_reply [''t1''])) (wire_ok ''t1''))"
    by blast
  have h_c2:
    "(0::nat) < nat (buf_cnt (example_delete_reply [''t9'']))"
    "(0::nat) < length (buf_elems (example_delete_reply [''t9'']))"
    "buf_cnt (example_delete_reply [''t9'']) \<le> rd_list_cnt (rko_args example_create_req)"
    "rd_kafka_CreateTopicsResponse_parse example_create_req (first_elems 0 (example_delete_reply [''t9''])) = Inr []"
    "(rd_list_index (rko_args example_create_req) (NewTopic_skel (tr_topic (CreateTopics_terr example_create_req (ApiVersion (example_delete_reply [''t9''])) (buf_elems (example_delete_reply [''t9'']) ! 0)))) rd_kafka_NewTopic_cmp) = - 1"
    by code_simp+
  from elements_placed_by_key [where ?q1.0 = example_create_req and ?r1.0 = "example_delete_reply [''t9'']" and ?k1.0 = 0 and ?pre1.0 = "[]",
      THEN conjunct2, THEN conjunct1, unfolded Let_def] h_c2
  have c2:
    "rd_kafka_CreateTopicsResponse_parse example_create_req (example_delete_reply [''t9'']) = Inl (Parse_fail RD_KAFKA_RESP_ERR_NO_ERROR Not_in_request)"
    by blast
  have h_c3:
    "rd_kafka_DeleteTopicsResponse_parse example_delete_req (example_delete_reply [''gamma'', ''alpha'', ''beta'']) = Inr [Some (topic_ok ''beta''), Some (topic_ok ''alpha''), Some (topic_ok ''gamma'')]"
    "(wire_ok ''gamma'') \<in> set (take (nat (buf_cnt (example_delete_reply [''gamma'', ''alpha'', ''beta'']))) (buf_elems (example_delete_reply [''gamma'', ''alpha'', ''beta''])))"
    "(0::nat) < nat (rd_list_index (rko_args example_delete_req) (DeleteTopic_skel (tr_topic (DeleteTopics_terr example_delete_req (wire_ok ''gamma'')))) rd_kafka_DeleteTopic_cmp)"
    "(1::nat) < nat (rd_list_index (rko_args example_delete_req) (DeleteTopic_skel (tr_topic (DeleteTopics_terr example_delete_req (wire_ok ''gamma'')))) rd_kafka_DeleteTopic_cmp)"
    by code_simp+
  from elements_placed_by_key [where ?q2.0 = example_delete_req and ?r2.0 = "example_delete_reply [''gamma'', ''alpha'', ''beta'']" and ?rs2.0 = "[Some (topic_ok ''beta''), Some (topic_ok ''alpha''), Some (topic_ok ''gamma'')]" and ?w2.0 = "wire_ok ''gamma''",
      THEN conjunct2, THEN conjunct2, THEN conjunct1, unfolded Let_def] h_c3
  have c3:
    "0 \<le> (rd_list_index (rko_args example_delete_req) (DeleteTopic_skel (tr_topic (DeleteTopics_terr example_delete_req (wire_ok ''gamma'')))) rd_kafka_DeleteTopic_cmp)
     \<and> (rd_list_index (rko_args example_delete_req) (DeleteTopic_skel (tr_topic (DeleteTopics_terr example_delete_req (wire_ok ''gamma'')))) rd_kafka_DeleteTopic_cmp) < rd_list_cnt (rko_args example_delete_req)
     \<and> c_str (dt_topic (rko_args example_delete_req ! nat (rd_list_index (rko_args example_delete_req) (DeleteTopic_skel (tr_topic (DeleteTopics_terr example_delete_req (wire_ok ''gamma'')))) rd_kafka_DeleteTopic_cmp))) = c_str (tr_topic (DeleteTopics_terr example_delete_req (wire_ok ''gamma'')))
     \<and> c_str (dt_topic (rko_args example_delete_req ! 0)) \<noteq> c_str (tr_topic (DeleteTopics_terr example_delete_req (wire_ok ''gamma'')))
     \<and> c_str (dt_topic (rko_args example_delete_req ! 1)) \<noteq> c_str (tr_topic (DeleteTopics_terr example_delete_req (wire_ok ''gamma'')))
     \<and> rd_list_elem [Some (topic_ok ''beta''), Some (topic_ok ''alpha''), Some (topic_ok ''gamma'')] (rd_list_index (rko_args example_delete_req) (DeleteTopic_skel (tr_topic (DeleteTopics_terr example_delete_req (wire_ok ''gamma'')))) rd_kafka_DeleteTopic_cmp) = Some (DeleteTopics_terr example_delete_req (wire_ok ''gamma''))"
    by blast
  have h_c4a:
    "(1::nat) < nat (buf_cnt (example_delete_reply [''gamma'', ''delta'', ''beta'']))"
    "(1::nat) < length (buf_elems (example_delete_reply [''gamma'', ''delta'', ''beta'']))"
    "buf_cnt (example_delete_reply [''gamma'', ''delta'', ''beta'']) \<le> rd_list_cnt (rko_args example_delete_req)"
    "rd_kafka_DeleteTopicsResponse_parse example_delete_req (first_elems 1 (example_delete_reply [''gamma'', ''delta'', ''beta''])) = Inr [None, None, Some (topic_ok ''gamma'')]"
    "(rd_list_index (rko_args example_delete_req) (DeleteTopic_skel (tr_topic (DeleteTopics_terr example_delete_req (buf_elems (example_delete_reply [''gamma'', ''delta'', ''beta'']) ! 1)))) rd_kafka_DeleteTopic_cmp) = - 1"
    by code_simp+
  from elements_placed_by_key [where ?q2.0 = example_delete_req and ?r2.0 = "example_delete_reply [''gamma'', ''delta'', ''beta'']" and ?k2.0 = 1 and ?pre2.0 = "[None, None, Some (topic_ok ''gamma'')]",
      THEN conjunct2, THEN conjunct2, THEN conjunct2, THEN conjunct1, unfolded Let_def] h_c4a
  have c4a:
    "rd_kafka_DeleteTopicsResponse_parse example_delete_req (example_delete_reply [''gamma'', ''delta'', ''beta'']) = Inl (Parse_fail RD_KAFKA_RESP_ERR_NO_ERROR Not_in_request)"
    by blast
  have h_c4b:
    "(1::nat) < nat (buf_cnt (example_delete_reply [''gamma'', ''gamma'', ''beta'']))"
    "(1::nat) < length (buf_elems (example_delete_reply [''gamma'', ''gamma'', ''beta'']))"
    "buf_cnt (example_delete_reply [''gamma'', ''gamma'', ''beta'']) \<le> rd_list_cnt (rko_args example_delete_req)"
    "rd_kafka_DeleteTopicsResponse_parse example_delete_req (first_elems 1 (example_delete_reply [''gamma'', ''gamma'', ''beta''])) = Inr [None, None, Some (topic_ok ''gamma'')]"
    "(rd_list_index (rko_args example_delete_req) (DeleteTopic_skel (tr_topic (DeleteTopics_terr example_delete_req (buf_elems (example_delete_reply [''gamma'', ''gamma'', ''beta'']) ! 1)))) rd_kafka_DeleteTopic_cmp) \<noteq> - 1"
    "rd_list_elem [None, None, Some (topic_ok ''gamma'')] (rd_list_index (rko_args example_delete_req) (DeleteTopic_skel (tr_topic (DeleteTopics_terr example_delete_req (buf_elems (example_delete_reply [''gamma'', ''gamma'', ''beta'']) ! 1)))) rd_kafka_DeleteTopic_cmp) \<noteq> None"
    by code_simp+
  from elements_placed_by_key [where ?q2.0 = example_delete_req and ?r2.0 = "example_delete_reply [''gamma'', ''gamma'', ''beta'']" and ?k2.0 = 1 and ?pre2.0 = "[None, None, Some (topic_ok ''gamma'')]",
      THEN conjunct2, THEN conjunct2, THEN conjunct2, THEN conjunct1, unfolded Let_def] h_c4b
  have c4b:
    "rd_kafka_DeleteTopicsResponse_parse example_delete_req (example_delete_reply [''gamma'', ''gamma'', ''beta'']) = Inl (Parse_fail RD_KAFKA_RESP_ERR_NO_ERROR Multiple_times)"
    by blast
  have h_c4c:
    "(1::nat) < nat (buf_cnt (example_delete_reply [''gamma'', ''alpha'', ''beta'']))"
    "(1::nat) < length (buf_elems (example_delete_reply [''gamma'', ''alpha'', ''beta'']))"
    "buf_cnt (example_delete_reply [''gamma'', ''alpha'', ''beta'']) \<le> rd_list_cnt (rko_args example_delete_req)"
    "rd_kafka_DeleteTopicsResponse_parse example_delete_req (first_elems 1 (example_delete_reply [''gamma'', ''alpha'', ''beta''])) = Inr [None, None, Some (topic_ok ''gamma'')]"
    "(rd_list_index (rko_args example_delete_req) (DeleteTopic_skel (tr_topic (DeleteTopics_terr example_delete_req (buf_elems (example_delete_reply [''gamma'', ''alpha'', ''beta'']) ! 1)))) rd_kafka_DeleteTopic_cmp) \<noteq> - 1"
    "rd_list_elem [None, None, Some (topic_ok ''gamma'')] (rd_list_index (rko_args example_delete_req) (DeleteTopic_skel (tr_topic (DeleteTopics_terr example_delete_req (buf_elems (example_delete_reply [''gamma'', ''alpha'', ''beta'']) ! 1)))) rd_kafka_DeleteTopic_cmp) = None"
    by code_simp+
  from elements_placed_by_key [where ?q2.0 = example_delete_req and ?r2.0 = "example_delete_reply [''gamma'', ''alpha'', ''beta'']" and ?k2.0 = 1 and ?pre2.0 = "[None, None, Some (topic_ok ''gamma'')]",
      THEN conjunct2, THEN conjunct2, THEN conjunct2, THEN conjunct1, unfolded Let_def] h_c4c
  have c4c:
    "rd_kafka_DeleteTopicsResponse_parse example_delete_req (first_elems (Suc 1) (example_delete_reply [''gamma'', ''alpha'', ''beta''])) = Inr (rd_list_set [None, None, Some (topic_ok ''gamma'')] (rd_list_index (rko_args example_delete_req) (DeleteTopic_skel (tr_topic (DeleteTopics_terr example_delete_req (buf_elems (example_delete_reply [''gamma'', ''alpha'', ''beta'']) ! 1)))) rd_kafka_DeleteTopic_cmp) (DeleteTopics_terr example_delete_req (buf_elems (example_delete_reply [''gamma'', ''alpha'', ''beta'']) ! 1)))"
    by blast
  have h_c5:
    "rd_kafka_CreatePartitionsResponse_parse example_partitions_req (example_delete_reply [''t1'']) = Inr [Some (topic_ok ''t1'')]"
    "(wire_ok ''t1'') \<in> set (take (nat (buf_cnt (example_delete_reply [''t1'']))) (buf_elems (example_delete_reply [''t1''])))"
    by code_simp+
  from elements_placed_by_key [where ?q3.0 = example_partitions_req and ?r3.0 = "example_delete_reply [''t1'']" and ?rs3.0 = "[Some (topic_ok ''t1'')]" and ?w3.0 = "wire_ok ''t1''",
      THEN conjunct2, THEN conjunct2, THEN conjunct2, THEN conjunct2, THEN conjunct1, unfolded Let_def] h_c5
  have c5:
    "rd_list_elem [Some (topic_ok ''t1'')] (rd_list_index (rko_args example_partitions_req) (NewPartitions_skel (tr_topic (CreatePartitions_terr example_partitions_req (wire_ok ''t1'')))) rd_kafka_NewPartitions_cmp) = Some (CreatePartitions_terr example_partitions_req (wire_ok ''t1''))"
    by blast
  have h_c6:
    "(1::nat) < nat (buf_cnt (example_delete_reply [''t1'', ''t1'']))"
    "(1::nat) < length (buf_elems (example_delete_reply [''t1'', ''t1'']))"
    "buf_cnt (example_delete_reply [''t1'', ''t1'']) \<le> rd_list_cnt (rko_args (example_req [\<lparr>np_topic = ''t1'', total_cnt = 6, np_replicas = []\<rparr>, \<lparr>np_topic = ''t2'', total_cnt = 6, np_replicas = []\<rparr>]))"
    "rd_kafka_CreatePartitionsResponse_parse (example_req [\<lparr>np_topic = ''t1'', total_cnt = 6, np_replicas = []\<rparr>, \<lparr>np_topic = ''t2'', total_cnt = 6, np_replicas = []\<rparr>]) (first_elems 1 (example_delete_reply [''t1'', ''t1''])) = Inr [Some (topic_ok ''t1'')]"
    "(rd_list_index (rko_args (example_req [\<lparr>np_topic = ''t1'', total_cnt = 6, np_replicas = []\<rparr>, \<lparr>np_topic = ''t2'', total_cnt = 6, np_replicas = []\<rparr>])) (NewPartitions_skel (tr_topic (CreatePartitions_terr (example_req [\<lparr>np_topic = ''t1'', total_cnt = 6, np_replicas = []\<rparr>, \<lparr>np_topic = ''t2'', total_cnt = 6, np_replicas = []\<rparr>]) (buf_elems (example_delete_reply [''t1'', ''t1'']) ! 1)))) rd_kafka_NewPartitions_cmp) \<noteq> - 1"
    "rd_list_elem [Some (topic_ok ''t1'')] (rd_list_index (rko_args (example_req [\<lparr>np_topic = ''t1'', total_cnt = 6, np_replicas = []\<rparr>, \<lparr>np_topic = ''t2'', total_cnt = 6, np_replicas = []\<rparr>])) (NewPartitions_skel (tr_topic (CreatePartitions_terr (example_req [\<lparr>np_topic = ''t1'', total_cnt = 6, np_replicas = []\<rparr>, \<lparr>np_topic = ''t2'', total_cnt = 6, np_replicas = []\<rparr>]) (buf_elems (example_delete_reply [''t1'', ''t1'']) ! 1)))) rd_kafka_NewPartitions_cmp) \<noteq> None"
    by code_simp+
  from elements_placed_by_key [where ?q3.0 = "example_req [\<lparr>np_topic = ''t1'', total_cnt = 6, np_replicas = []\<rparr>, \<lparr>np_topic = ''t2'', total_cnt = 6, np_replicas = []\<rparr>]" and ?r3.0 = "example_delete_reply [''t1'', ''t1'']" and ?k3.0 = 1 and ?pre3.0 = "[Some (topic_ok ''t1'')]",
      THEN conjunct2, THEN conjunct2, THEN conjunct2, THEN conjunct2, THEN conjunct2, THEN conjunct1, unfolded Let_def] h_c6
  have c6:
    "rd_kafka_CreatePartitionsResponse_parse (example_req [\<lparr>np_topic = ''t1'', total_cnt = 6, np_replicas = []\<rparr>, \<lparr>np_topic = ''t2'', total_cnt = 6, np_replicas = []\<rparr>]) (example_delete_reply [''t1'', ''t1'']) = Inl (Parse_fail RD_KAFKA_RESP_ERR_NO_ERROR Multiple_times)"
    by blast
  have h_c7:
    "AlterConfigs_config (wire_res 2 ''t'') = Some (ConfigResource_skel 2 ''t'')"
    by code_simp+
  from elements_placed_by_key [where ?w4.0 = "wire_res 2 ''t''" and ?c4.0 = "ConfigResource_skel 2 ''t''",
      THEN conjunct2, THEN conjunct2, THEN conjunct2, THEN conjunct2, THEN conjunct2, THEN conjunct2, THEN conjunct1, unfolded Let_def] h_c7
  have c7:
    "restype (ConfigResource_skel 2 ''t'') = ar_res_type (wire_res 2 ''t'')
     \<and> res_name (ConfigResource_skel 2 ''t'') = RD_KAFKAP_STR_DUPA (ar_res_name (wire_res 2 ''t''))"
    by blast
  have h_c7x:
    "ar_res_type (wire_res (- 1) ''x'') < 0"
    by code_simp+
  from elements_placed_by_key [where ?w4.0 = "wire_res (- 1) ''x''",
      THEN conjunct2, THEN conjunct2, THEN conjunct2, THEN conjunct2, THEN conjunct2, THEN conjunct2, THEN conjunct1, unfolded Let_def] h_c7x
  have c7x:
    "AlterConfigs_config (wire_res (- 1) ''x'') = None"
    by blast
  have h_c8:
    "rd_kafka_AlterConfigsResponse_parse example_config_req (example_alter_reply [(2, ''t'')]) = Inr [Some (ConfigResource_skel 2 ''t'')]"
    "(wire_res 2 ''t'') \<in> set (take (nat (buf_cnt (example_alter_reply [(2, ''t'')]))) (buf_elems (example_alter_reply [(2, ''t'')])))"
    "AlterConfigs_config (wire_res 2 ''t'') = Some (ConfigResource_skel 2 ''t'')"
    by code_simp+
  from elements_placed_by_key [where ?q4.0 = example_config_req and ?r4.0 = "example_alter_reply [(2, ''t'')]" and ?rs4.0 = "[Some (ConfigResource_skel 2 ''t'')]" and ?w4.0 = "wire_res 2 ''t''" and ?c4.0 = "ConfigResource_skel 2 ''t''",
      THEN conjunct2, THEN conjunct2, THEN conjunct2, THEN conjunct2, THEN conjunct2, THEN conjunct2, THEN conjunct2, THEN conjunct1, unfolded Let_def] h_c8
  have c8:
    "0 \<le> (rd_list_index (rko_args example_config_req) (ConfigResource_skel (restype (ConfigResource_skel 2 ''t'')) (res_name (ConfigResource_skel 2 ''t''))) rd_kafka_ConfigResource_cmp)
     \<and> (rd_list_index (rko_args example_config_req) (ConfigResource_skel (restype (ConfigResource_skel 2 ''t'')) (res_name (ConfigResource_skel 2 ''t''))) rd_kafka_ConfigResource_cmp) < rd_list_cnt (rko_args example_config_req)
     \<and> restype (rko_args example_config_req ! nat (rd_list_index (rko_args example_config_req) (ConfigResource_skel (restype (ConfigResource_skel 2 ''t'')) (res_name (ConfigResource_skel 2 ''t''))) rd_kafka_ConfigResource_cmp)) = restype (ConfigResource_skel 2 ''t'')
     \<and> c_str (res_name (rko_args example_config_req ! nat (rd_list_index (rko_args example_config_req) (ConfigResource_skel (restype (ConfigResource_skel 2 ''t'')) (res_name (ConfigResource_skel 2 ''t''))) rd_kafka_ConfigResource_cmp))) = c_str (res_name (ConfigResource_skel 2 ''t''))
     \<and> rd_list_elem [Some (ConfigResource_skel 2 ''t'')] (rd_list_index (rko_args example_config_req) (ConfigResource_skel (restype (ConfigResource_skel 2 ''t'')) (res_name (ConfigResource_skel 2 ''t''))) rd_kafka_ConfigResource_cmp) = Some (ConfigResource_skel 2 ''t'')"
    by blast
  have h_c9:
    "(0::nat) < nat (buf_cnt (example_alter_reply [(2, ''zz'')]))"
    "(0::nat) < length (buf_elems (example_alter_reply [(2, ''zz'')]))"
    "buf_cnt (example_alter_reply [(2, ''zz'')]) \<le> rd_list_cnt (rko_args example_config_req)"
    "rd_kafka_AlterConfigsResponse_parse example_config_req (first_elems 0 (example_alter_reply [(2, ''zz'')])) = Inr []"
    "AlterConfigs_config (buf_elems (example_alter_reply [(2, ''zz'')]) ! 0) = Some (ConfigResource_skel 2 ''zz'')"
    "(rd_list_index (rko_args example_config_req) (ConfigResource_skel (restype (ConfigResource_skel 2 ''zz'')) (res_name (ConfigResource_skel 2 ''zz''))) rd_kafka_ConfigResource_cmp) = - 1"
    by code_simp+
  from elements_placed_by_key [where ?q4.0 = example_config_req and ?r4.0 = "example_alter_reply [(2, ''zz'')]" and ?k4.0 = 0 and ?pre4.0 = "[]" and ?d4.0 = "ConfigResource_skel 2 ''zz''",
      THEN conjunct2, THEN conjunct2, THEN conjunct2, THEN conjunct2, THEN conjunct2, THEN conjunct2, THEN conjunct2, THEN conjunct2, THEN conjunct1, unfolded Let_def] h_c9
  have c9:
    "rd_kafka_AlterConfigsResponse_parse example_config_req (example_alter_reply [(2, ''zz'')]) = Inl (Parse_fail RD_KAFKA_RESP_ERR_NO_ERROR Not_in_request)"
    by blast
  have h_c10:
    "(0::nat) < nat (buf_cnt (example_alter_reply [(- 1, ''x'')]))"
    "(0::nat) < length (buf_elems (example_alter_reply [(- 1, ''x'')]))"
    "buf_cnt (example_alter_reply [(- 1, ''x'')]) \<le> rd_list_cnt (rko_args example_config_req)"
    "rd_kafka_AlterConfigsResponse_parse example_config_req (first_elems 0 (example_alter_reply [(- 1, ''x'')])) = Inr []"
    "AlterConfigs_config (buf_elems (example_alter_reply [(- 1, ''x'')]) ! 0) = None"
    by code_simp+
  from elements_placed_by_key [where ?q4.0 = example_config_req and ?r4.0 = "example_alter_reply [(- 1, ''x'')]" and ?k4.0 = 0 and ?pre4.0 = "[]",
      THEN conjunct2, THEN conjunct2, THEN conjunct2, THEN conjunct2, THEN conjunct2, THEN conjunct2, THEN conjunct2, THEN conjunct2, THEN conjunct2, THEN conjunct1, unfolded Let_def] h_c10
  have c10:
    "rd_kafka_AlterConfigsResponse_parse example_config_req (first_elems (Suc 0) (example_alter_reply [(- 1, ''x'')])) = Inr []"
    by blast
  have h_c11:
    "DescribeConfigs_head (describe_response 0 [describe_resource (- 1) ''x'' [], describe_resource (2) ''t'' []]) 8 = Inr ((0, None, - 1, Some ''x''), 16)"
    "(- 1::int) < 0"
    by code_simp+
  from elements_placed_by_key [where ?r5.0 = "describe_response 0 [describe_resource (- 1) ''x'' [], describe_resource (2) ''t'' []]" and ?a5.0 = 8 and ?e5.0 = 0 and ?m5.0 = None and ?ty5.0 = "- 1" and ?nm5.0 = "Some ''x''" and ?b5.0 = 16,
      THEN conjunct2, THEN conjunct2, THEN conjunct2, THEN conjunct2, THEN conjunct2, THEN conjunct2, THEN conjunct2, THEN conjunct2, THEN conjunct2, THEN conjunct2, THEN conjunct1, unfolded Let_def] h_c11
  have c11:
    "DescribeConfigs_config (describe_response 0 [describe_resource (- 1) ''x'' [], describe_resource (2) ''t'' []]) 8 = Inr (None, 16)"
    by blast
  have h_c11b:
    "DescribeConfigs_head (example_describe_reply 0 []) 8 = Inr ((0, None, 2, Some ''t''), 16)"
    "DescribeConfigs_config (example_describe_reply 0 []) 8 = Inr (Some ((ConfigResource_skel 2 ''t'')\<lparr>config := [(ConfigEntry ''retention.ms'' (Some ''1'') \<lparr>source = 5, is_readonly = False, is_default = True, is_sensitive = False, is_synonym = False\<rparr> [])]\<rparr>), 40)"
    by code_simp+
  from elements_placed_by_key [where ?r5.0 = "example_describe_reply 0 []" and ?a5.0 = 8 and ?e5.0 = 0 and ?m5.0 = None and ?ty5.0 = 2 and ?nm5.0 = "Some ''t''" and ?b5.0 = 16 and ?c5.0 = "(ConfigResource_skel 2 ''t'')\<lparr>config := [(ConfigEntry ''retention.ms'' (Some ''1'') \<lparr>source = 5, is_readonly = False, is_default = True, is_sensitive = False, is_synonym = False\<rparr> [])]\<rparr>" and ?g5.0 = 40,
      THEN conjunct2, THEN conjunct2, THEN conjunct2, THEN conjunct2, THEN conjunct2, THEN conjunct2, THEN conjunct2, THEN conjunct2, THEN conjunct2, THEN conjunct2, THEN conjunct1, unfolded Let_def] h_c11b
  have c11b:
    "restype ((ConfigResource_skel 2 ''t'')\<lparr>config := [(ConfigEntry ''retention.ms'' (Some ''1'') \<lparr>source = 5, is_readonly = False, is_default = True, is_sensitive = False, is_synonym = False\<rparr> [])]\<rparr>) = 2
     \<and> res_name ((ConfigResource_skel 2 ''t'')\<lparr>config := [(ConfigEntry ''retention.ms'' (Some ''1'') \<lparr>source = 5, is_readonly = False, is_default = True, is_sensitive = False, is_synonym = False\<rparr> [])]\<rparr>) = RD_KAFKAP_STR_DUPA (Some ''t'')"
    by blast
  have h_c12:
    "buf_read_i32 (describe_response 0 [describe_resource (2) ''t'' [], describe_resource (4) ''0'' []]) (rkbuf_offset (describe_response 0 [describe_resource (2) ''t'' [], describe_resource (4) ''0'' []])) = Some (0, 4)"
    "buf_read_i32 (describe_response 0 [describe_resource (2) ''t'' [], describe_resource (4) ''0'' []]) 4 = Some (2, 8)"
    "(2::int) \<le> rd_list_cnt (rko_args example_config_req)"
    "rd_kafka_DescribeConfigsResponse_parse example_config_req (describe_response 0 [describe_resource (2) ''t'' [], describe_resource (4) ''0'' []]) = Inr [Some (ConfigResource_skel 2 ''t''), Some (ConfigResource_skel 4 ''0'')]"
    "(1::nat) < nat 2"
    "read_loop (DescribeConfigs_elem example_config_req (describe_response 0 [describe_resource (2) ''t'' [], describe_resource (4) ''0'' []])) 1 [] 8 = Inr ([Some (ConfigResource_skel 2 ''t'')], 20)"
    "DescribeConfigs_config (describe_response 0 [describe_resource (2) ''t'' [], describe_resource (4) ''0'' []]) 20 = Inr (Some (ConfigResource_skel 4 ''0''), 32)"
    "(0::nat) < nat (rd_list_index (rko_args example_config_req) (ConfigResource_skel (restype (ConfigResource_skel 4 ''0'')) (res_name (ConfigResource_skel 4 ''0''))) rd_kafka_ConfigResource_cmp)"
    "restype (rko_args example_config_req ! 0) \<noteq> restype (ConfigResource_skel 4 ''0'')"
    by code_simp+
  from elements_placed_by_key [where ?q5.0 = example_config_req and ?r5.0 = "describe_response 0 [describe_resource (2) ''t'' [], describe_resource (4) ''0'' []]" and ?t5.0 = 0 and ?o5.0 = 4 and ?n5.0 = 2 and ?p5.0 = 8 and ?rs5.0 = "[Some (ConfigResource_skel 2 ''t''), Some (ConfigResource_skel 4 ''0'')]" and ?k5.0 = 1 and ?pre5.0 = "[Some (ConfigResource_skel 2 ''t'')]" and ?a5.0 = 20 and ?c5.0 = "ConfigResource_skel 4 ''0''" and ?g5.0 = 32,
      THEN conjunct2, THEN conjunct2, THEN conjunct2, THEN conjunct2, THEN conjunct2, THEN conjunct2, THEN conjunct2, THEN conjunct2, THEN conjunct2, THEN conjunct2, THEN conjunct2, THEN conjunct1, unfolded Let_def] h_c12
  have c12:
    "0 \<le> (rd_list_index (rko_args example_config_req) (ConfigResource_skel (restype (ConfigResource_skel 4 ''0'')) (res_name (ConfigResource_skel 4 ''0''))) rd_kafka_ConfigResource_cmp)
     \<and> (rd_list_index (rko_args example_config_req) (ConfigResource_skel (restype (ConfigResource_skel 4 ''0'')) (res_name (ConfigResource_skel 4 ''0''))) rd_kafka_ConfigResource_cmp) < rd_list_cnt (rko_args example_config_req)
     \<and> restype (rko_args example_config_req ! nat (rd_list_index (rko_args example_config_req) (ConfigResource_skel (restype (ConfigResource_skel 4 ''0'')) (res_name (ConfigResource_skel 4 ''0''))) rd_kafka_ConfigResource_cmp)) = restype (ConfigResource_skel 4 ''0'')
     \<and> c_str (res_name (rko_args example_config_req ! nat (rd_list_index (rko_args example_config_req) (ConfigResource_skel (restype (ConfigResource_skel 4 ''0'')) (res_name (ConfigResource_skel 4 ''0''))) rd_kafka_ConfigResource_cmp))) = c_str (res_name (ConfigResource_skel 4 ''0''))
     \<and> rd_list_elem [Some (ConfigResource_skel 2 ''t''), Some (ConfigResource_skel 4 ''0'')] (rd_list_index (rko_args example_config_req) (ConfigResource_skel (restype (ConfigResource_skel 4 ''0'')) (res_name (ConfigResource_skel 4 ''0''))) rd_kafka_ConfigResource_cmp) = Some (ConfigResource_skel 4 ''0'')"
    by blast
  have h_c13a:
    "buf_read_i32 (describe_response 0 [describe_resource (2) ''zz'' []]) (rkbuf_offset (describe_response 0 [describe_resource (2) ''zz'' []])) = Some (0, 4)"
    "buf_read_i32 (describe_response 0 [describe_resource (2) ''zz'' []]) 4 = Some (1, 8)"
    "(1::int) \<le> rd_list_cnt (rko_args example_config_req)"
    "(0::nat) < nat 1"
    "read_loop (DescribeConfigs_elem example_config_req (describe_response 0 [describe_resource (2) ''zz'' []])) 0 [] 8 = Inr ([], 8)"
    "DescribeConfigs_config (describe_response 0 [describe_resource (2) ''zz'' []]) 8 = Inr (Some (ConfigResource_skel 2 ''zz''), 21)"
    "(rd_list_index (rko_args example_config_req) (ConfigResource_skel (restype (ConfigResource_skel 2 ''zz'')) (res_name (ConfigResource_skel 2 ''zz''))) rd_kafka_ConfigResource_cmp) = - 1"
    by code_simp+
  from elements_placed_by_key [where ?q5.0 = example_config_req and ?r5.0 = "describe_response 0 [describe_resource (2) ''zz'' []]" and ?t5.0 = 0 and ?o5.0 = 4 and ?n5.0 = 1 and ?p5.0 = 8 and ?k5.0 = 0 and ?pre5.0 = "[]" and ?a5.0 = 8 and ?d5.0 = "ConfigResource_skel 2 ''zz''" and ?h5.0 = 21,
      THEN conjunct2, THEN conjunct2, THEN conjunct2, THEN conjunct2, THEN conjunct2, THEN conjunct2, THEN conjunct2, THEN conjunct2, THEN conjunct2, THEN conjunct2, THEN conjunct2, THEN conjunct2, THEN conjunct1, unfolded Let_def] h_c13a
  have c13a:
    "rd_kafka_DescribeConfigsResponse_parse example_config_req (describe_response 0 [describe_resource (2) ''zz'' []]) = Inl (Config_destroyed_twice Not_in_request)"
    by blast
  have h_c13b:
    "buf_read_i32 (describe_response 0 [describe_resource (2) ''t'' [], describe_resource (2) ''t'' []]) (rkbuf_offset (describe_response 0 [describe_resource (2) ''t'' [], describe_resource (2) ''t'' []])) = Some (0, 4)"
    "buf_read_i32 (describe_response 0 [describe_resource (2) ''t'' [], describe_resource (2) ''t'' []]) 4 = Some (2, 8)"
    "(2::int) \<le> rd_list_cnt (rko_args example_config_req)"
    "(1::nat) < nat 2"
    "read_loop (DescribeConfigs_elem example_config_req (describe_response 0 [describe_resource (2) ''t'' [], describe_resource (2) ''t'' []])) 1 [] 8 = Inr ([Some (ConfigResource_skel 2 ''t'')], 20)"
    "DescribeConfigs_config (describe_response 0 [describe_resource (2) ''t'' [], describe_resource (2) ''t'' []]) 20 = Inr (Some (ConfigResource_skel 2 ''t''), 32)"
    "(rd_list_index (rko_args example_config_req) (ConfigResource_skel (restype (ConfigResource_skel 2 ''t'')) (res_name (ConfigResource_skel 2 ''t''))) rd_kafka_ConfigResource_cmp) \<noteq> - 1"
    "rd_list_elem [Some (ConfigResource_skel 2 ''t'')] (rd_list_index (rko_args example_config_req) (ConfigResource_skel (restype (ConfigResource_skel 2 ''t'')) (res_name (ConfigResource_skel 2 ''t''))) rd_kafka_ConfigResource_cmp) \<noteq> None"
    by code_simp+
  from elements_placed_by_key [where ?q5.0 = example_config_req and ?r5.0 = "describe_response 0 [describe_resource (2) ''t'' [], describe_resource (2) ''t'' []]" and ?t5.0 = 0 and ?o5.0 = 4 and ?n5.0 = 2 and ?p5.0 = 8 and ?k5.0 = 1 and ?pre5.0 = "[Some (ConfigResource_skel 2 ''t'')]" and ?a5.0 = 20 and ?d5.0 = "ConfigResource_skel 2 ''t''" and ?h5.0 = 32,
      THEN conjunct2, THEN conjunct2, THEN conjunct2, THEN conjunct2, THEN conjunct2, THEN conjunct2, THEN conjunct2, THEN conjunct2, THEN conjunct2, THEN conjunct2, THEN conjunct2, THEN conjunct2, THEN conjunct1, unfolded Let_def] h_c13b
  have c13b:
    "rd_kafka_DescribeConfigsResponse_parse example_config_req (describe_response 0 [describe_resource (2) ''t'' [], describe_resource (2) ''t'' []]) = Inl (Config_destroyed_twice Multiple_times)"
    by blast
  have h_c13c:
    "buf_read_i32 (example_describe_reply 0 []) (rkbuf_offset (example_describe_reply 0 [])) = Some (0, 4)"
    "buf_read_i32 (example_describe_reply 0 []) 4 = Some (1, 8)"
    "(1::int) \<le> rd_list_cnt (rko_args example_config_req)"
    "(0::nat) < nat 1"
    "read_loop (DescribeConfigs_elem example_config_req (example_describe_reply 0 [])) 0 [] 8 = Inr ([], 8)"
    "DescribeConfigs_config (example_describe_reply 0 []) 8 = Inr (Some ((ConfigResource_skel 2 ''t'')\<lparr>config := [(ConfigEntry ''retention.ms'' (Some ''1'') \<lparr>source = 5, is_readonly = False, is_default = True, is_sensitive = False, is_synonym = False\<rparr> [])]\<rparr>), 40)"
    "(rd_list_index (rko_args example_config_req) (ConfigResource_skel (restype ((ConfigResource_skel 2 ''t'')\<lparr>config := [(ConfigEntry ''retention.ms'' (Some ''1'') \<lparr>source = 5, is_readonly = False, is_default = True, is_sensitive = False, is_synonym = False\<rparr> [])]\<rparr>)) (res_name ((ConfigResource_skel 2 ''t'')\<lparr>config := [(ConfigEntry ''retention.ms'' (Some ''1'') \<lparr>source = 5, is_readonly = False, is_default = True, is_sensitive = False, is_synonym = False\<rparr> [])]\<rparr>))) rd_kafka_ConfigResource_cmp) \<noteq> - 1"
    "rd_list_elem [] (rd_list_index (rko_args example_config_req) (ConfigResource_skel (restype ((ConfigResource_skel 2 ''t'')\<lparr>config := [(ConfigEntry ''retention.ms'' (Some ''1'') \<lparr>source = 5, is_readonly = False, is_default = True, is_sensitive = False, is_synonym = False\<rparr> [])]\<rparr>)) (res_name ((ConfigResource_skel 2 ''t'')\<lparr>config := [(ConfigEntry ''retention.ms'' (Some ''1'') \<lparr>source = 5, is_readonly = False, is_default = True, is_sensitive = False, is_synonym = False\<rparr> [])]\<rparr>))) rd_kafka_ConfigResource_cmp) = None"
    by code_simp+
  from elements_placed_by_key [where ?q5.0 = example_config_req and ?r5.0 = "example_describe_reply 0 []" and ?t5.0 = 0 and ?o5.0 = 4 and ?n5.0 = 1 and ?p5.0 = 8 and ?k5.0 = 0 and ?pre5.0 = "[]" and ?a5.0 = 8 and ?d5.0 = "(ConfigResource_skel 2 ''t'')\<lparr>config := [(ConfigEntry ''retention.ms'' (Some ''1'') \<lparr>source = 5, is_readonly = False, is_default = True, is_sensitive = False, is_synonym = False\<rparr> [])]\<rparr>" and ?h5.0 = 40,
      THEN conjunct2, THEN conjunct2, THEN conjunct2, THEN conjunct2, THEN conjunct2, THEN conjunct2, THEN conjunct2, THEN conjunct2, THEN conjunct2, THEN conjunct2, THEN conjunct2, THEN conjunct2, THEN conjunct1, unfolded Let_def] h_c13c
  have c13c:
    "read_loop (DescribeConfigs_elem example_config_req (example_describe_reply 0 [])) (Suc 0) [] 8 = Inr (rd_list_set [] (rd_list_index (rko_args example_config_req) (ConfigResource_skel (restype ((ConfigResource_skel 2 ''t'')\<lparr>config := [(ConfigEntry ''retention.ms'' (Some ''1'') \<lparr>source = 5, is_readonly = False, is_default = True, is_sensitive = False, is_synonym = False\<rparr> [])]\<rparr>)) (res_name ((ConfigResource_skel 2 ''t'')\<lparr>config := [(ConfigEntry ''retention.ms'' (Some ''1'') \<lparr>source = 5, is_readonly = False, is_default = True, is_sensitive = False, is_synonym = False\<rparr> [])]\<rparr>))) rd_kafka_ConfigResource_cmp) ((ConfigResource_skel 2 ''t'')\<lparr>config := [(ConfigEntry ''retention.ms'' (Some ''1'') \<lparr>source = 5, is_readonly = False, is_default = True, is_sensitive = False, is_synonym = False\<rparr> [])]\<rparr>), 40)"
    by blast
  have h_c14:
    "read_loop (DescribeConfigs_elem example_config_req (describe_response 0 [describe_resource (- 1) ''x'' [], describe_resource (2) ''t'' []])) 0 [] 8 = Inr ([], 8)"
    "DescribeConfigs_head (describe_response 0 [describe_resource (- 1) ''x'' [], describe_resource (2) ''t'' []]) 8 = Inr ((0, None, - 1, Some ''x''), 16)"
    "(- 1::int) < 0"
    by code_simp+
  from elements_placed_by_key [where ?q5.0 = example_config_req and ?r5.0 = "describe_response 0 [describe_resource (- 1) ''x'' [], describe_resource (2) ''t'' []]" and ?k5.0 = 0 and ?pre5.0 = "[]" and ?a5.0 = 8 and ?e5.0 = 0 and ?m5.0 = None and ?ty5.0 = "- 1" and ?nm5.0 = "Some ''x''" and ?b5.0 = 16,
      THEN conjunct2, THEN conjunct2, THEN conjunct2, THEN conjunct2, THEN conjunct2, THEN conjunct2, THEN conjunct2, THEN conjunct2, THEN conjunct2, THEN conjunct2, THEN conjunct2, THEN conjunct2, THEN conjunct2, unfolded Let_def] h_c14
  have c14:
    "read_loop (DescribeConfigs_elem example_config_req (describe_response 0 [describe_resource (- 1) ''x'' [], describe_resource (2) ''t'' []])) (Suc 0) [] 8 = Inr ([], 16)"
    by blast
  show ?thesis
    by (intro conjI) (use h_c1 c1 h_c2 c2 h_c3 c3 h_c4a c4a h_c4b c4b h_c4c c4c h_c5 c5 h_c6 c6 h_c7 c7 h_c7x c7x h_c8 c8 h_c9 c9 h_c10 c10 h_c11 c11 h_c11b c11b h_c12 c12 h_c13a c13a h_c13b c13b h_c13c c13c h_c14 c14 in \<open>blast+\<close>)
qed

theorem elements_placed_counterexample:
  "rd_kafka_AlterConfigsResponse_parse example_config_req (example_alter_reply [(- 1, ''x'')])
     = Inr []
   \<and> rd_list_index (rko_args example_config_req) (ConfigResource_skel (- 1) ''x'')
        rd_kafka_ConfigResource_cmp = - 1"
  by code_simp

subsection \<open>Config entries of DescribeConfigs\<close>

lemma new0_attributes:
  assumes "rd_kafka_ConfigEntry_new0 nm vl = Some en"
  shows "\<not> is_default (ce_a en) \<and> source (ce_a en) \<noteq> RD_KAFKA_CONFIG_SOURCE_DEFAULT_CONFIG
         \<and> synonyms en = []"
  using assms
  by (auto simp: rd_kafka_ConfigEntry_new0_def ConfigEntry_a_zero_def
      RD_KAFKA_CONFIG_SOURCE_DEFAULT_CONFIG_def RD_KAFKA_CONFIG_SOURCE_UNKNOWN_CONFIG_def
      split: option.splits)

lemma default_or_source_consistent:
  assumes "DescribeConfigs_default_or_source r a p = Inr (a2, p')"
    and "\<not> is_default a" and "source a \<noteq> RD_KAFKA_CONFIG_SOURCE_DEFAULT_CONFIG"
  shows "source a2 = RD_KAFKA_CONFIG_SOURCE_DEFAULT_CONFIG \<longleftrightarrow> is_default a2"
  using assms
  by (auto simp: DescribeConfigs_default_or_source_def and_then_def rd_kafka_buf_read_def Let_def
      split: if_splits option.splits)

lemma default_or_source_reads:
  "rkbuf_ApiVersion r = 0 \<Longrightarrow> buf_read_bool r p = Some (d, p') \<Longrightarrow>
     DescribeConfigs_default_or_source r a p =
       Inr (if d then a\<lparr>is_default := True, source := RD_KAFKA_CONFIG_SOURCE_DEFAULT_CONFIG\<rparr>
            else a\<lparr>is_default := False\<rparr>, p')"
  "rkbuf_ApiVersion r \<noteq> 0 \<Longrightarrow> buf_read_i8 r p = Some (s, p') \<Longrightarrow>
     DescribeConfigs_default_or_source r a p =
       Inr (if s = RD_KAFKA_CONFIG_SOURCE_DEFAULT_CONFIG
            then a\<lparr>source := s, is_default := True\<rparr> else a\<lparr>source := s\<rparr>, p')"
  by (simp_all add: DescribeConfigs_default_or_source_def and_then_def rd_kafka_buf_read_def
      Let_def)

lemma synonym_step:
  assumes "DescribeConfigs_synonym r syns pos = Inr (syns', pos')"
  shows "\<exists>s. syns' = syns @ [s] \<and> is_synonym (ce_a s) \<and> \<not> is_default (ce_a s)
              \<and> synonyms s = []
              \<and> (\<forall>nm p1 vl p2 src p3. buf_read_str r pos = Some (nm, p1)
                    \<and> buf_read_str r p1 = Some (vl, p2) \<and> buf_read_i8 r p2 = Some (src, p3)
                    \<longrightarrow> source (ce_a s) = src)"
proof -
  from assms obtain nm p1 where nm: "buf_read_str r pos = Some (nm, p1)"
    by (cases "buf_read_str r pos")
      (auto simp: DescribeConfigs_synonym_def and_then_def rd_kafka_buf_read_def)
  from assms obtain vl p2 where vl: "buf_read_str r p1 = Some (vl, p2)"
    by (cases "buf_read_str r p1")
      (auto simp: DescribeConfigs_synonym_def and_then_def rd_kafka_buf_read_def nm)
  from assms obtain src p3 where src: "buf_read_i8 r p2 = Some (src, p3)"
    by (cases "buf_read_i8 r p2")
      (auto simp: DescribeConfigs_synonym_def and_then_def rd_kafka_buf_read_def nm vl)
  from assms obtain en where en: "rd_kafka_ConfigEntry_new0 nm vl = Some en"
    by (cases "rd_kafka_ConfigEntry_new0 nm vl")
      (auto simp: DescribeConfigs_synonym_def and_then_def rd_kafka_buf_read_def nm vl src)
  from assms have s: "syns' = syns @ [ConfigEntry (kv_name en) (kv_value en)
      ((ce_a en)\<lparr>source := src, is_synonym := True\<rparr>) (synonyms en)]"
    by (simp add: DescribeConfigs_synonym_def and_then_def rd_kafka_buf_read_def nm vl src en)
  from new0_attributes [OF en] show ?thesis
    by (simp add: s nm vl src)
qed

lemma synonyms_loop:
  assumes "read_loop (DescribeConfigs_synonym r) n [] pos = Inr (syns, pos')"
  shows "\<forall>s \<in> set syns. is_synonym (ce_a s) \<and> \<not> is_default (ce_a s)"
proof (rule read_loop_invariant [OF assms,
      where I = "\<lambda>a. \<forall>s \<in> set a. is_synonym (ce_a s) \<and> \<not> is_default (ce_a s)"])
  show "\<forall>s \<in> set []. is_synonym (ce_a s) \<and> \<not> is_default (ce_a s)" by simp
next
  fix a p b p'
  assume inv: "\<forall>s \<in> set a. is_synonym (ce_a s) \<and> \<not> is_default (ce_a s)"
    and st: "DescribeConfigs_synonym r a p = Inr (b, p')"
  from synonym_step [OF st] obtain s where "b = a @ [s]"
    and "is_synonym (ce_a s)" and "\<not> is_default (ce_a s)" by blast
  with inv show "\<forall>s \<in> set b. is_synonym (ce_a s) \<and> \<not> is_default (ce_a s)" by auto
qed

text \<open>What an entry that was read is made of.\<close>

lemma entry_parts:
  assumes "DescribeConfigs_entry r pos = Inr (e, pos')"
  shows "\<exists>nm p1 vl p2 ro p3 en a2 p4 sens p5 cnt p6.
           buf_read_str r pos = Some (nm, p1) \<and> buf_read_str r p1 = Some (vl, p2)
           \<and> buf_read_bool r p2 = Some (ro, p3)
           \<and> rd_kafka_ConfigEntry_new0 nm vl = Some en
           \<and> DescribeConfigs_default_or_source r ((ce_a en)\<lparr>is_readonly := ro\<rparr>) p3
               = Inr (a2, p4)
           \<and> buf_read_bool r p4 = Some (sens, p5)
           \<and> read_loop (DescribeConfigs_synonym r) (nat cnt) [] p6 = Inr (synonyms e, pos')
           \<and> ce_a e = a2\<lparr>is_sensitive := sens\<rparr>"
proof -
  note d = DescribeConfigs_entry_def and_then_def rd_kafka_buf_read_def
  from assms obtain nm p1 where nm: "buf_read_str r pos = Some (nm, p1)"
    by (cases "buf_read_str r pos") (auto simp: d)
  from assms obtain vl p2 where vl: "buf_read_str r p1 = Some (vl, p2)"
    by (cases "buf_read_str r p1") (auto simp: d nm)
  from assms obtain ro p3 where ro: "buf_read_bool r p2 = Some (ro, p3)"
    by (cases "buf_read_bool r p2") (auto simp: d nm vl)
  from assms obtain en where en: "rd_kafka_ConfigEntry_new0 nm vl = Some en"
    by (cases "rd_kafka_ConfigEntry_new0 nm vl") (auto simp: d nm vl ro)
  from assms obtain a2 p4 where
    a2: "DescribeConfigs_default_or_source r ((ce_a en)\<lparr>is_readonly := ro\<rparr>) p3 = Inr (a2, p4)"
    by (cases "DescribeConfigs_default_or_source r ((ce_a en)\<lparr>is_readonly := ro\<rparr>) p3")
      (auto simp: DescribeConfigs_entry_def and_then_def [of "Inl _"]
        and_then_def [of "Inr _"] rd_kafka_buf_read_def nm vl ro en)
  from assms obtain sens p5 where sens: "buf_read_bool r p4 = Some (sens, p5)"
    by (cases "buf_read_bool r p4") (auto simp: d nm vl ro en a2)
  from assms obtain cnt p6 where cnt: "DescribeConfigs_syn_cnt r p5 = Inr (cnt, p6)"
    by (cases "DescribeConfigs_syn_cnt r p5") (auto simp: d nm vl ro en a2 sens)
  from assms obtain syns where
    l: "read_loop (DescribeConfigs_synonym r) (nat cnt) (synonyms en) p6 = Inr (syns, pos')"
    and e: "e = ConfigEntry (kv_name en) (kv_value en) (a2\<lparr>is_sensitive := sens\<rparr>) syns"
    by (cases "read_loop (DescribeConfigs_synonym r) (nat cnt) (synonyms en) p6")
      (auto simp: d nm vl ro en a2 sens cnt)
  from new0_attributes [OF en] have "synonyms en = []" by simp
  with l e nm vl ro en a2 sens show ?thesis by auto
qed

lemma entry_consistent:
  assumes "DescribeConfigs_entry r pos = Inr (e, pos')"
  shows "(source (ce_a e) = RD_KAFKA_CONFIG_SOURCE_DEFAULT_CONFIG \<longleftrightarrow> is_default (ce_a e))
         \<and> (\<forall>s \<in> set (synonyms e). is_synonym (ce_a s) \<and> \<not> is_default (ce_a s))"
proof -
  from entry_parts [OF assms] obtain nm vl ro p3 en a2 p4 sens cnt p6 where
    en: "rd_kafka_ConfigEntry_new0 nm vl = Some en"
    and a2: "DescribeConfigs_default_or_source r ((ce_a en)\<lparr>is_readonly := ro\<rparr>) p3
               = Inr (a2, p4)"
    and l: "read_loop (DescribeConfigs_synonym r) (nat cnt) [] p6 = Inr (synonyms e, pos')"
    and e: "ce_a e = a2\<lparr>is_sensitive := sens\<rparr>"
    by blast
  from new0_attributes [OF en] default_or_source_consistent [OF a2]
  have "source a2 = RD_KAFKA_CONFIG_SOURCE_DEFAULT_CONFIG \<longleftrightarrow> is_default a2" by simp
  with synonyms_loop [OF l] show ?thesis by (simp add: e)
qed

lemma entry_of_reads:
  assumes "DescribeConfigs_entry r pos = Inr (e, pos')"
    and "buf_read_str r pos = Some (nm, p1)" and "buf_read_str r p1 = Some (vl, p2)"
    and "buf_read_bool r p2 = Some (ro, p3)"
  shows "(rkbuf_ApiVersion r = 0 \<and> buf_read_bool r p3 = Some (True, p4) \<longrightarrow>
            source (ce_a e) = RD_KAFKA_CONFIG_SOURCE_DEFAULT_CONFIG \<and> is_default (ce_a e))
       \<and> (rkbuf_ApiVersion r \<noteq> 0
            \<and> buf_read_i8 r p3 = Some (RD_KAFKA_CONFIG_SOURCE_DEFAULT_CONFIG, p4) \<longrightarrow>
            source (ce_a e) = RD_KAFKA_CONFIG_SOURCE_DEFAULT_CONFIG \<and> is_default (ce_a e))"
proof -
  from entry_parts [OF assms(1)] assms(2-4) obtain en a2 q4 sens where
    a2: "DescribeConfigs_default_or_source r ((ce_a en)\<lparr>is_readonly := ro\<rparr>) p3
               = Inr (a2, q4)"
    and e: "ce_a e = a2\<lparr>is_sensitive := sens\<rparr>"
    by auto
  show ?thesis
    using a2 default_or_source_reads(1) [of r p3 True p4 "(ce_a en)\<lparr>is_readonly := ro\<rparr>"]
      default_or_source_reads(2) [of r p3 RD_KAFKA_CONFIG_SOURCE_DEFAULT_CONFIG p4
        "(ce_a en)\<lparr>is_readonly := ro\<rparr>"]
    by (auto simp: e)
qed

lemma config_entries_consistent:
  assumes "DescribeConfigs_config r pos = Inr (Some c, p)" and "e \<in> set (config c)"
  shows "(source (ce_a e) = RD_KAFKA_CONFIG_SOURCE_DEFAULT_CONFIG \<longleftrightarrow> is_default (ce_a e))
         \<and> (\<forall>s \<in> set (synonyms e). is_synonym (ce_a s) \<and> \<not> is_default (ce_a s))"
proof -
  let ?I = "\<lambda>a. \<forall>e \<in> set (config a).
      (source (ce_a e) = RD_KAFKA_CONFIG_SOURCE_DEFAULT_CONFIG \<longleftrightarrow> is_default (ce_a e))
      \<and> (\<forall>s \<in> set (synonyms e). is_synonym (ce_a s) \<and> \<not> is_default (ce_a s))"
  from assms(1) obtain hd b where hd: "DescribeConfigs_head r pos = Inr (hd, b)"
    by (cases "DescribeConfigs_head r pos")
      (auto simp: DescribeConfigs_config_def and_then_def)
  obtain er m ty nm where h: "hd = (er, m, ty, nm)" by (cases hd)
  let ?c0 = "\<lparr>restype = ty, res_name = RD_KAFKAP_STR_DUPA nm, config = [],
              res_err = er, res_errstr = element_errstr er m\<rparr>"
  from assms(1) obtain cnt p5 where
    l: "read_loop (DescribeConfigs_add_entry r) (nat cnt) ?c0 p5 = Inr (c, p)"
    by (auto simp: DescribeConfigs_config_head [OF hd [unfolded h]] and_then_def
        split: sum.splits prod.splits if_splits)
  have "?I c"
  proof (rule read_loop_invariant [OF l, where I = ?I])
    show "?I ?c0" by simp
  next
    fix a p b p'
    assume a: "?I a" and s: "DescribeConfigs_add_entry r a p = Inr (b, p')"
    from s obtain en where en: "DescribeConfigs_entry r p = Inr (en, p')"
      and b: "b = a\<lparr>config := config a @ [en]\<rparr>"
      by (auto simp: DescribeConfigs_add_entry_def and_then_def split: sum.splits prod.splits)
    from entry_consistent [OF en] a show "?I b" by (auto simp: b)
  qed
  with assms(2) show ?thesis by blast
qed

lemma rd_list_set_subset:
  "0 \<le> pos \<Longrightarrow> set (rd_list_set rs pos r) \<subseteq> insert None (insert (Some r) (set rs))"
  by (auto simp: rd_list_set_def dest: set_update_subset_insert [THEN subsetD])

lemma parsed_results_from_configs:
  assumes "read_loop (DescribeConfigs_elem q r) n [] pos = Inr (rs, p)" and "Some c \<in> set rs"
  shows "\<exists>a g. DescribeConfigs_config r a = Inr (Some c, g)"
proof -
  let ?I = "\<lambda>x. \<forall>c. Some c \<in> set x \<longrightarrow> (\<exists>a g. DescribeConfigs_config r a = Inr (Some c, g))"
  have "?I rs"
  proof (rule read_loop_invariant [OF assms(1), where I = ?I])
    show "?I []" by simp
  next
    fix a p b p'
    assume inv: "?I a" and st: "DescribeConfigs_elem q r a p = Inr (b, p')"
    from DescribeConfigs_elem_cases [OF st] show "?I b"
    proof
      assume "DescribeConfigs_config r p = Inr (None, p') \<and> b = a"
      with inv show ?thesis by simp
    next
      assume "\<exists>cfg. DescribeConfigs_config r p = Inr (Some cfg, p')
              \<and> result_list_place (rko_args q) (ConfigResource_skel (restype cfg) (res_name cfg))
                    rd_kafka_ConfigResource_cmp a cfg = Inr b"
      then obtain cfg where cfg: "DescribeConfigs_config r p = Inr (Some cfg, p')"
        and pl: "result_list_place (rko_args q) (ConfigResource_skel (restype cfg) (res_name cfg))
                    rd_kafka_ConfigResource_cmp a cfg = Inr b"
        by blast
      let ?pos = "rd_list_index (rko_args q) (ConfigResource_skel (restype cfg) (res_name cfg))
          rd_kafka_ConfigResource_cmp"
      from place_Inr [OF pl] have ne: "?pos \<noteq> - 1" and b: "b = rd_list_set a ?pos cfg" by auto
      from rd_list_index_found [OF ne] have "0 \<le> ?pos" by simp
      from rd_list_set_subset [OF this, of a cfg]
      have "set b \<subseteq> insert None (insert (Some cfg) (set a))" by (simp add: b)
      with inv cfg show ?thesis by auto
    qed
  qed
  with assms(2) show ?thesis by blast
qed

text \<open>
  Claim C5, in the form that holds of the code. For every entry that
  \<^verbatim>\<open>rd_kafka_DescribeConfigsResponse_parse\<close> reads for the config list of a resource:
  its source is \<^verbatim>\<open>DEFAULT_CONFIG\<close> exactly when it is a default; an entry of a v0
  response read with \<open>is_default\<close> true has the source \<^verbatim>\<open>DEFAULT_CONFIG\<close>; an entry of
  a later response whose source tag is \<^verbatim>\<open>DEFAULT_CONFIG\<close> is a default. So every
  entry in the config list of every parsed resource has source \<^verbatim>\<open>DEFAULT_CONFIG\<close>
  exactly when \<^verbatim>\<open>rd_kafka_ConfigEntry_is_default\<close> holds of it. A synonym is read
  differently: the synonym the parser appends to the synonyms of an entry has
  the source that was read from the wire, whatever it is, is marked as a
  synonym, and is not a default; so every synonym of every entry of every
  parsed resource is marked as a synonym and is not a default.
\<close>

theorem describe_configs_default_consistent:
  "(DescribeConfigs_entry r pos = Inr (e, pos') \<longrightarrow>
      (source (ce_a e) = RD_KAFKA_CONFIG_SOURCE_DEFAULT_CONFIG \<longleftrightarrow> is_default (ce_a e)))
   \<and> (DescribeConfigs_entry r pos = Inr (e, pos')
        \<and> buf_read_str r pos = Some (nm, p1) \<and> buf_read_str r p1 = Some (vl, p2)
        \<and> buf_read_bool r p2 = Some (ro, p3)
        \<and> rkbuf_ApiVersion r = 0 \<and> buf_read_bool r p3 = Some (True, p4) \<longrightarrow>
      source (ce_a e) = RD_KAFKA_CONFIG_SOURCE_DEFAULT_CONFIG \<and> is_default (ce_a e))
   \<and> (DescribeConfigs_entry r pos = Inr (e, pos')
        \<and> buf_read_str r pos = Some (nm, p1) \<and> buf_read_str r p1 = Some (vl, p2)
        \<and> buf_read_bool r p2 = Some (ro, p3)
        \<and> rkbuf_ApiVersion r \<noteq> 0
        \<and> buf_read_i8 r p3 = Some (RD_KAFKA_CONFIG_SOURCE_DEFAULT_CONFIG, p4) \<longrightarrow>
      source (ce_a e) = RD_KAFKA_CONFIG_SOURCE_DEFAULT_CONFIG \<and> is_default (ce_a e))
   \<and> (DescribeConfigs_synonym r syns pos = Inr (syns', pos')
        \<and> buf_read_str r pos = Some (nm, p1) \<and> buf_read_str r p1 = Some (vl, p2)
        \<and> buf_read_i8 r p2 = Some (src, p3) \<longrightarrow>
      butlast syns' = syns \<and> syns' \<noteq> []
      \<and> rd_kafka_ConfigEntry_source (last syns') = src
      \<and> \<not> rd_kafka_ConfigEntry_is_default (last syns')
      \<and> is_synonym (ce_a (last syns')))
   \<and> (rd_kafka_DescribeConfigsResponse_parse q r = Inr rs \<and> Some c \<in> set rs
        \<and> e' \<in> set (config c) \<longrightarrow>
      (rd_kafka_ConfigEntry_source e' = RD_KAFKA_CONFIG_SOURCE_DEFAULT_CONFIG
         \<longleftrightarrow> rd_kafka_ConfigEntry_is_default e')
      \<and> (\<forall>s \<in> set (synonyms e').
            is_synonym (ce_a s) \<and> \<not> rd_kafka_ConfigEntry_is_default s))"
proof (intro conjI impI)
  assume "DescribeConfigs_entry r pos = Inr (e, pos')"
  from entry_consistent [OF this]
  show "source (ce_a e) = RD_KAFKA_CONFIG_SOURCE_DEFAULT_CONFIG \<longleftrightarrow> is_default (ce_a e)"
    by simp
next
  assume a: "DescribeConfigs_entry r pos = Inr (e, pos')
        \<and> buf_read_str r pos = Some (nm, p1) \<and> buf_read_str r p1 = Some (vl, p2)
        \<and> buf_read_bool r p2 = Some (ro, p3)
        \<and> rkbuf_ApiVersion r = 0 \<and> buf_read_bool r p3 = Some (True, p4)"
  then have "DescribeConfigs_entry r pos = Inr (e, pos')" "buf_read_str r pos = Some (nm, p1)"
    "buf_read_str r p1 = Some (vl, p2)" "buf_read_bool r p2 = Some (ro, p3)" by simp_all
  from entry_of_reads [OF this, of p4] a
  show "source (ce_a e) = RD_KAFKA_CONFIG_SOURCE_DEFAULT_CONFIG"
    and "is_default (ce_a e)" by simp_all
next
  assume a: "DescribeConfigs_entry r pos = Inr (e, pos')
        \<and> buf_read_str r pos = Some (nm, p1) \<and> buf_read_str r p1 = Some (vl, p2)
        \<and> buf_read_bool r p2 = Some (ro, p3)
        \<and> rkbuf_ApiVersion r \<noteq> 0
        \<and> buf_read_i8 r p3 = Some (RD_KAFKA_CONFIG_SOURCE_DEFAULT_CONFIG, p4)"
  then have "DescribeConfigs_entry r pos = Inr (e, pos')" "buf_read_str r pos = Some (nm, p1)"
    "buf_read_str r p1 = Some (vl, p2)" "buf_read_bool r p2 = Some (ro, p3)" by simp_all
  from entry_of_reads [OF this, of p4] a
  show "source (ce_a e) = RD_KAFKA_CONFIG_SOURCE_DEFAULT_CONFIG"
    and "is_default (ce_a e)" by simp_all
next
  assume a: "DescribeConfigs_synonym r syns pos = Inr (syns', pos')
        \<and> buf_read_str r pos = Some (nm, p1) \<and> buf_read_str r p1 = Some (vl, p2)
        \<and> buf_read_i8 r p2 = Some (src, p3)"
  then have "DescribeConfigs_synonym r syns pos = Inr (syns', pos')" by simp
  from synonym_step [OF this] a obtain s where s: "syns' = syns @ [s]"
    and p: "is_synonym (ce_a s)" "\<not> is_default (ce_a s)" "source (ce_a s) = src"
    by blast
  show "butlast syns' = syns" and "syns' \<noteq> []"
    and "rd_kafka_ConfigEntry_source (last syns') = src"
    and "\<not> rd_kafka_ConfigEntry_is_default (last syns')"
    and "is_synonym (ce_a (last syns'))"
    using p by (simp_all add: s rd_kafka_ConfigEntry_source_def rd_kafka_ConfigEntry_is_default_def)
next
  assume a: "rd_kafka_DescribeConfigsResponse_parse q r = Inr rs \<and> Some c \<in> set rs
        \<and> e' \<in> set (config c)"
  then have "rd_kafka_DescribeConfigsResponse_parse q r = Inr rs" by simp
  from parsed_describe [OF this] obtain n p2 p
    where "read_loop (DescribeConfigs_elem q r) (nat n) [] p2 = Inr (rs, p)" by blast
  from parsed_results_from_configs [OF this] a obtain x g
    where "DescribeConfigs_config r x = Inr (Some c, g)" by blast
  from config_entries_consistent [OF this, of e'] a
  show "rd_kafka_ConfigEntry_source e' = RD_KAFKA_CONFIG_SOURCE_DEFAULT_CONFIG
         \<longleftrightarrow> rd_kafka_ConfigEntry_is_default e'"
    and "\<forall>s \<in> set (synonyms e').
            is_synonym (ce_a s) \<and> \<not> rd_kafka_ConfigEntry_is_default s"
    by (simp_all add: rd_kafka_ConfigEntry_source_def rd_kafka_ConfigEntry_is_default_def)
qed

theorem describe_configs_default_consistent_witness:
  "rkbuf_ApiVersion (example_describe_reply 0 []) = 0
   \<and> DescribeConfigs_entry (example_describe_reply 0 []) 20 = Inr ((ConfigEntry ''retention.ms'' (Some ''1'') \<lparr>source = 5, is_readonly = False, is_default = True, is_sensitive = False, is_synonym = False\<rparr> []), 40)
   \<and> buf_read_str (example_describe_reply 0 []) 20 = Some (Some ''retention.ms'', 34)
   \<and> buf_read_str (example_describe_reply 0 []) 34 = Some (Some ''1'', 37)
   \<and> buf_read_bool (example_describe_reply 0 []) 37 = Some (False, 38)
   \<and> buf_read_bool (example_describe_reply 0 []) 38 = Some (True, 39)
   \<and> source (ce_a (ConfigEntry ''retention.ms'' (Some ''1'') \<lparr>source = 5, is_readonly = False, is_default = True, is_sensitive = False, is_synonym = False\<rparr> [])) = RD_KAFKA_CONFIG_SOURCE_DEFAULT_CONFIG
   \<and> is_default (ce_a (ConfigEntry ''retention.ms'' (Some ''1'') \<lparr>source = 5, is_readonly = False, is_default = True, is_sensitive = False, is_synonym = False\<rparr> []))
   \<and> rkbuf_ApiVersion (example_describe_reply 1 [\<lparr>ws_name = Some ''log.retention.ms'', ws_value = Some ''1'', ws_source = 5\<rparr>]) \<noteq> 0
   \<and> DescribeConfigs_entry (example_describe_reply 1 [\<lparr>ws_name = Some ''log.retention.ms'', ws_value = Some ''1'', ws_source = 5\<rparr>]) 20 = Inr ((ConfigEntry ''retention.ms'' (Some ''1'') \<lparr>source = 5, is_readonly = False, is_default = True, is_sensitive = False, is_synonym = False\<rparr> [(ConfigEntry ''log.retention.ms'' (Some ''1'') \<lparr>source = 5, is_readonly = False, is_default = False, is_sensitive = False, is_synonym = True\<rparr> [])]), 66)
   \<and> buf_read_str (example_describe_reply 1 [\<lparr>ws_name = Some ''log.retention.ms'', ws_value = Some ''1'', ws_source = 5\<rparr>]) 20 = Some (Some ''retention.ms'', 34)
   \<and> buf_read_str (example_describe_reply 1 [\<lparr>ws_name = Some ''log.retention.ms'', ws_value = Some ''1'', ws_source = 5\<rparr>]) 34 = Some (Some ''1'', 37)
   \<and> buf_read_bool (example_describe_reply 1 [\<lparr>ws_name = Some ''log.retention.ms'', ws_value = Some ''1'', ws_source = 5\<rparr>]) 37 = Some (False, 38)
   \<and> buf_read_i8 (example_describe_reply 1 [\<lparr>ws_name = Some ''log.retention.ms'', ws_value = Some ''1'', ws_source = 5\<rparr>]) 38 = Some (RD_KAFKA_CONFIG_SOURCE_DEFAULT_CONFIG, 39)
   \<and> source (ce_a (ConfigEntry ''retention.ms'' (Some ''1'') \<lparr>source = 5, is_readonly = False, is_default = True, is_sensitive = False, is_synonym = False\<rparr> [(ConfigEntry ''log.retention.ms'' (Some ''1'') \<lparr>source = 5, is_readonly = False, is_default = False, is_sensitive = False, is_synonym = True\<rparr> [])])) = RD_KAFKA_CONFIG_SOURCE_DEFAULT_CONFIG
   \<and> is_default (ce_a (ConfigEntry ''retention.ms'' (Some ''1'') \<lparr>source = 5, is_readonly = False, is_default = True, is_sensitive = False, is_synonym = False\<rparr> [(ConfigEntry ''log.retention.ms'' (Some ''1'') \<lparr>source = 5, is_readonly = False, is_default = False, is_sensitive = False, is_synonym = True\<rparr> [])]))
   \<and> DescribeConfigs_synonym (example_describe_reply 1 [\<lparr>ws_name = Some ''log.retention.ms'', ws_value = Some ''1'', ws_source = 5\<rparr>]) [] 44 = Inr ([(ConfigEntry ''log.retention.ms'' (Some ''1'') \<lparr>source = 5, is_readonly = False, is_default = False, is_sensitive = False, is_synonym = True\<rparr> [])], 66)
   \<and> buf_read_str (example_describe_reply 1 [\<lparr>ws_name = Some ''log.retention.ms'', ws_value = Some ''1'', ws_source = 5\<rparr>]) 44 = Some (Some ''log.retention.ms'', 62)
   \<and> buf_read_str (example_describe_reply 1 [\<lparr>ws_name = Some ''log.retention.ms'', ws_value = Some ''1'', ws_source = 5\<rparr>]) 62 = Some (Some ''1'', 65)
   \<and> buf_read_i8 (example_describe_reply 1 [\<lparr>ws_name = Some ''log.retention.ms'', ws_value = Some ''1'', ws_source = 5\<rparr>]) 65 = Some (5, 66)
   \<and> butlast [(ConfigEntry ''log.retention.ms'' (Some ''1'') \<lparr>source = 5, is_readonly = False, is_default = False, is_sensitive = False, is_synonym = True\<rparr> [])] = []
   \<and> rd_kafka_ConfigEntry_source (last [(ConfigEntry ''log.retention.ms'' (Some ''1'') \<lparr>source = 5, is_readonly = False, is_default = False, is_sensitive = False, is_synonym = True\<rparr> [])]) = 5
   \<and> \<not> rd_kafka_ConfigEntry_is_default (last [(ConfigEntry ''log.retention.ms'' (Some ''1'') \<lparr>source = 5, is_readonly = False, is_default = False, is_sensitive = False, is_synonym = True\<rparr> [])])
   \<and> is_synonym (ce_a (last [(ConfigEntry ''log.retention.ms'' (Some ''1'') \<lparr>source = 5, is_readonly = False, is_default = False, is_sensitive = False, is_synonym = True\<rparr> [])]))
   \<and> rd_kafka_DescribeConfigsResponse_parse example_config_req (example_describe_reply 1 [\<lparr>ws_name = Some ''log.retention.ms'', ws_value = Some ''1'', ws_source = 5\<rparr>]) = Inr [Some ((ConfigResource_skel 2 ''t'')\<lparr>config := [(ConfigEntry ''retention.ms'' (Some ''1'') \<lparr>source = 5, is_readonly = False, is_default = True, is_sensitive = False, is_synonym = False\<rparr> [(ConfigEntry ''log.retention.ms'' (Some ''1'') \<lparr>source = 5, is_readonly = False, is_default = False, is_sensitive = False, is_synonym = True\<rparr> [])])]\<rparr>)]
   \<and> Some ((ConfigResource_skel 2 ''t'')\<lparr>config := [(ConfigEntry ''retention.ms'' (Some ''1'') \<lparr>source = 5, is_readonly = False, is_default = True, is_sensitive = False, is_synonym = False\<rparr> [(ConfigEntry ''log.retention.ms'' (Some ''1'') \<lparr>source = 5, is_readonly = False, is_default = False, is_sensitive = False, is_synonym = True\<rparr> [])])]\<rparr>) \<in> set [Some ((ConfigResource_skel 2 ''t'')\<lparr>config := [(ConfigEntry ''retention.ms'' (Some ''1'') \<lparr>source = 5, is_readonly = False, is_default = True, is_sensitive = False, is_synonym = False\<rparr> [(ConfigEntry ''log.retention.ms'' (Some ''1'') \<lparr>source = 5, is_readonly = False, is_default = False, is_sensitive = False, is_synonym = True\<rparr> [])])]\<rparr>)]
   \<and> (ConfigEntry ''retention.ms'' (Some ''1'') \<lparr>source = 5, is_readonly = False, is_default = True, is_sensitive = False, is_synonym = False\<rparr> [(ConfigEntry ''log.retention.ms'' (Some ''1'') \<lparr>source = 5, is_readonly = False, is_default = False, is_sensitive = False, is_synonym = True\<rparr> [])]) \<in> set (config ((ConfigResource_skel 2 ''t'')\<lparr>config := [(ConfigEntry ''retention.ms'' (Some ''1'') \<lparr>source = 5, is_readonly = False, is_default = True, is_sensitive = False, is_synonym = False\<rparr> [(ConfigEntry ''log.retention.ms'' (Some ''1'') \<lparr>source = 5, is_readonly = False, is_default = False, is_sensitive = False, is_synonym = True\<rparr> [])])]\<rparr>))
   \<and> (ConfigEntry ''log.retention.ms'' (Some ''1'') \<lparr>source = 5, is_readonly = False, is_default = False, is_sensitive = False, is_synonym = True\<rparr> []) \<in> set (synonyms (ConfigEntry ''retention.ms'' (Some ''1'') \<lparr>source = 5, is_readonly = False, is_default = True, is_sensitive = False, is_synonym = False\<rparr> [(ConfigEntry ''log.retention.ms'' (Some ''1'') \<lparr>source = 5, is_readonly = False, is_default = False, is_sensitive = False, is_synonym = True\<rparr> [])]))
   \<and> (rd_kafka_ConfigEntry_source (ConfigEntry ''retention.ms'' (Some ''1'') \<lparr>source = 5, is_readonly = False, is_default = True, is_sensitive = False, is_synonym = False\<rparr> [(ConfigEntry ''log.retention.ms'' (Some ''1'') \<lparr>source = 5, is_readonly = False, is_default = False, is_sensitive = False, is_synonym = True\<rparr> [])]) = RD_KAFKA_CONFIG_SOURCE_DEFAULT_CONFIG) = rd_kafka_ConfigEntry_is_default (ConfigEntry ''retention.ms'' (Some ''1'') \<lparr>source = 5, is_readonly = False, is_default = True, is_sensitive = False, is_synonym = False\<rparr> [(ConfigEntry ''log.retention.ms'' (Some ''1'') \<lparr>source = 5, is_readonly = False, is_default = False, is_sensitive = False, is_synonym = True\<rparr> [])])
   \<and> \<not> rd_kafka_ConfigEntry_is_default (ConfigEntry ''log.retention.ms'' (Some ''1'') \<lparr>source = 5, is_readonly = False, is_default = False, is_sensitive = False, is_synonym = True\<rparr> [])
   \<and> is_synonym (ce_a (ConfigEntry ''log.retention.ms'' (Some ''1'') \<lparr>source = 5, is_readonly = False, is_default = False, is_sensitive = False, is_synonym = True\<rparr> []))"
proof -
  have h0:
    "rkbuf_ApiVersion (example_describe_reply 0 []) = 0"
    "DescribeConfigs_entry (example_describe_reply 0 []) 20 = Inr ((ConfigEntry ''retention.ms'' (Some ''1'') \<lparr>source = 5, is_readonly = False, is_default = True, is_sensitive = False, is_synonym = False\<rparr> []), 40)"
    "buf_read_str (example_describe_reply 0 []) 20 = Some (Some ''retention.ms'', 34)"
    "buf_read_str (example_describe_reply 0 []) 34 = Some (Some ''1'', 37)"
    "buf_read_bool (example_describe_reply 0 []) 37 = Some (False, 38)"
    "buf_read_bool (example_describe_reply 0 []) 38 = Some (True, 39)"
    by code_simp+
  from describe_configs_default_consistent [where r = "example_describe_reply 0 []" and pos = 20
      and e = "ConfigEntry ''retention.ms'' (Some ''1'') \<lparr>source = 5, is_readonly = False, is_default = True, is_sensitive = False, is_synonym = False\<rparr> []" and pos' = 40 and nm = "Some ''retention.ms''" and ?p1.0 = 34
      and vl = "Some ''1''" and ?p2.0 = 37 and ro = False and ?p3.0 = 38 and ?p4.0 = 39,
      THEN conjunct2, THEN conjunct1] h0
  have c0: "source (ce_a (ConfigEntry ''retention.ms'' (Some ''1'') \<lparr>source = 5, is_readonly = False, is_default = True, is_sensitive = False, is_synonym = False\<rparr> [])) = RD_KAFKA_CONFIG_SOURCE_DEFAULT_CONFIG
     \<and> is_default (ce_a (ConfigEntry ''retention.ms'' (Some ''1'') \<lparr>source = 5, is_readonly = False, is_default = True, is_sensitive = False, is_synonym = False\<rparr> []))"
    by blast
  have h1:
    "rkbuf_ApiVersion (example_describe_reply 1 [\<lparr>ws_name = Some ''log.retention.ms'', ws_value = Some ''1'', ws_source = 5\<rparr>]) \<noteq> 0"
    "DescribeConfigs_entry (example_describe_reply 1 [\<lparr>ws_name = Some ''log.retention.ms'', ws_value = Some ''1'', ws_source = 5\<rparr>]) 20 = Inr ((ConfigEntry ''retention.ms'' (Some ''1'') \<lparr>source = 5, is_readonly = False, is_default = True, is_sensitive = False, is_synonym = False\<rparr> [(ConfigEntry ''log.retention.ms'' (Some ''1'') \<lparr>source = 5, is_readonly = False, is_default = False, is_sensitive = False, is_synonym = True\<rparr> [])]), 66)"
    "buf_read_str (example_describe_reply 1 [\<lparr>ws_name = Some ''log.retention.ms'', ws_value = Some ''1'', ws_source = 5\<rparr>]) 20 = Some (Some ''retention.ms'', 34)"
    "buf_read_str (example_describe_reply 1 [\<lparr>ws_name = Some ''log.retention.ms'', ws_value = Some ''1'', ws_source = 5\<rparr>]) 34 = Some (Some ''1'', 37)"
    "buf_read_bool (example_describe_reply 1 [\<lparr>ws_name = Some ''log.retention.ms'', ws_value = Some ''1'', ws_source = 5\<rparr>]) 37 = Some (False, 38)"
    "buf_read_i8 (example_describe_reply 1 [\<lparr>ws_name = Some ''log.retention.ms'', ws_value = Some ''1'', ws_source = 5\<rparr>]) 38 = Some (RD_KAFKA_CONFIG_SOURCE_DEFAULT_CONFIG, 39)"
    by code_simp+
  from describe_configs_default_consistent [where r = "example_describe_reply 1 [\<lparr>ws_name = Some ''log.retention.ms'', ws_value = Some ''1'', ws_source = 5\<rparr>]" and pos = 20
      and e = "ConfigEntry ''retention.ms'' (Some ''1'') \<lparr>source = 5, is_readonly = False, is_default = True, is_sensitive = False, is_synonym = False\<rparr> [(ConfigEntry ''log.retention.ms'' (Some ''1'') \<lparr>source = 5, is_readonly = False, is_default = False, is_sensitive = False, is_synonym = True\<rparr> [])]" and pos' = 66 and nm = "Some ''retention.ms''" and ?p1.0 = 34
      and vl = "Some ''1''" and ?p2.0 = 37 and ro = False and ?p3.0 = 38 and ?p4.0 = 39,
      THEN conjunct2, THEN conjunct2, THEN conjunct1] h1
  have c1: "source (ce_a (ConfigEntry ''retention.ms'' (Some ''1'') \<lparr>source = 5, is_readonly = False, is_default = True, is_sensitive = False, is_synonym = False\<rparr> [(ConfigEntry ''log.retention.ms'' (Some ''1'') \<lparr>source = 5, is_readonly = False, is_default = False, is_sensitive = False, is_synonym = True\<rparr> [])])) = RD_KAFKA_CONFIG_SOURCE_DEFAULT_CONFIG
     \<and> is_default (ce_a (ConfigEntry ''retention.ms'' (Some ''1'') \<lparr>source = 5, is_readonly = False, is_default = True, is_sensitive = False, is_synonym = False\<rparr> [(ConfigEntry ''log.retention.ms'' (Some ''1'') \<lparr>source = 5, is_readonly = False, is_default = False, is_sensitive = False, is_synonym = True\<rparr> [])]))"
    by blast
  have hs:
    "DescribeConfigs_synonym (example_describe_reply 1 [\<lparr>ws_name = Some ''log.retention.ms'', ws_value = Some ''1'', ws_source = 5\<rparr>]) [] 44 = Inr ([(ConfigEntry ''log.retention.ms'' (Some ''1'') \<lparr>source = 5, is_readonly = False, is_default = False, is_sensitive = False, is_synonym = True\<rparr> [])], 66)"
    "buf_read_str (example_describe_reply 1 [\<lparr>ws_name = Some ''log.retention.ms'', ws_value = Some ''1'', ws_source = 5\<rparr>]) 44 = Some (Some ''log.retention.ms'', 62)"
    "buf_read_str (example_describe_reply 1 [\<lparr>ws_name = Some ''log.retention.ms'', ws_value = Some ''1'', ws_source = 5\<rparr>]) 62 = Some (Some ''1'', 65)"
    "buf_read_i8 (example_describe_reply 1 [\<lparr>ws_name = Some ''log.retention.ms'', ws_value = Some ''1'', ws_source = 5\<rparr>]) 65 = Some (5, 66)"
    by code_simp+
  from describe_configs_default_consistent [where r = "example_describe_reply 1 [\<lparr>ws_name = Some ''log.retention.ms'', ws_value = Some ''1'', ws_source = 5\<rparr>]" and syns = "[]" and pos = 44
      and syns' = "[(ConfigEntry ''log.retention.ms'' (Some ''1'') \<lparr>source = 5, is_readonly = False, is_default = False, is_sensitive = False, is_synonym = True\<rparr> [])]" and pos' = 66 and nm = "Some ''log.retention.ms''" and ?p1.0 = 62
      and vl = "Some ''1''" and ?p2.0 = 65 and src = 5 and ?p3.0 = 66,
      THEN conjunct2, THEN conjunct2, THEN conjunct2, THEN conjunct1] hs
  have cs: "butlast [(ConfigEntry ''log.retention.ms'' (Some ''1'') \<lparr>source = 5, is_readonly = False, is_default = False, is_sensitive = False, is_synonym = True\<rparr> [])] = []
     \<and> rd_kafka_ConfigEntry_source (last [(ConfigEntry ''log.retention.ms'' (Some ''1'') \<lparr>source = 5, is_readonly = False, is_default = False, is_sensitive = False, is_synonym = True\<rparr> [])]) = 5
     \<and> \<not> rd_kafka_ConfigEntry_is_default (last [(ConfigEntry ''log.retention.ms'' (Some ''1'') \<lparr>source = 5, is_readonly = False, is_default = False, is_sensitive = False, is_synonym = True\<rparr> [])])
     \<and> is_synonym (ce_a (last [(ConfigEntry ''log.retention.ms'' (Some ''1'') \<lparr>source = 5, is_readonly = False, is_default = False, is_sensitive = False, is_synonym = True\<rparr> [])]))"
    by blast
  have hp:
    "rd_kafka_DescribeConfigsResponse_parse example_config_req (example_describe_reply 1 [\<lparr>ws_name = Some ''log.retention.ms'', ws_value = Some ''1'', ws_source = 5\<rparr>]) = Inr [Some ((ConfigResource_skel 2 ''t'')\<lparr>config := [(ConfigEntry ''retention.ms'' (Some ''1'') \<lparr>source = 5, is_readonly = False, is_default = True, is_sensitive = False, is_synonym = False\<rparr> [(ConfigEntry ''log.retention.ms'' (Some ''1'') \<lparr>source = 5, is_readonly = False, is_default = False, is_sensitive = False, is_synonym = True\<rparr> [])])]\<rparr>)]"
    "Some ((ConfigResource_skel 2 ''t'')\<lparr>config := [(ConfigEntry ''retention.ms'' (Some ''1'') \<lparr>source = 5, is_readonly = False, is_default = True, is_sensitive = False, is_synonym = False\<rparr> [(ConfigEntry ''log.retention.ms'' (Some ''1'') \<lparr>source = 5, is_readonly = False, is_default = False, is_sensitive = False, is_synonym = True\<rparr> [])])]\<rparr>) \<in> set [Some ((ConfigResource_skel 2 ''t'')\<lparr>config := [(ConfigEntry ''retention.ms'' (Some ''1'') \<lparr>source = 5, is_readonly = False, is_default = True, is_sensitive = False, is_synonym = False\<rparr> [(ConfigEntry ''log.retention.ms'' (Some ''1'') \<lparr>source = 5, is_readonly = False, is_default = False, is_sensitive = False, is_synonym = True\<rparr> [])])]\<rparr>)]"
    "(ConfigEntry ''retention.ms'' (Some ''1'') \<lparr>source = 5, is_readonly = False, is_default = True, is_sensitive = False, is_synonym = False\<rparr> [(ConfigEntry ''log.retention.ms'' (Some ''1'') \<lparr>source = 5, is_readonly = False, is_default = False, is_sensitive = False, is_synonym = True\<rparr> [])]) \<in> set (config ((ConfigResource_skel 2 ''t'')\<lparr>config := [(ConfigEntry ''retention.ms'' (Some ''1'') \<lparr>source = 5, is_readonly = False, is_default = True, is_sensitive = False, is_synonym = False\<rparr> [(ConfigEntry ''log.retention.ms'' (Some ''1'') \<lparr>source = 5, is_readonly = False, is_default = False, is_sensitive = False, is_synonym = True\<rparr> [])])]\<rparr>))"
    "(ConfigEntry ''log.retention.ms'' (Some ''1'') \<lparr>source = 5, is_readonly = False, is_default = False, is_sensitive = False, is_synonym = True\<rparr> []) \<in> set (synonyms (ConfigEntry ''retention.ms'' (Some ''1'') \<lparr>source = 5, is_readonly = False, is_default = True, is_sensitive = False, is_synonym = False\<rparr> [(ConfigEntry ''log.retention.ms'' (Some ''1'') \<lparr>source = 5, is_readonly = False, is_default = False, is_sensitive = False, is_synonym = True\<rparr> [])]))"
    by code_simp+
  from describe_configs_default_consistent [where q = example_config_req and r = "example_describe_reply 1 [\<lparr>ws_name = Some ''log.retention.ms'', ws_value = Some ''1'', ws_source = 5\<rparr>]"
      and rs = "[Some ((ConfigResource_skel 2 ''t'')\<lparr>config := [(ConfigEntry ''retention.ms'' (Some ''1'') \<lparr>source = 5, is_readonly = False, is_default = True, is_sensitive = False, is_synonym = False\<rparr> [(ConfigEntry ''log.retention.ms'' (Some ''1'') \<lparr>source = 5, is_readonly = False, is_default = False, is_sensitive = False, is_synonym = True\<rparr> [])])]\<rparr>)]" and c = "(ConfigResource_skel 2 ''t'')\<lparr>config := [(ConfigEntry ''retention.ms'' (Some ''1'') \<lparr>source = 5, is_readonly = False, is_default = True, is_sensitive = False, is_synonym = False\<rparr> [(ConfigEntry ''log.retention.ms'' (Some ''1'') \<lparr>source = 5, is_readonly = False, is_default = False, is_sensitive = False, is_synonym = True\<rparr> [])])]\<rparr>" and e' = "ConfigEntry ''retention.ms'' (Some ''1'') \<lparr>source = 5, is_readonly = False, is_default = True, is_sensitive = False, is_synonym = False\<rparr> [(ConfigEntry ''log.retention.ms'' (Some ''1'') \<lparr>source = 5, is_readonly = False, is_default = False, is_sensitive = False, is_synonym = True\<rparr> [])]",
      THEN conjunct2, THEN conjunct2, THEN conjunct2, THEN conjunct2] hp
  have cp: "(rd_kafka_ConfigEntry_source (ConfigEntry ''retention.ms'' (Some ''1'') \<lparr>source = 5, is_readonly = False, is_default = True, is_sensitive = False, is_synonym = False\<rparr> [(ConfigEntry ''log.retention.ms'' (Some ''1'') \<lparr>source = 5, is_readonly = False, is_default = False, is_sensitive = False, is_synonym = True\<rparr> [])]) = RD_KAFKA_CONFIG_SOURCE_DEFAULT_CONFIG) = rd_kafka_ConfigEntry_is_default (ConfigEntry ''retention.ms'' (Some ''1'') \<lparr>source = 5, is_readonly = False, is_default = True, is_sensitive = False, is_synonym = False\<rparr> [(ConfigEntry ''log.retention.ms'' (Some ''1'') \<lparr>source = 5, is_readonly = False, is_default = False, is_sensitive = False, is_synonym = True\<rparr> [])])
     \<and> \<not> rd_kafka_ConfigEntry_is_default (ConfigEntry ''log.retention.ms'' (Some ''1'') \<lparr>source = 5, is_readonly = False, is_default = False, is_sensitive = False, is_synonym = True\<rparr> [])
     \<and> is_synonym (ce_a (ConfigEntry ''log.retention.ms'' (Some ''1'') \<lparr>source = 5, is_readonly = False, is_default = False, is_sensitive = False, is_synonym = True\<rparr> []))"
    by blast
  show ?thesis
    by (intro conjI) (use h0 c0 h1 c1 hs cs hp cp in \<open>blast+\<close>)
qed

theorem describe_configs_default_counterexample:
  "rd_kafka_DescribeConfigsResponse_parse example_config_req
     (example_describe_reply 1
        [\<lparr>ws_name = Some ''log.retention.ms'', ws_value = Some ''1'',
          ws_source = RD_KAFKA_CONFIG_SOURCE_DEFAULT_CONFIG\<rparr>])
     = Inr [Some ((ConfigResource_skel 2 ''t'')
              \<lparr>config := [ConfigEntry ''retention.ms'' (Some ''1'')
                  \<lparr>source = 5, is_readonly = False, is_default = True, is_sensitive = False,
                   is_synonym = False\<rparr>
                  [ConfigEntry ''log.retention.ms'' (Some ''1'')
                     \<lparr>source = 5, is_readonly = False, is_default = False,
                      is_sensitive = False, is_synonym = True\<rparr> []]]\<rparr>)]
   \<and> rd_kafka_ConfigEntry_source
        (ConfigEntry ''log.retention.ms'' (Some ''1'')
           \<lparr>source = 5, is_readonly = False, is_default = False,
            is_sensitive = False, is_synonym = True\<rparr> [])
       = RD_KAFKA_CONFIG_SOURCE_DEFAULT_CONFIG
   \<and> \<not> rd_kafka_ConfigEntry_is_default
        (ConfigEntry ''log.retention.ms'' (Some ''1'')
           \<lparr>source = 5, is_readonly = False, is_default = False,
            is_sensitive = False, is_synonym = True\<rparr> [])"
  by code_simp

subsection \<open>Topic results\<close>

lemma terr_topic:
  "tr_topic (CreateTopics_terr q1 v w) = RD_KAFKAP_STR_DUPA (w_ktopic w)"
  "tr_topic (DeleteTopics_terr q2 w) = RD_KAFKAP_STR_DUPA (w_ktopic w)"
  "tr_topic (CreatePartitions_terr q3 w) = RD_KAFKAP_STR_DUPA (w_ktopic w)"
  by (simp_all add: CreateTopics_terr_def DeleteTopics_terr_def CreatePartitions_terr_def
      rd_kafka_topic_result_new_def Let_def)

lemma terr_err:
  "tr_err (CreateTopics_terr q1 v w) =
     (if w_error_code w = RD_KAFKA_RESP_ERR_REQUEST_TIMED_OUT
         \<and> rd_kafka_confval_get_int (operation_timeout (rko_options q1)) \<le> 0
      then RD_KAFKA_RESP_ERR_NO_ERROR else w_error_code w)"
  "tr_err (DeleteTopics_terr q2 w) =
     (if w_error_code w = RD_KAFKA_RESP_ERR_REQUEST_TIMED_OUT
         \<and> rd_kafka_confval_get_int (operation_timeout (rko_options q2)) \<le> 0
      then RD_KAFKA_RESP_ERR_NO_ERROR else w_error_code w)"
  "tr_err (CreatePartitions_terr q3 w) =
     (if w_error_code w = RD_KAFKA_RESP_ERR_REQUEST_TIMED_OUT
         \<and> rd_kafka_confval_get_int (operation_timeout (rko_options q3)) \<le> 0
      then RD_KAFKA_RESP_ERR_NO_ERROR else w_error_code w)"
  by (simp_all add: CreateTopics_terr_def DeleteTopics_terr_def CreatePartitions_terr_def
      rd_kafka_topic_result_new_def Let_def)

lemma terr_errstr:
  "tr_err (CreateTopics_terr q1 v w) = 0 \<Longrightarrow> tr_errstr (CreateTopics_terr q1 v w) = None"
  "tr_err (DeleteTopics_terr q2 w) = 0 \<Longrightarrow> tr_errstr (DeleteTopics_terr q2 w) = None"
  "tr_err (CreatePartitions_terr q3 w) = 0 \<Longrightarrow> tr_errstr (CreatePartitions_terr q3 w) = None"
  by (simp_all add: CreateTopics_terr_def DeleteTopics_terr_def CreatePartitions_terr_def
      rd_kafka_topic_result_new_def Let_def element_errstr_def)

text \<open>
  Claim C4. For each of the three topic parsers and every response element whose
  error code is \<^verbatim>\<open>RD_KAFKA_RESP_ERR_REQUEST_TIMED_OUT\<close>: when the operation timeout of
  the request's options is at most 0, the result of the element is built with
  no error and no error string; when it is above 0, the result keeps the error
  code. The result built this way is the one the parser stores for the element.
\<close>

theorem request_timed_out_rewritten:
  "(w_error_code w1 = RD_KAFKA_RESP_ERR_REQUEST_TIMED_OUT \<longrightarrow>
      (rd_kafka_confval_get_int (operation_timeout (rko_options q1)) \<le> 0 \<longrightarrow>
         tr_err (CreateTopics_terr q1 (ApiVersion r1) w1) = RD_KAFKA_RESP_ERR_NO_ERROR
         \<and> tr_errstr (CreateTopics_terr q1 (ApiVersion r1) w1) = None)
      \<and> (0 < rd_kafka_confval_get_int (operation_timeout (rko_options q1)) \<longrightarrow>
         tr_err (CreateTopics_terr q1 (ApiVersion r1) w1) = RD_KAFKA_RESP_ERR_REQUEST_TIMED_OUT))
   \<and> (rd_kafka_CreateTopicsResponse_parse q1 r1 = Inr rs1
        \<and> w1 \<in> set (take (nat (buf_cnt r1)) (buf_elems r1)) \<longrightarrow>
      rd_list_elem rs1
        (rd_list_index (rko_args q1) (NewTopic_skel (RD_KAFKAP_STR_DUPA (w_ktopic w1)))
           rd_kafka_NewTopic_cmp)
        = Some (CreateTopics_terr q1 (ApiVersion r1) w1))
   \<and> (w_error_code w2 = RD_KAFKA_RESP_ERR_REQUEST_TIMED_OUT \<longrightarrow>
      (rd_kafka_confval_get_int (operation_timeout (rko_options q2)) \<le> 0 \<longrightarrow>
         tr_err (DeleteTopics_terr q2 w2) = RD_KAFKA_RESP_ERR_NO_ERROR
         \<and> tr_errstr (DeleteTopics_terr q2 w2) = None)
      \<and> (0 < rd_kafka_confval_get_int (operation_timeout (rko_options q2)) \<longrightarrow>
         tr_err (DeleteTopics_terr q2 w2) = RD_KAFKA_RESP_ERR_REQUEST_TIMED_OUT))
   \<and> (rd_kafka_DeleteTopicsResponse_parse q2 r2 = Inr rs2
        \<and> w2 \<in> set (take (nat (buf_cnt r2)) (buf_elems r2)) \<longrightarrow>
      rd_list_elem rs2
        (rd_list_index (rko_args q2) (DeleteTopic_skel (RD_KAFKAP_STR_DUPA (w_ktopic w2)))
           rd_kafka_DeleteTopic_cmp)
        = Some (DeleteTopics_terr q2 w2))
   \<and> (w_error_code w3 = RD_KAFKA_RESP_ERR_REQUEST_TIMED_OUT \<longrightarrow>
      (rd_kafka_confval_get_int (operation_timeout (rko_options q3)) \<le> 0 \<longrightarrow>
         tr_err (CreatePartitions_terr q3 w3) = RD_KAFKA_RESP_ERR_NO_ERROR
         \<and> tr_errstr (CreatePartitions_terr q3 w3) = None)
      \<and> (0 < rd_kafka_confval_get_int (operation_timeout (rko_options q3)) \<longrightarrow>
         tr_err (CreatePartitions_terr q3 w3) = RD_KAFKA_RESP_ERR_REQUEST_TIMED_OUT))
   \<and> (rd_kafka_CreatePartitionsResponse_parse q3 r3 = Inr rs3
        \<and> w3 \<in> set (take (nat (buf_cnt r3)) (buf_elems r3)) \<longrightarrow>
      rd_list_elem rs3
        (rd_list_index (rko_args q3) (NewPartitions_skel (RD_KAFKAP_STR_DUPA (w_ktopic w3)))
           rd_kafka_NewPartitions_cmp)
        = Some (CreatePartitions_terr q3 w3))"
proof -
  have e1: "w_error_code w1 = RD_KAFKA_RESP_ERR_REQUEST_TIMED_OUT \<longrightarrow>
      (rd_kafka_confval_get_int (operation_timeout (rko_options q1)) \<le> 0 \<longrightarrow>
         tr_err (CreateTopics_terr q1 (ApiVersion r1) w1) = RD_KAFKA_RESP_ERR_NO_ERROR
         \<and> tr_errstr (CreateTopics_terr q1 (ApiVersion r1) w1) = None)
      \<and> (0 < rd_kafka_confval_get_int (operation_timeout (rko_options q1)) \<longrightarrow>
         tr_err (CreateTopics_terr q1 (ApiVersion r1) w1) = RD_KAFKA_RESP_ERR_REQUEST_TIMED_OUT)"
    using terr_errstr(1) [of q1 "ApiVersion r1" w1]
    by (simp add: terr_err RD_KAFKA_RESP_ERR_NO_ERROR_def)
  have e2: "w_error_code w2 = RD_KAFKA_RESP_ERR_REQUEST_TIMED_OUT \<longrightarrow>
      (rd_kafka_confval_get_int (operation_timeout (rko_options q2)) \<le> 0 \<longrightarrow>
         tr_err (DeleteTopics_terr q2 w2) = RD_KAFKA_RESP_ERR_NO_ERROR
         \<and> tr_errstr (DeleteTopics_terr q2 w2) = None)
      \<and> (0 < rd_kafka_confval_get_int (operation_timeout (rko_options q2)) \<longrightarrow>
         tr_err (DeleteTopics_terr q2 w2) = RD_KAFKA_RESP_ERR_REQUEST_TIMED_OUT)"
    using terr_errstr(2) [of q2 w2]
    by (simp add: terr_err RD_KAFKA_RESP_ERR_NO_ERROR_def)
  have e3: "w_error_code w3 = RD_KAFKA_RESP_ERR_REQUEST_TIMED_OUT \<longrightarrow>
      (rd_kafka_confval_get_int (operation_timeout (rko_options q3)) \<le> 0 \<longrightarrow>
         tr_err (CreatePartitions_terr q3 w3) = RD_KAFKA_RESP_ERR_NO_ERROR
         \<and> tr_errstr (CreatePartitions_terr q3 w3) = None)
      \<and> (0 < rd_kafka_confval_get_int (operation_timeout (rko_options q3)) \<longrightarrow>
         tr_err (CreatePartitions_terr q3 w3) = RD_KAFKA_RESP_ERR_REQUEST_TIMED_OUT)"
    using terr_errstr(3) [of q3 w3]
    by (simp add: terr_err RD_KAFKA_RESP_ERR_NO_ERROR_def)
  have p1: "rd_kafka_CreateTopicsResponse_parse q1 r1 = Inr rs1
        \<and> w1 \<in> set (take (nat (buf_cnt r1)) (buf_elems r1)) \<longrightarrow>
      rd_list_elem rs1
        (rd_list_index (rko_args q1) (NewTopic_skel (RD_KAFKAP_STR_DUPA (w_ktopic w1)))
           rd_kafka_NewTopic_cmp)
        = Some (CreateTopics_terr q1 (ApiVersion r1) w1)"
    using CreateTopics_places [of q1 r1 rs1 w1] by (simp add: Let_def terr_topic)
  have p2: "rd_kafka_DeleteTopicsResponse_parse q2 r2 = Inr rs2
        \<and> w2 \<in> set (take (nat (buf_cnt r2)) (buf_elems r2)) \<longrightarrow>
      rd_list_elem rs2
        (rd_list_index (rko_args q2) (DeleteTopic_skel (RD_KAFKAP_STR_DUPA (w_ktopic w2)))
           rd_kafka_DeleteTopic_cmp)
        = Some (DeleteTopics_terr q2 w2)"
    using DeleteTopics_places [of q2 r2 rs2 w2] by (simp add: Let_def terr_topic)
  have p3: "rd_kafka_CreatePartitionsResponse_parse q3 r3 = Inr rs3
        \<and> w3 \<in> set (take (nat (buf_cnt r3)) (buf_elems r3)) \<longrightarrow>
      rd_list_elem rs3
        (rd_list_index (rko_args q3) (NewPartitions_skel (RD_KAFKAP_STR_DUPA (w_ktopic w3)))
           rd_kafka_NewPartitions_cmp)
        = Some (CreatePartitions_terr q3 w3)"
    using CreatePartitions_places [of q3 r3 rs3 w3] by (simp add: Let_def terr_topic)
  show ?thesis
    by (rule conjI [OF e1 conjI [OF p1 conjI [OF e2 conjI [OF p2 conjI [OF e3 p3]]]]])
qed

theorem request_timed_out_rewritten_witness:
  "w_error_code (wire_timed_out ''t1'') = RD_KAFKA_RESP_ERR_REQUEST_TIMED_OUT
   \<and> rd_kafka_confval_get_int (operation_timeout (rko_options example_create_req)) \<le> 0
   \<and> tr_err (CreateTopics_terr example_create_req 0 (wire_timed_out ''t1''))
       = RD_KAFKA_RESP_ERR_NO_ERROR
   \<and> rd_kafka_confval_get_int (operation_timeout (rko_options example_delete_req)) \<le> 0
   \<and> tr_err (DeleteTopics_terr example_delete_req (wire_timed_out ''alpha''))
       = RD_KAFKA_RESP_ERR_NO_ERROR
   \<and> tr_errstr (DeleteTopics_terr example_delete_req (wire_timed_out ''alpha'')) = None
   \<and> rd_kafka_DeleteTopicsResponse_parse example_delete_req
        \<lparr>ApiVersion = 0, buf_cnt = 1, buf_elems = [wire_timed_out ''alpha'']\<rparr>
       = Inr [None, Some (topic_ok ''alpha'')]
   \<and> rd_list_elem [None, Some (topic_ok ''alpha'')]
        (rd_list_index (rko_args example_delete_req)
           (DeleteTopic_skel (RD_KAFKAP_STR_DUPA (w_ktopic (wire_timed_out ''alpha''))))
           rd_kafka_DeleteTopic_cmp)
       = Some (DeleteTopics_terr example_delete_req (wire_timed_out ''alpha''))
   \<and> 0 < rd_kafka_confval_get_int
        (operation_timeout (rko_options (example_blocking_req [\<lparr>dt_topic = ''alpha''\<rparr>])))
   \<and> tr_err (DeleteTopics_terr (example_blocking_req [\<lparr>dt_topic = ''alpha''\<rparr>])
               (wire_timed_out ''alpha''))
       = RD_KAFKA_RESP_ERR_REQUEST_TIMED_OUT
   \<and> rd_kafka_confval_get_int (operation_timeout (rko_options example_partitions_req)) \<le> 0
   \<and> tr_err (CreatePartitions_terr example_partitions_req (wire_timed_out ''t1''))
       = RD_KAFKA_RESP_ERR_NO_ERROR"
proof -
  let ?r = "\<lparr>ApiVersion = 0, buf_cnt = 1, buf_elems = [wire_timed_out ''alpha'']\<rparr>"
  have h: "w_error_code (wire_timed_out ''t1'') = RD_KAFKA_RESP_ERR_REQUEST_TIMED_OUT"
    "w_error_code (wire_timed_out ''alpha'') = RD_KAFKA_RESP_ERR_REQUEST_TIMED_OUT"
    "rd_kafka_confval_get_int (operation_timeout (rko_options example_create_req)) \<le> 0"
    "rd_kafka_confval_get_int (operation_timeout (rko_options example_delete_req)) \<le> 0"
    "rd_kafka_confval_get_int (operation_timeout (rko_options example_partitions_req)) \<le> 0"
    "0 < rd_kafka_confval_get_int
        (operation_timeout (rko_options (example_blocking_req [\<lparr>dt_topic = ''alpha''\<rparr>])))"
    "rd_kafka_DeleteTopicsResponse_parse example_delete_req ?r
       = Inr [None, Some (topic_ok ''alpha'')]"
    "wire_timed_out ''alpha'' \<in> set (take (nat (buf_cnt ?r)) (buf_elems ?r))"
    "ApiVersion (example_delete_reply []) = 0"
    by code_simp+
  note t = request_timed_out_rewritten [where ?q1.0 = example_create_req
      and ?r1.0 = "example_delete_reply []" and ?w1.0 = "wire_timed_out ''t1''"
      and ?q2.0 = example_delete_req and ?r2.0 = ?r and ?w2.0 = "wire_timed_out ''alpha''"
      and ?rs2.0 = "[None, Some (topic_ok ''alpha'')]"
      and ?q3.0 = example_partitions_req and ?w3.0 = "wire_timed_out ''t1''"]
  note t' = request_timed_out_rewritten [where
      ?q2.0 = "example_blocking_req [\<lparr>dt_topic = ''alpha''\<rparr>]"
      and ?w2.0 = "wire_timed_out ''alpha''",
      THEN conjunct2, THEN conjunct2, THEN conjunct1]
  from t h have a: "tr_err (CreateTopics_terr example_create_req 0 (wire_timed_out ''t1''))
       = RD_KAFKA_RESP_ERR_NO_ERROR" by simp
  from t h have b: "tr_err (DeleteTopics_terr example_delete_req (wire_timed_out ''alpha''))
       = RD_KAFKA_RESP_ERR_NO_ERROR
     \<and> tr_errstr (DeleteTopics_terr example_delete_req (wire_timed_out ''alpha'')) = None
     \<and> rd_list_elem [None, Some (topic_ok ''alpha'')]
        (rd_list_index (rko_args example_delete_req)
           (DeleteTopic_skel (RD_KAFKAP_STR_DUPA (w_ktopic (wire_timed_out ''alpha''))))
           rd_kafka_DeleteTopic_cmp)
       = Some (DeleteTopics_terr example_delete_req (wire_timed_out ''alpha''))
     \<and> tr_err (CreatePartitions_terr example_partitions_req (wire_timed_out ''t1''))
       = RD_KAFKA_RESP_ERR_NO_ERROR" by blast
  from t' h have c: "tr_err (DeleteTopics_terr (example_blocking_req [\<lparr>dt_topic = ''alpha''\<rparr>])
               (wire_timed_out ''alpha''))
       = RD_KAFKA_RESP_ERR_REQUEST_TIMED_OUT" by blast
  show ?thesis using h a b c by blast
qed

subsection \<open>The broker of a config request\<close>

lemma broker_loop_filter:
  "get_single_broker_id_loop configs b = get_single_broker_id_loop (broker_resources configs) b"
  by (induction configs b rule: get_single_broker_id_loop.induct)
    (simp_all add: broker_resources_def Let_def)

lemma broker_resources_copy:
  "broker_resources (map rd_kafka_ConfigResource_copy configs)
     = map rd_kafka_ConfigResource_copy (broker_resources configs)"
  by (induction configs) (simp_all add: broker_resources_def rd_kafka_ConfigResource_copy_def)

lemma to_int32_id: "- 2147483648 \<le> v \<Longrightarrow> v \<le> 2147483647 \<Longrightarrow> to_int32 v = v"
  by (simp add: to_int32_def sint_sbintrunc' signed_take_bit_int_eq_self)

lemma single_broker_id_cases:
  "(broker_resources configs = [] \<longrightarrow>
      rd_kafka_ConfigResource_get_single_broker_id (map rd_kafka_ConfigResource_copy configs)
        = Inr (- 1))
   \<and> (broker_resources configs = c # rest \<and> strtol (res_name c) = (v, n)
        \<and> (n = 0 \<or> (- 2147483648 \<le> v \<and> v < 0)) \<longrightarrow>
      rd_kafka_ConfigResource_get_single_broker_id (map rd_kafka_ConfigResource_copy configs)
        = Inl RD_KAFKA_RESP_ERR__INVALID_ARG)
   \<and> (broker_resources configs = c # c' # rest' \<and> strtol (res_name c) = (v, n)
        \<and> 0 < n \<and> 0 \<le> v \<and> v \<le> INT32_MAX \<longrightarrow>
      rd_kafka_ConfigResource_get_single_broker_id (map rd_kafka_ConfigResource_copy configs)
        = Inl RD_KAFKA_RESP_ERR__CONFLICT)
   \<and> (broker_resources configs = [c] \<and> strtol (res_name c) = (v, n)
        \<and> 0 < n \<and> 0 \<le> v \<and> v \<le> INT32_MAX \<longrightarrow>
      rd_kafka_ConfigResource_get_single_broker_id (map rd_kafka_ConfigResource_copy configs)
        = Inr v)"
proof -
  have g: "rd_kafka_ConfigResource_get_single_broker_id (map rd_kafka_ConfigResource_copy configs)
      = get_single_broker_id_loop (map rd_kafka_ConfigResource_copy (broker_resources configs)) (- 1)"
    unfolding rd_kafka_ConfigResource_get_single_broker_id_def
    by (subst broker_loop_filter) (simp add: broker_resources_copy)
  have b: "restype x = RD_KAFKA_RESOURCE_BROKER" if "x \<in> set (broker_resources configs)" for x
    using that by (simp add: broker_resources_def)
  show ?thesis
  proof (intro conjI impI; (elim conjE)?)
    assume "broker_resources configs = []"
    then show "rd_kafka_ConfigResource_get_single_broker_id (map rd_kafka_ConfigResource_copy configs)
        = Inr (- 1)"
      by (simp add: g)
  next
    assume bs: "broker_resources configs = c # rest" and s: "strtol (res_name c) = (v, n)"
      and bad: "n = 0 \<or> (- 2147483648 \<le> v \<and> v < 0)"
    have "n \<noteq> 0 \<Longrightarrow> to_int32 v < 0" using bad to_int32_id [of v] by auto
    then show "rd_kafka_ConfigResource_get_single_broker_id (map rd_kafka_ConfigResource_copy configs)
        = Inl RD_KAFKA_RESP_ERR__INVALID_ARG"
      using b [of c] bs s
      by (auto simp: g rd_kafka_ConfigResource_copy_def Let_def)
  next
    assume bs: "broker_resources configs = c # c' # rest'" and s: "strtol (res_name c) = (v, n)"
      and ok: "0 < n" "0 \<le> v" "v \<le> INT32_MAX"
    have v: "to_int32 v = v" using ok to_int32_id [of v] by (simp add: INT32_MAX_def)
    show "rd_kafka_ConfigResource_get_single_broker_id (map rd_kafka_ConfigResource_copy configs)
        = Inl RD_KAFKA_RESP_ERR__CONFLICT"
      using b [of c] b [of c'] bs s ok v
      by (auto simp: g rd_kafka_ConfigResource_copy_def Let_def LONG_MIN_def LONG_MAX_def
          INT32_MAX_def)
  next
    assume bs: "broker_resources configs = [c]" and s: "strtol (res_name c) = (v, n)"
      and ok: "0 < n" "0 \<le> v" "v \<le> INT32_MAX"
    have v: "to_int32 v = v" using ok to_int32_id [of v] by (simp add: INT32_MAX_def)
    show "rd_kafka_ConfigResource_get_single_broker_id (map rd_kafka_ConfigResource_copy configs)
        = Inr v"
      using b [of c] bs s ok v
      by (auto simp: g rd_kafka_ConfigResource_copy_def Let_def LONG_MIN_def LONG_MAX_def
          INT32_MAX_def)
  qed
qed

lemma submit_outcome:
  "rd_kafka_ConfigResource_get_single_broker_id (map rd_kafka_ConfigResource_copy configs) = Inr b \<Longrightarrow>
     map rko_broker_id (rk_ops_enq (rd_kafka_AlterConfigs rk configs opts)) = [b]
     \<and> sub_events (rd_kafka_AlterConfigs rk configs opts) = []
     \<and> map rko_broker_id (rk_ops_enq (rd_kafka_DescribeConfigs rk configs opts)) = [b]
     \<and> sub_events (rd_kafka_DescribeConfigs rk configs opts) = []"
  "rd_kafka_ConfigResource_get_single_broker_id (map rd_kafka_ConfigResource_copy configs) = Inl err \<Longrightarrow>
     rk_ops_enq (rd_kafka_AlterConfigs rk configs opts) = []
     \<and> hd (sub_events (rd_kafka_AlterConfigs rk configs opts))
         = Admin_result_fail err Callback_errstr
     \<and> rk_ops_enq (rd_kafka_DescribeConfigs rk configs opts) = []
     \<and> hd (sub_events (rd_kafka_DescribeConfigs rk configs opts))
         = Admin_result_fail err Callback_errstr"
  by (simp_all add: rd_kafka_AlterConfigs_def rd_kafka_DescribeConfigs_def Let_def)

text \<open>
  Claim C7, in the form that holds of the code. A submission of AlterConfigs or
  DescribeConfigs examines the BROKER resources of its arguments in their order,
  reading a name with \<^verbatim>\<open>strtol\<close>, which converts the longest numeric prefix:

  \<^item> there is none: one request is enqueued, its broker id - 1 (the controller);

  \<^item> the name of the first converts no character, or gives a negative number:
    the submission fails at once with \<^verbatim>\<open>RD_KAFKA_RESP_ERR__INVALID_ARG\<close> and nothing is
    enqueued, whether or not other BROKER resources follow;

  \<^item> the name of the first gives a number from 0 to \<^verbatim>\<open>INT32_MAX\<close> and a second
    BROKER resource follows: the submission fails at once with
    \<^verbatim>\<open>RD_KAFKA_RESP_ERR__CONFLICT\<close> and nothing is enqueued;

  \<^item> it is the only one and its name gives a number from 0 to \<^verbatim>\<open>INT32_MAX\<close>: one
    request is enqueued, its broker id that number.

  Nothing is said of a name whose number is outside the range of \<^verbatim>\<open>int32_t\<close>.
\<close>

theorem broker_preflight:
  "(broker_resources configs = [] \<longrightarrow>
      map rko_broker_id (rk_ops_enq (rd_kafka_AlterConfigs rk configs opts)) = [- 1]
      \<and> sub_events (rd_kafka_AlterConfigs rk configs opts) = []
      \<and> map rko_broker_id (rk_ops_enq (rd_kafka_DescribeConfigs rk configs opts)) = [- 1]
      \<and> sub_events (rd_kafka_DescribeConfigs rk configs opts) = [])
   \<and> (broker_resources configs = c # rest \<and> strtol (res_name c) = (v, n)
        \<and> (n = 0 \<or> (- 2147483648 \<le> v \<and> v < 0)) \<longrightarrow>
      rk_ops_enq (rd_kafka_AlterConfigs rk configs opts) = []
      \<and> hd (sub_events (rd_kafka_AlterConfigs rk configs opts))
          = Admin_result_fail RD_KAFKA_RESP_ERR__INVALID_ARG Callback_errstr
      \<and> rk_ops_enq (rd_kafka_DescribeConfigs rk configs opts) = []
      \<and> hd (sub_events (rd_kafka_DescribeConfigs rk configs opts))
          = Admin_result_fail RD_KAFKA_RESP_ERR__INVALID_ARG Callback_errstr)
   \<and> (broker_resources configs = c # c' # rest' \<and> strtol (res_name c) = (v, n)
        \<and> 0 < n \<and> 0 \<le> v \<and> v \<le> INT32_MAX \<longrightarrow>
      rk_ops_enq (rd_kafka_AlterConfigs rk configs opts) = []
      \<and> hd (sub_events (rd_kafka_AlterConfigs rk configs opts))
          = Admin_result_fail RD_KAFKA_RESP_ERR__CONFLICT Callback_errstr
      \<and> rk_ops_enq (rd_kafka_DescribeConfigs rk configs opts) = []
      \<and> hd (sub_events (rd_kafka_DescribeConfigs rk configs opts))
          = Admin_result_fail RD_KAFKA_RESP_ERR__CONFLICT Callback_errstr)
   \<and> (broker_resources configs = [c] \<and> strtol (res_name c) = (v, n)
        \<and> 0 < n \<and> 0 \<le> v \<and> v \<le> INT32_MAX \<longrightarrow>
      map rko_broker_id (rk_ops_enq (rd_kafka_AlterConfigs rk configs opts)) = [v]
      \<and> sub_events (rd_kafka_AlterConfigs rk configs opts) = []
      \<and> map rko_broker_id (rk_ops_enq (rd_kafka_DescribeConfigs rk configs opts)) = [v]
      \<and> sub_events (rd_kafka_DescribeConfigs rk configs opts) = [])"
proof -
  note cases = single_broker_id_cases [of configs c rest v n c' rest']
  show ?thesis
  proof (intro conjI impI)
    assume "broker_resources configs = []"
    with cases have "rd_kafka_ConfigResource_get_single_broker_id
        (map rd_kafka_ConfigResource_copy configs) = Inr (- 1)" by blast
    from submit_outcome(1) [OF this]
    show "map rko_broker_id (rk_ops_enq (rd_kafka_AlterConfigs rk configs opts)) = [- 1]"
      and "sub_events (rd_kafka_AlterConfigs rk configs opts) = []"
      and "map rko_broker_id (rk_ops_enq (rd_kafka_DescribeConfigs rk configs opts)) = [- 1]"
      and "sub_events (rd_kafka_DescribeConfigs rk configs opts) = []"
      by blast+
  next
    assume "broker_resources configs = c # rest \<and> strtol (res_name c) = (v, n)
        \<and> (n = 0 \<or> (- 2147483648 \<le> v \<and> v < 0))"
    with cases have "rd_kafka_ConfigResource_get_single_broker_id
        (map rd_kafka_ConfigResource_copy configs) = Inl RD_KAFKA_RESP_ERR__INVALID_ARG" by blast
    from submit_outcome(2) [OF this]
    show "rk_ops_enq (rd_kafka_AlterConfigs rk configs opts) = []"
      and "hd (sub_events (rd_kafka_AlterConfigs rk configs opts))
          = Admin_result_fail RD_KAFKA_RESP_ERR__INVALID_ARG Callback_errstr"
      and "rk_ops_enq (rd_kafka_DescribeConfigs rk configs opts) = []"
      and "hd (sub_events (rd_kafka_DescribeConfigs rk configs opts))
          = Admin_result_fail RD_KAFKA_RESP_ERR__INVALID_ARG Callback_errstr"
      by blast+
  next
    assume "broker_resources configs = c # c' # rest' \<and> strtol (res_name c) = (v, n)
        \<and> 0 < n \<and> 0 \<le> v \<and> v \<le> INT32_MAX"
    with cases have "rd_kafka_ConfigResource_get_single_broker_id
        (map rd_kafka_ConfigResource_copy configs) = Inl RD_KAFKA_RESP_ERR__CONFLICT" by blast
    from submit_outcome(2) [OF this]
    show "rk_ops_enq (rd_kafka_AlterConfigs rk configs opts) = []"
      and "hd (sub_events (rd_kafka_AlterConfigs rk configs opts))
          = Admin_result_fail RD_KAFKA_RESP_ERR__CONFLICT Callback_errstr"
      and "rk_ops_enq (rd_kafka_DescribeConfigs rk configs opts) = []"
      and "hd (sub_events (rd_kafka_DescribeConfigs rk configs opts))
          = Admin_result_fail RD_KAFKA_RESP_ERR__CONFLICT Callback_errstr"
      by blast+
  next
    assume "broker_resources configs = [c] \<and> strtol (res_name c) = (v, n)
        \<and> 0 < n \<and> 0 \<le> v \<and> v \<le> INT32_MAX"
    with cases have "rd_kafka_ConfigResource_get_single_broker_id
        (map rd_kafka_ConfigResource_copy configs) = Inr v" by blast
    from submit_outcome(1) [OF this]
    show "map rko_broker_id (rk_ops_enq (rd_kafka_AlterConfigs rk configs opts)) = [v]"
      and "sub_events (rd_kafka_AlterConfigs rk configs opts) = []"
      and "map rko_broker_id (rk_ops_enq (rd_kafka_DescribeConfigs rk configs opts)) = [v]"
      and "sub_events (rd_kafka_DescribeConfigs rk configs opts) = []"
      by blast+
  qed
qed

theorem broker_preflight_witness:
  "broker_resources [ConfigResource_skel RD_KAFKA_RESOURCE_TOPIC ''t''] = []
   \<and> map rko_broker_id (rk_ops_enq (rd_kafka_AlterConfigs example_rk
        [ConfigResource_skel RD_KAFKA_RESOURCE_TOPIC ''t''] None)) = [- 1]
   \<and> broker_resources [ConfigResource_skel RD_KAFKA_RESOURCE_BROKER ''-3'']
       = [ConfigResource_skel RD_KAFKA_RESOURCE_BROKER ''-3'']
   \<and> strtol (res_name (ConfigResource_skel RD_KAFKA_RESOURCE_BROKER ''-3'')) = (- 3, 2)
   \<and> hd (sub_events (rd_kafka_DescribeConfigs example_rk
        [ConfigResource_skel RD_KAFKA_RESOURCE_BROKER ''-3''] None))
       = Admin_result_fail RD_KAFKA_RESP_ERR__INVALID_ARG Callback_errstr
   \<and> broker_resources [ConfigResource_skel RD_KAFKA_RESOURCE_BROKER ''1'',
                       ConfigResource_skel RD_KAFKA_RESOURCE_BROKER ''2'']
       = [ConfigResource_skel RD_KAFKA_RESOURCE_BROKER ''1'',
          ConfigResource_skel RD_KAFKA_RESOURCE_BROKER ''2'']
   \<and> strtol (res_name (ConfigResource_skel RD_KAFKA_RESOURCE_BROKER ''1'')) = (1, 1)
   \<and> rk_ops_enq (rd_kafka_AlterConfigs example_rk
        [ConfigResource_skel RD_KAFKA_RESOURCE_BROKER ''1'',
         ConfigResource_skel RD_KAFKA_RESOURCE_BROKER ''2''] None) = []
   \<and> hd (sub_events (rd_kafka_AlterConfigs example_rk
        [ConfigResource_skel RD_KAFKA_RESOURCE_BROKER ''1'',
         ConfigResource_skel RD_KAFKA_RESOURCE_BROKER ''2''] None))
       = Admin_result_fail RD_KAFKA_RESP_ERR__CONFLICT Callback_errstr
   \<and> broker_resources (rko_args example_config_req)
       = [ConfigResource_skel RD_KAFKA_RESOURCE_BROKER ''0'']
   \<and> strtol (res_name (ConfigResource_skel RD_KAFKA_RESOURCE_BROKER ''0'')) = (0, 1)
   \<and> map rko_broker_id (rk_ops_enq (rd_kafka_DescribeConfigs example_rk
        (rko_args example_config_req) None)) = [0]"
proof -
  let ?b = "\<lambda>nm. ConfigResource_skel RD_KAFKA_RESOURCE_BROKER nm"
  have h: "broker_resources [ConfigResource_skel RD_KAFKA_RESOURCE_TOPIC ''t''] = []"
    "broker_resources [?b ''-3''] = ?b ''-3'' # []"
    "strtol (res_name (?b ''-3'')) = (- 3, 2)"
    "broker_resources [?b ''1'', ?b ''2''] = ?b ''1'' # ?b ''2'' # []"
    "strtol (res_name (?b ''1'')) = (1, 1)"
    "broker_resources (rko_args example_config_req) = [?b ''0'']"
    "strtol (res_name (?b ''0'')) = (0, 1)"
    "(0 :: int) \<le> INT32_MAX" "(1 :: int) \<le> INT32_MAX"
    by code_simp+
  from broker_preflight [where configs = "[ConfigResource_skel RD_KAFKA_RESOURCE_TOPIC ''t'']"
      and rk = example_rk and opts = None, THEN conjunct1] h(1)
  have a: "map rko_broker_id (rk_ops_enq (rd_kafka_AlterConfigs example_rk
        [ConfigResource_skel RD_KAFKA_RESOURCE_TOPIC ''t''] None)) = [- 1]"
    by blast
  from broker_preflight [where configs = "[?b ''-3'']" and c = "?b ''-3''" and rest = "[]"
      and v = "- 3" and n = 2 and rk = example_rk and opts = None,
      THEN conjunct2, THEN conjunct1] h(2,3)
  have b: "hd (sub_events (rd_kafka_DescribeConfigs example_rk [?b ''-3''] None))
       = Admin_result_fail RD_KAFKA_RESP_ERR__INVALID_ARG Callback_errstr"
    by simp
  from broker_preflight [where configs = "[?b ''1'', ?b ''2'']" and c = "?b ''1''"
      and c' = "?b ''2''" and rest' = "[]"
      and v = 1 and n = 1 and rk = example_rk and opts = None,
      THEN conjunct2, THEN conjunct2, THEN conjunct1] h(4,5,9)
  have c: "rk_ops_enq (rd_kafka_AlterConfigs example_rk [?b ''1'', ?b ''2''] None) = []
     \<and> hd (sub_events (rd_kafka_AlterConfigs example_rk [?b ''1'', ?b ''2''] None))
       = Admin_result_fail RD_KAFKA_RESP_ERR__CONFLICT Callback_errstr"
    by simp
  from broker_preflight [where configs = "rko_args example_config_req" and c = "?b ''0''"
      and v = 0 and n = 1 and rk = example_rk and opts = None,
      THEN conjunct2, THEN conjunct2, THEN conjunct2] h(6,7,8)
  have d: "map rko_broker_id (rk_ops_enq (rd_kafka_DescribeConfigs example_rk
        (rko_args example_config_req) None)) = [0]"
    by blast
  show ?thesis using h a b c d by blast
qed

theorem broker_preflight_counterexample:
  "length (broker_resources [ConfigResource_skel RD_KAFKA_RESOURCE_BROKER ''x'',
                              ConfigResource_skel RD_KAFKA_RESOURCE_BROKER ''1'']) = 2
   \<and> hd (sub_events (rd_kafka_AlterConfigs example_rk
            [ConfigResource_skel RD_KAFKA_RESOURCE_BROKER ''x'',
             ConfigResource_skel RD_KAFKA_RESOURCE_BROKER ''1''] None))
       = Admin_result_fail RD_KAFKA_RESP_ERR__INVALID_ARG Callback_errstr
   \<and> RD_KAFKA_RESP_ERR__INVALID_ARG \<noteq> RD_KAFKA_RESP_ERR__CONFLICT
   \<and> map rko_broker_id (rk_ops_enq (rd_kafka_AlterConfigs example_rk
            [ConfigResource_skel RD_KAFKA_RESOURCE_BROKER ''1x''] None)) = [1]"
  by code_simp

subsection \<open>The broker option\<close>

lemma options_new_broker:
  assumes "rd_kafka_AdminOptions_new rk api = Some os"
  shows "broker os = rd_kafka_confval_init_int ''broker'' 0 INT32_MAX (- 1)"
  using assms
  by (auto simp: rd_kafka_AdminOptions_new_def rd_kafka_AdminOptions_init_def split: if_splits)

lemma sint32_le_max: "sint (b :: 32 word) \<le> INT32_MAX"
  using sint_lt [of b] by (simp add: INT32_MAX_def)

text \<open>
  Claim C8, with the check of \<^verbatim>\<open>rd_kafka_confval_set_type\<close> taken from the range
  the options table gives for the option. For every admin API that has an
  options object and every broker id \<open>b\<close>: \<^verbatim>\<open>rd_kafka_AdminOptions_set_broker\<close>
  succeeds exactly when \<open>b\<close> is from 0 to \<^verbatim>\<open>INT32_MAX\<close> or is - 1; a \<open>b\<close> below - 1
  gives \<^verbatim>\<open>RD_KAFKA_RESP_ERR__INVALID_ARG\<close>; after a success the option reads \<open>b\<close>.
  The default of the option is - 1: a request made from fresh options has the
  broker id - 1, and the worker then waits for the controller.
\<close>

theorem set_broker_range:
  "rd_kafka_AdminOptions_new rk api = Some os \<longrightarrow>
     ((\<exists>os'. rd_kafka_AdminOptions_set_broker os b = Inr os')
        \<longleftrightarrow> (0 \<le> sint b \<and> sint b \<le> INT32_MAX) \<or> sint b = - 1)
     \<and> (sint b < - 1 \<longrightarrow>
          rd_kafka_AdminOptions_set_broker os b = Inl RD_KAFKA_RESP_ERR__INVALID_ARG)
     \<and> (- 1 \<le> sint b \<longrightarrow>
          (case rd_kafka_AdminOptions_set_broker os b of
             Inl err \<Rightarrow> False
           | Inr os' \<Rightarrow> rd_kafka_confval_get_int (broker os') = sint b))
     \<and> rd_kafka_confval_get_int (broker os) = - 1
     \<and> rko_broker_id (rd_kafka_admin_request_op_new rk (Some os) :: ('a, 'b) admin_request) = - 1
     \<and> admin_worker_redo rk cbs t None
          (rd_kafka_admin_request_op_new rk (Some os) :: ('a, 'b) admin_request) []
        = admin_worker_redo rk cbs t None
            ((rd_kafka_admin_request_op_new rk (Some os))
               \<lparr>rko_state := RD_KAFKA_ADMIN_STATE_WAIT_CONTROLLER, rko_tmr_started := True\<rparr>)
            [Enq_once_add_source ''timeout timer'', Timer_start_oneshot t]"
proof
  assume new: "rd_kafka_AdminOptions_new rk api = Some os"
  note b = options_new_broker [OF new]
  have set: "rd_kafka_AdminOptions_set_broker os b =
      (if sint b < - 1 then Inl RD_KAFKA_RESP_ERR__INVALID_ARG
       else Inr (os\<lparr>broker := (broker os)\<lparr>cv_v := sint b, cv_is_set := True\<rparr>\<rparr>))"
    using sint32_le_max [of b]
    by (auto simp: rd_kafka_AdminOptions_set_broker_def rd_kafka_confval_set_type_def b
        rd_kafka_confval_init_int_def Let_def)
  have redo: "admin_worker_redo rk cbs t None
          (rd_kafka_admin_request_op_new rk (Some os) :: ('a, 'b) admin_request) []
        = admin_worker_redo rk cbs t None
            ((rd_kafka_admin_request_op_new rk (Some os))
               \<lparr>rko_state := RD_KAFKA_ADMIN_STATE_WAIT_CONTROLLER, rko_tmr_started := True\<rparr>)
            [Enq_once_add_source ''timeout timer'', Timer_start_oneshot t]"
    by (subst admin_worker_redo.simps)
      (simp add: rd_kafka_admin_request_op_new_def Let_def b rd_kafka_confval_init_int_def
        rd_kafka_confval_get_int_def)
  show "((\<exists>os'. rd_kafka_AdminOptions_set_broker os b = Inr os')
        \<longleftrightarrow> (0 \<le> sint b \<and> sint b \<le> INT32_MAX) \<or> sint b = - 1)
     \<and> (sint b < - 1 \<longrightarrow>
          rd_kafka_AdminOptions_set_broker os b = Inl RD_KAFKA_RESP_ERR__INVALID_ARG)
     \<and> (- 1 \<le> sint b \<longrightarrow>
          (case rd_kafka_AdminOptions_set_broker os b of
             Inl err \<Rightarrow> False
           | Inr os' \<Rightarrow> rd_kafka_confval_get_int (broker os') = sint b))
     \<and> rd_kafka_confval_get_int (broker os) = - 1
     \<and> rko_broker_id (rd_kafka_admin_request_op_new rk (Some os) :: ('a, 'b) admin_request) = - 1
     \<and> admin_worker_redo rk cbs t None
          (rd_kafka_admin_request_op_new rk (Some os) :: ('a, 'b) admin_request) []
        = admin_worker_redo rk cbs t None
            ((rd_kafka_admin_request_op_new rk (Some os))
               \<lparr>rko_state := RD_KAFKA_ADMIN_STATE_WAIT_CONTROLLER, rko_tmr_started := True\<rparr>)
            [Enq_once_add_source ''timeout timer'', Timer_start_oneshot t]"
    unfolding redo [symmetric]
    using sint32_le_max [of b]
    by (auto simp: set b rd_kafka_confval_init_int_def rd_kafka_confval_get_int_def
        rd_kafka_admin_request_op_new_def Let_def)
qed

theorem set_broker_range_witness:
  "rd_kafka_AdminOptions_new example_rk (Some ''AlterConfigs'')
     = Some (rd_kafka_AdminOptions_init example_rk (Some ''AlterConfigs''))
   \<and> 0 \<le> sint (3 :: 32 word) \<and> sint (3 :: 32 word) \<le> INT32_MAX
   \<and> (\<exists>os'. rd_kafka_AdminOptions_set_broker
               (rd_kafka_AdminOptions_init example_rk (Some ''AlterConfigs'')) 3 = Inr os')
   \<and> sint (- 1 :: 32 word) = - 1
   \<and> (\<exists>os'. rd_kafka_AdminOptions_set_broker
               (rd_kafka_AdminOptions_init example_rk (Some ''AlterConfigs'')) (- 1) = Inr os')
   \<and> sint (- 2 :: 32 word) < - 1
   \<and> rd_kafka_AdminOptions_set_broker
        (rd_kafka_AdminOptions_init example_rk (Some ''AlterConfigs'')) (- 2)
       = Inl RD_KAFKA_RESP_ERR__INVALID_ARG
   \<and> rd_kafka_confval_get_int
        (broker (rd_kafka_AdminOptions_init example_rk (Some ''AlterConfigs''))) = - 1"
proof -
  let ?os = "rd_kafka_AdminOptions_init example_rk (Some ''AlterConfigs'')"
  have h: "rd_kafka_AdminOptions_new example_rk (Some ''AlterConfigs'') = Some ?os"
    "0 \<le> sint (3 :: 32 word)" "sint (3 :: 32 word) \<le> INT32_MAX"
    "sint (- 1 :: 32 word) = - 1" "sint (- 2 :: 32 word) < - 1"
    by code_simp+
  from set_broker_range [where rk = example_rk and api = "Some ''AlterConfigs''" and os = ?os
      and b = 3] h
  have a: "(\<exists>os'. rd_kafka_AdminOptions_set_broker ?os 3 = Inr os')
     \<and> rd_kafka_confval_get_int (broker ?os) = - 1"
    by blast
  from set_broker_range [where rk = example_rk and api = "Some ''AlterConfigs''" and os = ?os
      and b = "- 1"] h
  have b: "\<exists>os'. rd_kafka_AdminOptions_set_broker ?os (- 1) = Inr os'"
    by blast
  from set_broker_range [where rk = example_rk and api = "Some ''AlterConfigs''" and os = ?os
      and b = "- 2"] h
  have c: "rd_kafka_AdminOptions_set_broker ?os (- 2) = Inl RD_KAFKA_RESP_ERR__INVALID_ARG"
    by blast
  show ?thesis using h a b c by blast
qed

subsection \<open>The worker\<close>

text \<open>
  Claim C1. On every invocation of the worker where the client is not
  terminating and the error of the request is not \<^verbatim>\<open>RD_KAFKA_RESP_ERR__DESTROY\<close>, errors
  come before the deadline: an error code other than 0 makes the worker post a
  failure result with that code and destroy the request; with no error, a
  deadline that has passed makes it post a \<^verbatim>\<open>RD_KAFKA_RESP_ERR__TIMED_OUT\<close> failure and
  destroy the request; only with no error and time remaining does it dispatch on
  the state of the request.
\<close>

theorem worker_checks_errors_then_deadline:
  assumes "\<not> rk_terminating rk"
    and "rko_err rko \<noteq> RD_KAFKA_RESP_ERR__DESTROY"
  shows "(rko_err rko \<noteq> 0 \<longrightarrow>
            rd_kafka_admin_worker rk cbs rko =
              Inr (rko\<lparr>rko_tmr_started := False, rko_eonce := False\<rparr>,
                   Admin_result_fail (rko_err rko) (Failed_while (rko_state rko))
                     # snd (rd_kafka_admin_common_worker_destroy rko),
                   RD_KAFKA_OP_RES_HANDLED))
       \<and> (rko_err rko = 0 \<and> rk_timeout_remains_us rk (rko_abs_timeout rko) \<le> 0 \<longrightarrow>
            rd_kafka_admin_worker rk cbs rko =
              Inr (rko\<lparr>rko_tmr_started := False, rko_eonce := False\<rparr>,
                   Admin_result_fail RD_KAFKA_RESP_ERR__TIMED_OUT (Timed_out (rko_state rko))
                     # snd (rd_kafka_admin_common_worker_destroy rko),
                   RD_KAFKA_OP_RES_HANDLED))
       \<and> (rko_err rko = 0 \<and> 0 < rk_timeout_remains_us rk (rko_abs_timeout rko) \<longrightarrow>
            rd_kafka_admin_worker rk cbs rko =
              admin_worker_redo rk cbs (rk_timeout_remains_us rk (rko_abs_timeout rko)) None rko [])"
  using assms
  by (simp add: rd_kafka_admin_worker_def worker_destroy_def
      rd_kafka_admin_common_worker_destroy_def Let_def)

theorem worker_checks_errors_then_deadline_witness:
  "\<not> rk_terminating example_rk
   \<and> rko_err example_rko_failed = RD_KAFKA_RESP_ERR__TIMED_OUT
   \<and> rk_timeout_remains_us example_rk (rko_abs_timeout example_rko_failed) \<le> 0
   \<and> rd_kafka_admin_worker example_rk example_cbs example_rko_failed =
       Inr (example_rko_failed\<lparr>rko_tmr_started := False, rko_eonce := False\<rparr>,
            [Admin_result_fail RD_KAFKA_RESP_ERR__TIMED_OUT
               (Failed_while RD_KAFKA_ADMIN_STATE_WAIT_RESPONSE),
             Timer_stop, Enq_once_destroy],
            RD_KAFKA_OP_RES_HANDLED)
   \<and> rko_err example_rko_late = 0
   \<and> rk_timeout_remains_us example_rk (rko_abs_timeout example_rko_late) \<le> 0
   \<and> rd_kafka_admin_worker example_rk example_cbs example_rko_late =
       Inr (example_rko_late\<lparr>rko_tmr_started := False, rko_eonce := False\<rparr>,
            [Admin_result_fail RD_KAFKA_RESP_ERR__TIMED_OUT
               (Timed_out RD_KAFKA_ADMIN_STATE_WAIT_RESPONSE),
             Timer_stop, Enq_once_destroy],
            RD_KAFKA_OP_RES_HANDLED)
   \<and> rko_err example_rko = 0
   \<and> rk_timeout_remains_us example_rk (rko_abs_timeout example_rko) = 4000000
   \<and> rd_kafka_admin_worker example_rk example_cbs example_rko =
       admin_worker_redo example_rk example_cbs 4000000 None example_rko []"
proof -
  have rk: "\<not> rk_terminating example_rk" by code_simp
  have f: "rko_err example_rko_failed = RD_KAFKA_RESP_ERR__TIMED_OUT"
    "rko_err example_rko_failed \<noteq> RD_KAFKA_RESP_ERR__DESTROY"
    "rko_err example_rko_failed \<noteq> 0"
    "rk_timeout_remains_us example_rk (rko_abs_timeout example_rko_failed) \<le> 0"
    "rko_state example_rko_failed = RD_KAFKA_ADMIN_STATE_WAIT_RESPONSE"
    "snd (rd_kafka_admin_common_worker_destroy example_rko_failed)
       = [Timer_stop, Enq_once_destroy :: unit worker_event]"
    by code_simp+
  have l: "rko_err example_rko_late = 0"
    "rko_err example_rko_late \<noteq> RD_KAFKA_RESP_ERR__DESTROY"
    "rk_timeout_remains_us example_rk (rko_abs_timeout example_rko_late) \<le> 0"
    "rko_state example_rko_late = RD_KAFKA_ADMIN_STATE_WAIT_RESPONSE"
    "snd (rd_kafka_admin_common_worker_destroy example_rko_late)
       = [Timer_stop, Enq_once_destroy :: unit worker_event]"
    by code_simp+
  have k: "rko_err example_rko = 0"
    "rko_err example_rko \<noteq> RD_KAFKA_RESP_ERR__DESTROY"
    "rk_timeout_remains_us example_rk (rko_abs_timeout example_rko) = 4000000"
    by code_simp+
  from worker_checks_errors_then_deadline [OF rk f(2), of example_cbs] f
  have 1: "rd_kafka_admin_worker example_rk example_cbs example_rko_failed =
       Inr (example_rko_failed\<lparr>rko_tmr_started := False, rko_eonce := False\<rparr>,
            [Admin_result_fail RD_KAFKA_RESP_ERR__TIMED_OUT
               (Failed_while RD_KAFKA_ADMIN_STATE_WAIT_RESPONSE),
             Timer_stop, Enq_once_destroy],
            RD_KAFKA_OP_RES_HANDLED)"
    by simp
  from worker_checks_errors_then_deadline [OF rk l(2), of example_cbs] l
  have 2: "rd_kafka_admin_worker example_rk example_cbs example_rko_late =
       Inr (example_rko_late\<lparr>rko_tmr_started := False, rko_eonce := False\<rparr>,
            [Admin_result_fail RD_KAFKA_RESP_ERR__TIMED_OUT
               (Timed_out RD_KAFKA_ADMIN_STATE_WAIT_RESPONSE),
             Timer_stop, Enq_once_destroy],
            RD_KAFKA_OP_RES_HANDLED)"
    by simp
  from worker_checks_errors_then_deadline [OF rk k(2), of example_cbs] k
  have 3: "rd_kafka_admin_worker example_rk example_cbs example_rko =
       admin_worker_redo example_rk example_cbs 4000000 None example_rko []"
    by simp
  show ?thesis using rk f l k 1 2 3 by simp
qed

end
